theory Spec2Isabelle
  imports Main "HOL-Library.Word"
begin

unbundle bit_operations_syntax

section \<open>The ESP8266 UART driver (Sming/Arch/Esp8266/Components/driver/uart.cpp)\<close>

text \<open>
  The driver is embedded as state-passing functions over one record \<open>driver\<close> that holds
  the memory-mapped registers of both physical ports, the file-scope variables of uart.cpp
  (\<open>isrMask\<close>, \<open>uartInstances\<close>, \<open>notifyCallbacks\<close>) and the store of \<open>smg_uart_t\<close>
  objects. A pointer \<open>smg_uart_t*\<close> is an \<open>addr option\<close>, \<open>None\<close> being \<open>nullptr\<close>.
  User callbacks are opaque to the driver: calling one is recorded in \<open>trace\<close>.
\<close>

subsection \<open>Constants of driver/uart.h and espinc/uart_register.h\<close>

text \<open>
  Modelled from the spec: the two headers are not part of the sources at hand. The port
  numbering (two physical ports, one virtual port backed by port 0), the FIFO size and the
  bit positions are those of the ESP8266 register map the driver is written against.
\<close>

named_theorems uart_consts

definition UART0 :: nat where [uart_consts]: "UART0 = 0"
definition UART1 :: nat where [uart_consts]: "UART1 = 1"
definition UART2 :: nat where [uart_consts]: "UART2 = 2"
definition UART_PHYSICAL_COUNT :: nat where [uart_consts]: "UART_PHYSICAL_COUNT = 2"
definition UART_COUNT :: nat where [uart_consts]: "UART_COUNT = 3"

definition UART_RX_FIFO_SIZE :: nat where [uart_consts]: "UART_RX_FIFO_SIZE = 128"
definition UART_TX_FIFO_SIZE :: nat where [uart_consts]: "UART_TX_FIFO_SIZE = 128"
definition UART_PIN_DEFAULT :: "8 word" where [uart_consts]: "UART_PIN_DEFAULT = 255"
definition UART_CLK_FREQ :: "32 word" where [uart_consts]: "UART_CLK_FREQ = 80000000"

text \<open>Interrupt bits (\<open>BIT(n)\<close> is \<open>1 << n\<close>); the same positions serve INT_RAW, INT_ST,
  INT_ENA and INT_CLR.\<close>

definition UART_RXFIFO_FULL_INT :: "32 word" where "UART_RXFIFO_FULL_INT = push_bit 0 1"
definition UART_TXFIFO_EMPTY_INT :: "32 word" where "UART_TXFIFO_EMPTY_INT = push_bit 1 1"
definition UART_PARITY_ERR_INT :: "32 word" where "UART_PARITY_ERR_INT = push_bit 2 1"
definition UART_FRM_ERR_INT :: "32 word" where "UART_FRM_ERR_INT = push_bit 3 1"
definition UART_RXFIFO_OVF_INT :: "32 word" where "UART_RXFIFO_OVF_INT = push_bit 4 1"
definition UART_BRK_DET_INT :: "32 word" where "UART_BRK_DET_INT = push_bit 7 1"
definition UART_RXFIFO_TOUT_INT :: "32 word" where "UART_RXFIFO_TOUT_INT = push_bit 8 1"

text \<open>Bits of CONF0, fields of CONF1, the pin-swap bit.\<close>

definition UART_TXD_BRK :: "32 word" where "UART_TXD_BRK = push_bit 8 1"
definition UART_RXFIFO_RST :: "32 word" where "UART_RXFIFO_RST = push_bit 17 1"
definition UART_TXFIFO_RST :: "32 word" where "UART_TXFIFO_RST = push_bit 18 1"
definition UART_RX_TOUT_EN :: "32 word" where "UART_RX_TOUT_EN = push_bit 31 1"
definition UART_RXFIFO_FULL_THRHD_S :: nat where [uart_consts]: "UART_RXFIFO_FULL_THRHD_S = 0"
definition UART_RX_TOUT_THRHD_S :: nat where [uart_consts]: "UART_RX_TOUT_THRHD_S = 24"
definition UART_SWAP0 :: "32 word" where "UART_SWAP0 = push_bit 2 1"
definition UART_TXFIFO_EMPTY_THRHD_S :: nat where [uart_consts]: "UART_TXFIFO_EMPTY_THRHD_S = 8"
definition UART_RXFIFO_FULL_THRHD :: nat where [uart_consts]: "UART_RXFIFO_FULL_THRHD = 127"
definition UART_RX_TOUT_THRHD :: nat where [uart_consts]: "UART_RX_TOUT_THRHD = 127"
definition UART_TXFIFO_EMPTY_THRHD :: nat where [uart_consts]: "UART_TXFIFO_EMPTY_THRHD = 127"

text \<open>Option bit numbers of \<open>smg_uart_t::options\<close>.\<close>

definition UART_OPT_TXWAIT :: nat where [uart_consts]: "UART_OPT_TXWAIT = 0"
definition UART_OPT_CALLBACK_RAW :: nat where [uart_consts]: "UART_OPT_CALLBACK_RAW = 1"

text \<open>Defined in uart.cpp itself.\<close>

definition RX_FIFO_FULL_THRESHOLD :: nat where [uart_consts]: "RX_FIFO_FULL_THRESHOLD = 120"
definition RX_FIFO_HEADROOM :: nat where
  [uart_consts]: "RX_FIFO_HEADROOM = UART_RX_FIFO_SIZE - RX_FIFO_FULL_THRESHOLD"
definition DEFAULT_RX_HEADROOM :: nat where
  [uart_consts]: "DEFAULT_RX_HEADROOM = 32 - RX_FIFO_HEADROOM"

subsection \<open>Circular byte buffer (driver/SerialBuffer.h)\<close>

text \<open>
  Modelled from the spec: SerialBuffer.h is not part of the sources at hand. The spec's
  buffer has a fixed capacity, \<open>available\<close> bytes ready to read in arrival order,
  \<open>free_space = capacity - available\<close>, a write that fails when full and a read that
  fails when empty (\<open>readChar\<close> then yields \<open>-1\<close>).
\<close>

record SerialBuffer =
  capacity :: nat
  contents :: "8 word list"

definition available :: "SerialBuffer \<Rightarrow> 32 word" where
  "available b = of_nat (length (contents b))"

definition getFreeSpace :: "SerialBuffer \<Rightarrow> 32 word" where
  "getFreeSpace b = of_nat (capacity b - length (contents b))"

definition isEmpty :: "SerialBuffer \<Rightarrow> bool" where
  "isEmpty b = (contents b = [])"

definition writeChar :: "8 word \<Rightarrow> SerialBuffer \<Rightarrow> bool \<times> SerialBuffer" where
  "writeChar c b =
     (if length (contents b) < capacity b then (True, b\<lparr>contents := contents b @ [c]\<rparr>)
      else (False, b))"

definition readChar :: "SerialBuffer \<Rightarrow> int \<times> SerialBuffer" where
  "readChar b =
     (case contents b of
        [] \<Rightarrow> (- 1, b)
      | c # cs \<Rightarrow> (uint c, b\<lparr>contents := cs\<rparr>))"

definition clear :: "SerialBuffer \<Rightarrow> SerialBuffer" where
  "clear b = b\<lparr>contents := []\<rparr>"

subsection \<open>Port instance, registers, driver state\<close>

datatype smg_uart_mode_t = UART_FULL | UART_RX_ONLY | UART_TX_ONLY

type_synonym addr = nat

text \<open>
  Modelled from the spec: \<open>struct smg_uart_t\<close> is declared in driver/uart.h. The buffers
  are owned by the instance, so they are fields; \<open>callback\<close> is the identity of the
  registered data callback, if any.
\<close>

record smg_uart_t =
  uart_nr :: nat
  baud_rate :: "32 word"
  mode :: smg_uart_mode_t
  options :: "8 word"
  rx_pin :: "8 word"
  tx_pin :: "8 word"
  rx_headroom :: "8 word"
  status :: "16 word"
  rx_buffer :: "SerialBuffer option"
  tx_buffer :: "SerialBuffer option"
  callback :: "nat option"
  param :: nat

record smg_uart_config_t =
  cfg_uart_nr :: nat
  cfg_tx_pin :: "8 word"
  cfg_rx_pin :: "8 word"
  cfg_mode :: smg_uart_mode_t
  cfg_options :: "8 word"
  cfg_baudrate :: "32 word"
  cfg_format :: "32 word"
  cfg_rx_size :: "32 word"
  cfg_tx_size :: "32 word"

record smg_uart_intr_config_t =
  rx_timeout_thresh :: "8 word"
  txfifo_empty_intr_thresh :: "8 word"
  rxfifo_full_thresh :: "8 word"

text \<open>The registers of one physical port, with the two hardware FIFOs behind them.\<close>

record uart_regs =
  INT_RAW :: "32 word"
  INT_ENA :: "32 word"
  CONF0 :: "32 word"
  CONF1 :: "32 word"
  CLKDIV :: "32 word"
  rx_fifo :: "8 word list"
  tx_fifo :: "8 word list"

datatype pin_function =
    FUNC_UNKNOWN | FUNC_GPIO
  | FUNC_UART0_TXD | FUNC_UART0_TXD_BK | FUNC_UART0_RXD | FUNC_UART0_CTS | FUNC_UART0_RTS
  | FUNC_UART1_TXD_BK

datatype smg_uart_notify_code_t =
    UART_NOTIFY_AFTER_OPEN | UART_NOTIFY_BEFORE_CLOSE | UART_NOTIFY_AFTER_WRITE
  | UART_NOTIFY_BEFORE_READ | UART_NOTIFY_WAIT_TX

datatype event =
    Notify nat addr smg_uart_notify_code_t
  | DataCallback nat addr "32 word"

record driver =
  regs :: "nat \<Rightarrow> uart_regs"
  SWAP_REG :: "32 word"
  io_mux :: "nat \<Rightarrow> pin_function"
  intr_enabled :: bool
  intr_attached :: bool
  isrMask :: "8 word"
  uartInstances :: "nat \<Rightarrow> addr option"
  notifyCallbacks :: "nat \<Rightarrow> nat option"
  heap :: "addr \<Rightarrow> smg_uart_t"
  next_addr :: addr
  can_new_uart :: bool
  can_alloc_buffer :: "nat \<Rightarrow> bool"
  trace :: "event list"

subsection \<open>Hardware register interface\<close>

text \<open>
  Modelled from the spec: the register access macros and the hardware behind them are an
  external collaborator. INT_ST is the raw status masked by the enable register; a write
  to INT_CLR clears the written bits of the raw status; a read of the FIFO register takes
  the oldest received byte, a write appends a byte to transmit; setting a FIFO reset bit
  in CONF0 empties that FIFO. The FIFO counts of the STATUS register are 8-bit fields.
\<close>

definition upd_regs :: "nat \<Rightarrow> (uart_regs \<Rightarrow> uart_regs) \<Rightarrow> driver \<Rightarrow> driver" where
  "upd_regs nr f s = s\<lparr>regs := (regs s)(nr := f (regs s nr))\<rparr>"

definition READ_INT_ST :: "nat \<Rightarrow> driver \<Rightarrow> 32 word" where
  "READ_INT_ST nr s = INT_RAW (regs s nr) AND INT_ENA (regs s nr)"

definition WRITE_INT_ENA :: "nat \<Rightarrow> 32 word \<Rightarrow> driver \<Rightarrow> driver" where
  "WRITE_INT_ENA nr v = upd_regs nr (\<lambda>r. r\<lparr>INT_ENA := v\<rparr>)"

definition SET_INT_ENA_MASK :: "nat \<Rightarrow> 32 word \<Rightarrow> driver \<Rightarrow> driver" where
  "SET_INT_ENA_MASK nr m s = WRITE_INT_ENA nr (INT_ENA (regs s nr) OR m) s"

definition CLEAR_INT_ENA_MASK :: "nat \<Rightarrow> 32 word \<Rightarrow> driver \<Rightarrow> driver" where
  "CLEAR_INT_ENA_MASK nr m s = WRITE_INT_ENA nr (INT_ENA (regs s nr) AND NOT m) s"

definition WRITE_INT_CLR :: "nat \<Rightarrow> 32 word \<Rightarrow> driver \<Rightarrow> driver" where
  "WRITE_INT_CLR nr v = upd_regs nr (\<lambda>r. r\<lparr>INT_RAW := INT_RAW r AND NOT v\<rparr>)"

definition WRITE_CONF0 :: "nat \<Rightarrow> 32 word \<Rightarrow> driver \<Rightarrow> driver" where
  "WRITE_CONF0 nr v =
     upd_regs nr (\<lambda>r. r\<lparr>CONF0 := v,
       rx_fifo := (if v AND UART_RXFIFO_RST \<noteq> 0 then [] else rx_fifo r),
       tx_fifo := (if v AND UART_TXFIFO_RST \<noteq> 0 then [] else tx_fifo r)\<rparr>)"

definition SET_CONF0_MASK :: "nat \<Rightarrow> 32 word \<Rightarrow> driver \<Rightarrow> driver" where
  "SET_CONF0_MASK nr m s = WRITE_CONF0 nr (CONF0 (regs s nr) OR m) s"

definition CLEAR_CONF0_MASK :: "nat \<Rightarrow> 32 word \<Rightarrow> driver \<Rightarrow> driver" where
  "CLEAR_CONF0_MASK nr m s = WRITE_CONF0 nr (CONF0 (regs s nr) AND NOT m) s"

definition WRITE_CONF1 :: "nat \<Rightarrow> 32 word \<Rightarrow> driver \<Rightarrow> driver" where
  "WRITE_CONF1 nr v = upd_regs nr (\<lambda>r. r\<lparr>CONF1 := v\<rparr>)"

definition WRITE_CLKDIV :: "nat \<Rightarrow> 32 word \<Rightarrow> driver \<Rightarrow> driver" where
  "WRITE_CLKDIV nr v = upd_regs nr (\<lambda>r. r\<lparr>CLKDIV := v\<rparr>)"

definition READ_FIFO :: "nat \<Rightarrow> driver \<Rightarrow> 8 word \<times> driver" where
  "READ_FIFO nr s =
     (case rx_fifo (regs s nr) of
        [] \<Rightarrow> (0, s)
      | c # cs \<Rightarrow> (c, upd_regs nr (\<lambda>r. r\<lparr>rx_fifo := cs\<rparr>) s))"

definition WRITE_FIFO :: "nat \<Rightarrow> 32 word \<Rightarrow> driver \<Rightarrow> driver" where
  "WRITE_FIFO nr v = upd_regs nr (\<lambda>r. r\<lparr>tx_fifo := tx_fifo r @ [ucast v]\<rparr>)"

definition PIN_FUNC_SELECT :: "nat \<Rightarrow> pin_function \<Rightarrow> driver \<Rightarrow> driver" where
  "PIN_FUNC_SELECT pin f s = s\<lparr>io_mux := (io_mux s)(pin := f)\<rparr>"

definition ETS_UART_INTR_DISABLE :: "driver \<Rightarrow> driver" where
  "ETS_UART_INTR_DISABLE s = s\<lparr>intr_enabled := False\<rparr>"

definition ETS_UART_INTR_ENABLE :: "driver \<Rightarrow> driver" where
  "ETS_UART_INTR_ENABLE s = s\<lparr>intr_enabled := True\<rparr>"

definition ETS_UART_INTR_ATTACH :: "driver \<Rightarrow> driver" where
  "ETS_UART_INTR_ATTACH s = s\<lparr>intr_attached := True\<rparr>"

definition bitRead :: "'a::len word \<Rightarrow> nat \<Rightarrow> bool" where
  "bitRead v n = bit v n"

definition bitSet :: "'a::len word \<Rightarrow> nat \<Rightarrow> 'a word" where
  "bitSet v n = v OR push_bit n 1"

definition bitClear :: "'a::len word \<Rightarrow> nat \<Rightarrow> 'a word" where
  "bitClear v n = v AND NOT (push_bit n 1)"

subsection \<open>File-local helpers of uart.cpp\<close>

definition uart_rxfifo_count :: "nat \<Rightarrow> driver \<Rightarrow> 8 word" where
  "uart_rxfifo_count nr s = of_nat (length (rx_fifo (regs s nr)))"

definition uart_txfifo_count :: "nat \<Rightarrow> driver \<Rightarrow> 8 word" where
  "uart_txfifo_count nr s = of_nat (length (tx_fifo (regs s nr)))"

text \<open>\<open>UART_TX_FIFO_SIZE - uart_txfifo_count(nr) - 1\<close>, returned as \<open>uint8_t\<close>.\<close>

definition uart_txfifo_free :: "nat \<Rightarrow> driver \<Rightarrow> 8 word" where
  "uart_txfifo_free nr s = of_nat UART_TX_FIFO_SIZE - uart_txfifo_count nr s - 1"

definition uart_txfifo_full :: "nat \<Rightarrow> driver \<Rightarrow> bool" where
  "uart_txfifo_full nr s = (unat (uart_txfifo_count nr s) \<ge> UART_TX_FIFO_SIZE - 1)"

definition notify :: "addr \<Rightarrow> smg_uart_notify_code_t \<Rightarrow> driver \<Rightarrow> driver" where
  "notify a code s =
     (case notifyCallbacks s (uart_nr (heap s a)) of
        None \<Rightarrow> s
      | Some cb \<Rightarrow> s\<lparr>trace := trace s @ [Notify cb a code]\<rparr>)"

definition uart_isr_enabled :: "nat \<Rightarrow> driver \<Rightarrow> bool" where
  "uart_isr_enabled nr s = bitRead (isrMask s) nr"

definition is_physical :: "int \<Rightarrow> bool" where
  "is_physical nr = (nr \<ge> 0 \<and> nr < int UART_PHYSICAL_COUNT)"

definition is_physical_uart :: "addr option \<Rightarrow> driver \<Rightarrow> bool" where
  "is_physical_uart uart s =
     (case uart of None \<Rightarrow> False | Some a \<Rightarrow> is_physical (int (uart_nr (heap s a))))"

definition get_physical :: "addr option \<Rightarrow> driver \<Rightarrow> addr option" where
  "get_physical uart s =
     (case uart of
        None \<Rightarrow> None
      | Some a \<Rightarrow> if uart_nr (heap s a) = UART2 then uartInstances s UART0 else Some a)"

text \<open>Inline helpers of driver/uart.h (modelled from the spec: a role is enabled unless
  the mode is the opposite single role).\<close>

definition smg_uart_rx_enabled :: "addr option \<Rightarrow> driver \<Rightarrow> bool" where
  "smg_uart_rx_enabled uart s =
     (case uart of None \<Rightarrow> False | Some a \<Rightarrow> mode (heap s a) \<noteq> UART_TX_ONLY)"

definition smg_uart_tx_enabled :: "addr option \<Rightarrow> driver \<Rightarrow> bool" where
  "smg_uart_tx_enabled uart s =
     (case uart of None \<Rightarrow> False | Some a \<Rightarrow> mode (heap s a) \<noteq> UART_RX_ONLY)"

definition upd_uart :: "addr \<Rightarrow> (smg_uart_t \<Rightarrow> smg_uart_t) \<Rightarrow> driver \<Rightarrow> driver" where
  "upd_uart a f s = s\<lparr>heap := (heap s)(a := f (heap s a))\<rparr>"

definition smg_uart_get_uart :: "nat \<Rightarrow> driver \<Rightarrow> addr option" where
  "smg_uart_get_uart nr s = (if nr < UART_COUNT then uartInstances s nr else None)"

definition smg_uart_disable_interrupts :: "driver \<Rightarrow> driver" where
  "smg_uart_disable_interrupts s = ETS_UART_INTR_DISABLE s"

definition smg_uart_restore_interrupts :: "driver \<Rightarrow> driver" where
  "smg_uart_restore_interrupts s = (if isrMask s \<noteq> 0 then ETS_UART_INTR_ENABLE s else s)"

subsection \<open>Baud rate\<close>

definition smg_uart_set_baudrate_reg :: "int \<Rightarrow> 32 word \<Rightarrow> driver \<Rightarrow> 32 word \<times> driver" where
  "smg_uart_set_baudrate_reg nr baud s =
     (if \<not> is_physical nr \<or> baud = 0 then (0, s)
      else
        let clkdiv = UART_CLK_FREQ div baud;
            s1 = WRITE_CLKDIV (nat nr) clkdiv s
        in (if clkdiv \<noteq> 0 then UART_CLK_FREQ div clkdiv else 0, s1))"

definition smg_uart_set_baudrate :: "addr option \<Rightarrow> 32 word \<Rightarrow> driver \<Rightarrow> 32 word \<times> driver" where
  "smg_uart_set_baudrate uart baud s =
     (case get_physical uart s of
        None \<Rightarrow> (0, s)
      | Some p \<Rightarrow>
          let (b, s1) = smg_uart_set_baudrate_reg (int (uart_nr (heap s p))) baud s
          in (b, upd_uart p (\<lambda>u. u\<lparr>baud_rate := b\<rparr>) s1))"

subsection \<open>Interrupt service\<close>

text \<open>
  The drain loop \<open>while(read-- != 0) { c = READ(FIFO); rx_buffer->writeChar(c); }\<close> of
  \<open>handle_uart_interrupt\<close>. \<open>read\<close> is a \<open>size_t\<close> (32 bits on this target); the
  post-decrement also happens on the test that ends the loop, and the function returns
  the value \<open>read\<close> holds after the loop together with the new state.
\<close>

definition rx_drain_body :: "nat \<Rightarrow> addr \<Rightarrow> driver \<Rightarrow> driver" where
  "rx_drain_body nr a s =
     (let (c, s1) = READ_FIFO nr s
      in upd_uart a (\<lambda>u. u\<lparr>rx_buffer := map_option (\<lambda>b. snd (writeChar c b)) (rx_buffer u)\<rparr>) s1)"

function rx_drain_loop :: "32 word \<Rightarrow> nat \<Rightarrow> addr \<Rightarrow> driver \<Rightarrow> 32 word \<times> driver" where
  "rx_drain_loop read nr a s =
     (if read \<noteq> 0 then rx_drain_loop (read - 1) nr a (rx_drain_body nr a s)
      else (read - 1, s))"
  by pat_completeness auto
termination
  by (relation "measure (\<lambda>(read, nr, a, s). unat read)") (auto simp: unat_minus_one unat_gt_0)

declare rx_drain_loop.simps [simp del]

text \<open>The refill loop \<open>while(count-- != 0) WRITE(FIFO, tx_buffer->readChar())\<close>.\<close>

definition tx_fill_body :: "nat \<Rightarrow> addr \<Rightarrow> driver \<Rightarrow> driver" where
  "tx_fill_body nr a s =
     (case tx_buffer (heap s a) of
        None \<Rightarrow> s
      | Some b \<Rightarrow>
          let (c, b') = readChar b
          in WRITE_FIFO nr (word_of_int c) (upd_uart a (\<lambda>u. u\<lparr>tx_buffer := Some b'\<rparr>) s))"

function tx_fill_loop :: "32 word \<Rightarrow> nat \<Rightarrow> addr \<Rightarrow> driver \<Rightarrow> 32 word \<times> driver" where
  "tx_fill_loop count nr a s =
     (if count \<noteq> 0 then tx_fill_loop (count - 1) nr a (tx_fill_body nr a s)
      else (count - 1, s))"
  by pat_completeness auto
termination
  by (relation "measure (\<lambda>(count, nr, a, s). unat count)") (auto simp: unat_minus_one unat_gt_0)

declare tx_fill_loop.simps [simp del]

text \<open>Lines 181-210 of \<open>handle_uart_interrupt\<close>: the receive events. The result is the
  status word for the callback and the new state.\<close>

definition isr_rx_events :: "nat \<Rightarrow> addr \<Rightarrow> 32 word \<Rightarrow> 32 word \<Rightarrow> driver \<Rightarrow> 32 word \<times> driver" where
  "isr_rx_events nr a usis st s =
     (if usis AND (UART_RXFIFO_FULL_INT OR UART_RXFIFO_TOUT_INT OR UART_RXFIFO_OVF_INT) \<noteq> 0 then
        let (read, st1, s1) =
              (case rx_buffer (heap s a) of
                 None \<Rightarrow> (0, st, s)
               | Some b \<Rightarrow>
                   let avail = ucast (uart_rxfifo_count nr s) :: 32 word;
                       space = getFreeSpace b;
                       read = (if avail \<le> space then avail else space);
                       space = space - read;
                       (read, s1) = rx_drain_loop read nr a s
                   in (read,
                       if space > ucast (rx_headroom (heap s1 a))
                       then st AND NOT UART_RXFIFO_FULL_INT else st,
                       s1))
        in (st1,
            if usis AND UART_RXFIFO_OVF_INT \<noteq> 0 then CLEAR_INT_ENA_MASK nr UART_RXFIFO_OVF_INT s1
            else if read = 0
              then CLEAR_INT_ENA_MASK nr (UART_RXFIFO_FULL_INT OR UART_RXFIFO_TOUT_INT) s1
            else s1)
      else (st, s))"

text \<open>Lines 213-232: the transmit-FIFO-empty event.\<close>

definition isr_tx_events :: "nat \<Rightarrow> addr \<Rightarrow> 32 word \<Rightarrow> 32 word \<Rightarrow> driver \<Rightarrow> 32 word \<times> driver" where
  "isr_tx_events nr a usis st s =
     (if usis AND UART_TXFIFO_EMPTY_INT \<noteq> 0 then
        let s1 = (case tx_buffer (heap s a) of
                    None \<Rightarrow> s
                  | Some b \<Rightarrow>
                      let space = ucast (uart_txfifo_free nr s) :: 32 word;
                          avail = available b;
                          count = (if avail \<le> space then avail else space)
                      in snd (tx_fill_loop count nr a s))
        in if uart_txfifo_count nr s1 = 0
           then (st, CLEAR_INT_ENA_MASK nr UART_TXFIFO_EMPTY_INT s1)
           else (st AND NOT UART_TXFIFO_EMPTY_INT, s1)
      else (st, s))"

definition handle_uart_interrupt :: "nat \<Rightarrow> addr option \<Rightarrow> driver \<Rightarrow> driver" where
  "handle_uart_interrupt nr uart s =
     (let usis = READ_INT_ST nr s in
      if usis = 0 then s
      else case uart of
        None \<Rightarrow> WRITE_INT_ENA nr 0 s
      | Some a \<Rightarrow>
          if \<not> uart_isr_enabled nr s then WRITE_INT_ENA nr 0 s
          else
            let (st, s2) =
                  (if \<not> bitRead (options (heap s a)) UART_OPT_CALLBACK_RAW then
                     let (st1, s1) = isr_rx_events nr a usis usis s
                     in isr_tx_events nr a usis st1 s1
                   else (usis, s));
                s3 = upd_uart a (\<lambda>u. u\<lparr>status := status u OR ucast st\<rparr>) s2;
                s4 = (case callback (heap s3 a) of
                        None \<Rightarrow> s3
                      | Some cb \<Rightarrow>
                          if st \<noteq> 0 then s3\<lparr>trace := trace s3 @ [DataCallback cb a st]\<rparr> else s3)
            in WRITE_INT_CLR nr usis s4)"

definition uart_isr :: "driver \<Rightarrow> driver" where
  "uart_isr s =
     (let s1 = handle_uart_interrupt UART0 (uartInstances s UART0) s
      in handle_uart_interrupt UART1 (uartInstances s1 UART1) s1)"

subsection \<open>Pin multiplexer\<close>

definition uart0_pin_select :: "nat \<Rightarrow> driver \<Rightarrow> driver" where
  "uart0_pin_select pin s =
     (if pin = 1 then PIN_FUNC_SELECT 1 FUNC_UART0_TXD s
      else if pin = 2 then PIN_FUNC_SELECT 2 FUNC_UART0_TXD_BK s
      else if pin = 3 then PIN_FUNC_SELECT 3 FUNC_UART0_RXD s
      else if pin = 13 then PIN_FUNC_SELECT 13 FUNC_UART0_CTS s
      else if pin = 15 then PIN_FUNC_SELECT 15 FUNC_UART0_RTS s
      else s)"

definition uart0_pin_restore :: "nat \<Rightarrow> driver \<Rightarrow> driver" where
  "uart0_pin_restore pin s =
     (if pin = 1 \<or> pin = 2 \<or> pin = 3 \<or> pin = 13 \<or> pin = 15 then PIN_FUNC_SELECT pin FUNC_GPIO s
      else s)"

definition uart1_pin_select :: "nat \<Rightarrow> driver \<Rightarrow> driver" where
  "uart1_pin_select pin s = (if pin = 2 then PIN_FUNC_SELECT 2 FUNC_UART1_TXD_BK s else s)"

definition uart1_pin_restore :: "nat \<Rightarrow> driver \<Rightarrow> driver" where
  "uart1_pin_restore pin s = (if pin = 2 then PIN_FUNC_SELECT 2 FUNC_GPIO s else s)"

definition smg_uart_swap :: "addr option \<Rightarrow> int \<Rightarrow> driver \<Rightarrow> driver" where
  "smg_uart_swap uart tx s =
     (case uart of
        None \<Rightarrow> s
      | Some a \<Rightarrow>
          if uart_nr (heap s a) = UART0 then
            let s1 = uart0_pin_restore (unat (tx_pin (heap s a))) s;
                s2 = uart0_pin_restore (unat (rx_pin (heap s1 a))) s1;
                u = heap s2 a;
                s3 = (if tx_pin u = 1 \<or> tx_pin u = 2 \<or> rx_pin u = 3 then
                        let t1 = (if smg_uart_tx_enabled uart s2
                                  then upd_uart a (\<lambda>u. u\<lparr>tx_pin := 15\<rparr>) s2 else s2);
                            t2 = (if smg_uart_rx_enabled uart t1
                                  then upd_uart a (\<lambda>u. u\<lparr>rx_pin := 13\<rparr>) t1 else t1)
                        in t2\<lparr>SWAP_REG := SWAP_REG t2 OR UART_SWAP0\<rparr>
                      else
                        let t1 = (if smg_uart_tx_enabled uart s2
                                  then upd_uart a (\<lambda>u. u\<lparr>tx_pin := (if tx = 2 then 2 else 1)\<rparr>) s2
                                  else s2);
                            t2 = (if smg_uart_rx_enabled uart t1
                                  then upd_uart a (\<lambda>u. u\<lparr>rx_pin := 3\<rparr>) t1 else t1)
                        in t2\<lparr>SWAP_REG := SWAP_REG t2 AND NOT UART_SWAP0\<rparr>);
                s4 = uart0_pin_select (unat (tx_pin (heap s3 a))) s3
            in uart0_pin_select (unat (rx_pin (heap s4 a))) s4
          else s)"

definition smg_uart_set_tx :: "addr option \<Rightarrow> int \<Rightarrow> driver \<Rightarrow> bool \<times> driver" where
  "smg_uart_set_tx uart tx s =
     (case uart of
        None \<Rightarrow> (False, s)
      | Some a \<Rightarrow>
          if uart_nr (heap s a) = UART0 \<and> smg_uart_tx_enabled uart s then
            let s1 = uart0_pin_restore (unat (tx_pin (heap s a))) s;
                s2 = upd_uart a (\<lambda>u. u\<lparr>tx_pin := (if tx = 2 then 2 else 1)\<rparr>) s1
            in (True, uart0_pin_select (unat (tx_pin (heap s2 a))) s2)
          else (False, s))"

definition smg_uart_set_pins :: "addr option \<Rightarrow> int \<Rightarrow> int \<Rightarrow> driver \<Rightarrow> bool \<times> driver" where
  "smg_uart_set_pins uart tx rx s =
     (case uart of
        None \<Rightarrow> (False, s)
      | Some a \<Rightarrow>
          if uart_nr (heap s a) \<noteq> UART0 then (False, s)
          else
            let (res1, s1) =
                  (if smg_uart_tx_enabled uart s \<and> uint (tx_pin (heap s a)) \<noteq> tx then
                     if rx = 13 \<and> tx = 15 then (True, smg_uart_swap uart 15 s)
                     else if rx = 3 \<and> (tx = 1 \<or> tx = 2) then
                       if uint (rx_pin (heap s a)) \<noteq> rx then (True, smg_uart_swap uart tx s)
                       else (True, snd (smg_uart_set_tx uart tx s))
                     else (False, s)
                   else (True, s))
            in if smg_uart_rx_enabled uart s1 \<and> uint (rx_pin (heap s1 a)) \<noteq> rx then
                 if rx = 13 \<and> tx = 15 then (res1, smg_uart_swap uart 15 s1)
                 else (False, s1)
               else (res1, s1))"

subsection \<open>Read, write, flush, status\<close>

text \<open>
  \<open>smg_uart_read\<close>: the caller's array is the list of bytes stored so far, so \<open>read\<close>
  is its length; \<open>buffer\<close> says whether the pointer passed is non-null and \<open>sz\<close>
  is the parameter \<open>size\<close>.
\<close>

function read_buffer_loop :: "32 word \<Rightarrow> 8 word list \<Rightarrow> SerialBuffer \<Rightarrow> 8 word list \<times> SerialBuffer" where
  "read_buffer_loop sz buf b =
     (if length buf < unat sz \<and> \<not> isEmpty b then
        let (c, b') = readChar b in read_buffer_loop sz (buf @ [word_of_int c]) b'
      else (buf, b))"
  by pat_completeness auto
termination
  by (relation "measure (\<lambda>(sz, buf, b). unat sz - length buf)") auto

declare read_buffer_loop.simps [simp del]

function read_fifo_loop :: "nat \<Rightarrow> 32 word \<Rightarrow> 8 word list \<Rightarrow> driver \<Rightarrow> 8 word list \<times> driver" where
  "read_fifo_loop nr sz buf s =
     (if length buf < unat sz \<and> uart_rxfifo_count nr s \<noteq> 0 then
        let (c, s') = READ_FIFO nr s in read_fifo_loop nr sz (buf @ [c]) s'
      else (buf, s))"
  by pat_completeness auto
termination
  by (relation "measure (\<lambda>(nr, sz, buf, s). unat sz - length buf)") auto

declare read_fifo_loop.simps [simp del]

definition smg_uart_read :: "addr option \<Rightarrow> bool \<Rightarrow> 32 word \<Rightarrow> driver \<Rightarrow> 8 word list \<times> driver" where
  "smg_uart_read uart buffer sz s =
     (case uart of
        None \<Rightarrow> ([], s)
      | Some a \<Rightarrow>
          if \<not> smg_uart_rx_enabled uart s \<or> \<not> buffer \<or> sz = 0 then ([], s)
          else
            let s1 = notify a UART_NOTIFY_BEFORE_READ s;
                (buf1, s2) =
                  (case rx_buffer (heap s1 a) of
                     None \<Rightarrow> ([], s1)
                   | Some b \<Rightarrow>
                       let (buf, b') = read_buffer_loop sz [] b
                       in (buf, upd_uart a (\<lambda>u. u\<lparr>rx_buffer := Some b'\<rparr>) s1))
            in if is_physical_uart uart s2 then
                 let nr = uart_nr (heap s2 a);
                     (buf2, s3) = read_fifo_loop nr sz buf1 s2;
                     s4 = WRITE_INT_CLR nr
                            (UART_RXFIFO_FULL_INT OR UART_RXFIFO_TOUT_INT OR UART_RXFIFO_OVF_INT) s3
                 in (buf2, SET_INT_ENA_MASK nr
                            (UART_RXFIFO_FULL_INT OR UART_RXFIFO_TOUT_INT OR UART_RXFIFO_OVF_INT) s4)
               else (buf1, s2))"

definition smg_uart_rx_available :: "addr option \<Rightarrow> driver \<Rightarrow> 32 word \<times> driver" where
  "smg_uart_rx_available uart s =
     (case uart of
        None \<Rightarrow> (0, s)
      | Some a \<Rightarrow>
          if \<not> smg_uart_rx_enabled uart s then (0, s)
          else
            let s1 = smg_uart_disable_interrupts s;
                avail = (if is_physical_uart uart s1
                         then ucast (uart_rxfifo_count (uart_nr (heap s1 a)) s1) else 0);
                avail = (case rx_buffer (heap s1 a) of
                           None \<Rightarrow> avail
                         | Some b \<Rightarrow> avail + available b)
            in (avail, smg_uart_restore_interrupts s1))"

definition smg_uart_start_isr :: "addr option \<Rightarrow> driver \<Rightarrow> driver" where
  "smg_uart_start_isr uart s =
     (case uart of
        None \<Rightarrow> s
      | Some a \<Rightarrow>
          if \<not> is_physical_uart uart s then s
          else
            let nr = uart_nr (heap s a);
                rx = smg_uart_rx_enabled uart s;
                conf1 = (if rx then
                           push_bit UART_RXFIFO_FULL_THRHD_S (of_nat RX_FIFO_FULL_THRESHOLD)
                             OR push_bit UART_RX_TOUT_THRHD_S 2 OR UART_RX_TOUT_EN
                         else 0);
                intena = (if rx then
                            UART_RXFIFO_FULL_INT OR UART_RXFIFO_TOUT_INT OR UART_BRK_DET_INT
                              OR UART_RXFIFO_OVF_INT
                          else 0);
                s1 = WRITE_CONF1 nr conf1 s;
                s2 = WRITE_INT_CLR nr 65535 s1;
                s3 = WRITE_INT_ENA nr intena s2;
                oldmask = isrMask s3;
                s4 = s3\<lparr>isrMask := bitSet (isrMask s3) nr\<rparr>
            in if oldmask = 0
               then ETS_UART_INTR_ENABLE (ETS_UART_INTR_ATTACH (ETS_UART_INTR_DISABLE s4))
               else s4)"

text \<open>
  \<open>smg_uart_write\<close>: the caller's bytes are the list \<open>buf\<close> (\<open>None\<close> for a null pointer)
  and \<open>size\<close> is its length. \<open>write_fifo_loop\<close> and \<open>write_buffer_loop\<close> are the inner
  loop over the FIFO and the inner loop over the buffer, \<open>write_pass\<close> one pass of the outer loop up to the notification. With the
  transmit-wait option the outer loop repeats until every byte is accepted; nothing in a
  sequential run empties a full FIFO, so the loop is a partial function: \<open>None\<close> when it
  does not return.
\<close>

function write_fifo_loop :: "nat \<Rightarrow> 8 word list \<Rightarrow> nat \<Rightarrow> driver \<Rightarrow> nat \<times> driver" where
  "write_fifo_loop nr buf written s =
     (if written < length buf \<and> \<not> uart_txfifo_full nr s then
        write_fifo_loop nr buf (Suc written) (WRITE_FIFO nr (ucast (buf ! written)) s)
      else (written, s))"
  by pat_completeness auto
termination
  by (relation "measure (\<lambda>(nr, buf, written, s). length buf - written)") auto

declare write_fifo_loop.simps [simp del]

function write_buffer_loop :: "8 word list \<Rightarrow> nat \<Rightarrow> SerialBuffer \<Rightarrow> nat \<times> SerialBuffer" where
  "write_buffer_loop buf written b =
     (if written < length buf \<and> fst (writeChar (buf ! written) b) then
        write_buffer_loop buf (Suc written) (snd (writeChar (buf ! written) b))
      else (written, b))"
  by pat_completeness auto
termination
  by (relation "measure (\<lambda>(buf, written, b). length buf - written)") auto

declare write_buffer_loop.simps [simp del]

definition write_pass :: "addr \<Rightarrow> 8 word list \<Rightarrow> nat \<Rightarrow> driver \<Rightarrow> nat \<times> driver" where
  "write_pass a buf written s =
     (let nr = uart_nr (heap s a);
          (w1, s1) =
            (if is_physical_uart (Some a) s \<and>
                (case tx_buffer (heap s a) of None \<Rightarrow> True | Some b \<Rightarrow> isEmpty b) then
               let (w, s') = write_fifo_loop nr buf written s;
                   s'' = WRITE_INT_CLR nr UART_TXFIFO_EMPTY_INT s'
               in (w, SET_INT_ENA_MASK nr UART_TXFIFO_EMPTY_INT s'')
             else (written, s));
          (w2, s2) =
            (case tx_buffer (heap s1 a) of
               None \<Rightarrow> (w1, s1)
             | Some b \<Rightarrow>
                 let (w, b') = write_buffer_loop buf w1 b
                 in (w, upd_uart a (\<lambda>u. u\<lparr>tx_buffer := Some b'\<rparr>) s1))
      in (w2, notify a UART_NOTIFY_AFTER_WRITE s2))"

partial_function (option) write_loop :: "addr \<Rightarrow> 8 word list \<Rightarrow> nat \<Rightarrow> driver \<Rightarrow> (nat \<times> driver) option" where
  "write_loop a buf written s =
     (if written < length buf then
        (if \<not> bitRead (options (heap (snd (write_pass a buf written s)) a)) UART_OPT_TXWAIT
         then Some (write_pass a buf written s)
         else write_loop a buf (fst (write_pass a buf written s)) (snd (write_pass a buf written s)))
      else Some (written, s))"

definition smg_uart_write :: "addr option \<Rightarrow> 8 word list option \<Rightarrow> driver \<Rightarrow> (nat \<times> driver) option" where
  "smg_uart_write uart buffer s =
     (case uart of
        None \<Rightarrow> Some (0, s)
      | Some a \<Rightarrow>
          (case buffer of
             None \<Rightarrow> Some (0, s)
           | Some buf \<Rightarrow>
               if \<not> smg_uart_tx_enabled uart s \<or> buf = [] then Some (0, s)
               else write_loop a buf 0 s))"

definition smg_uart_tx_free :: "addr option \<Rightarrow> driver \<Rightarrow> 32 word \<times> driver" where
  "smg_uart_tx_free uart s =
     (case uart of
        None \<Rightarrow> (0, s)
      | Some a \<Rightarrow>
          if \<not> smg_uart_tx_enabled uart s then (0, s)
          else
            let s1 = smg_uart_disable_interrupts s;
                space = (if is_physical_uart uart s1
                         then ucast (uart_txfifo_free (uart_nr (heap s1 a)) s1) else 0);
                space = (case tx_buffer (heap s1 a) of
                           None \<Rightarrow> space
                         | Some b \<Rightarrow> space + getFreeSpace b)
            in (space, smg_uart_restore_interrupts s1))"

definition smg_uart_set_break :: "addr option \<Rightarrow> bool \<Rightarrow> driver \<Rightarrow> driver" where
  "smg_uart_set_break uart state s =
     (case get_physical uart s of
        None \<Rightarrow> s
      | Some p \<Rightarrow>
          if state then SET_CONF0_MASK (uart_nr (heap s p)) UART_TXD_BRK s
          else CLEAR_CONF0_MASK (uart_nr (heap s p)) UART_TXD_BRK s)"

text \<open>
  \<open>smg_uart_get_status\<close> returns a \<open>uint8_t\<close>: the sticky bits and the raw register are
  masked in 32 bits and the result is narrowed.
\<close>

definition smg_uart_get_status :: "addr option \<Rightarrow> driver \<Rightarrow> 8 word \<times> driver" where
  "smg_uart_get_status uart s =
     (case uart of
        None \<Rightarrow> (0, s)
      | Some a \<Rightarrow>
          let s1 = smg_uart_disable_interrupts s;
              st = (ucast ((ucast (status (heap s1 a)) :: 32 word)
                      AND (UART_BRK_DET_INT OR UART_RXFIFO_OVF_INT)) :: 8 word);
              s2 = upd_uart a (\<lambda>u. u\<lparr>status := 0\<rparr>) s1;
              (st', s3) =
                (case get_physical uart s2 of
                   None \<Rightarrow> (st, s2)
                 | Some p \<Rightarrow>
                     let nr = uart_nr (heap s2 p);
                         intraw = INT_RAW (regs s2 nr)
                           AND (UART_BRK_DET_INT OR UART_RXFIFO_OVF_INT OR UART_FRM_ERR_INT
                                OR UART_PARITY_ERR_INT);
                         st1 = (ucast ((ucast st :: 32 word) OR intraw) :: 8 word)
                     in (st1, WRITE_INT_CLR nr (ucast st1) s2))
          in (st', smg_uart_restore_interrupts s3))"

definition smg_uart_flush :: "addr option \<Rightarrow> smg_uart_mode_t \<Rightarrow> driver \<Rightarrow> driver" where
  "smg_uart_flush uart m s =
     (case uart of
        None \<Rightarrow> s
      | Some a \<Rightarrow>
          let flushRx = (m \<noteq> UART_TX_ONLY \<and> mode (heap s a) \<noteq> UART_TX_ONLY);
              flushTx = (m \<noteq> UART_RX_ONLY \<and> mode (heap s a) \<noteq> UART_RX_ONLY);
              s1 = smg_uart_disable_interrupts s;
              s2 = (if flushRx then upd_uart a (\<lambda>u. u\<lparr>rx_buffer := map_option clear (rx_buffer u)\<rparr>) s1
                    else s1);
              s3 = (if flushTx then upd_uart a (\<lambda>u. u\<lparr>tx_buffer := map_option clear (tx_buffer u)\<rparr>) s2
                    else s2);
              s4 = (if is_physical_uart uart s3 then
                      let nr = uart_nr (heap s3 a);
                          flushBits = (if flushTx then UART_TXFIFO_RST else 0)
                                      OR (if flushRx then UART_RXFIFO_RST else 0);
                          h1 = SET_CONF0_MASK nr flushBits s3;
                          h2 = CLEAR_CONF0_MASK nr flushBits h1;
                          h3 = (if flushTx then CLEAR_INT_ENA_MASK nr UART_TXFIFO_EMPTY_INT h2 else h2)
                      in if flushRx then
                           SET_INT_ENA_MASK nr
                             (UART_RXFIFO_FULL_INT OR UART_RXFIFO_TOUT_INT OR UART_RXFIFO_OVF_INT)
                             (WRITE_INT_CLR nr (NOT UART_TXFIFO_EMPTY_INT) h3)
                         else h3
                    else s3)
          in smg_uart_restore_interrupts s4)"

subsection \<open>Callbacks, format, thresholds\<close>

definition smg_uart_set_notify :: "nat \<Rightarrow> nat option \<Rightarrow> driver \<Rightarrow> bool \<times> driver" where
  "smg_uart_set_notify nr cb s =
     (if nr \<ge> UART_COUNT then (False, s)
      else (True, s\<lparr>notifyCallbacks := (notifyCallbacks s)(nr := cb)\<rparr>))"

definition smg_uart_set_callback :: "addr option \<Rightarrow> nat option \<Rightarrow> nat \<Rightarrow> driver \<Rightarrow> driver" where
  "smg_uart_set_callback uart cb p s =
     (case uart of
        None \<Rightarrow> s
      | Some a \<Rightarrow>
          let s1 = upd_uart a (\<lambda>u. u\<lparr>callback := None\<rparr>) s;
              s2 = upd_uart a (\<lambda>u. u\<lparr>param := p\<rparr>) s1
          in upd_uart a (\<lambda>u. u\<lparr>callback := cb\<rparr>) s2)"

definition smg_uart_get_baudrate :: "addr option \<Rightarrow> driver \<Rightarrow> 32 word" where
  "smg_uart_get_baudrate uart s =
     (case get_physical uart s of None \<Rightarrow> 0 | Some p \<Rightarrow> baud_rate (heap s p))"

text \<open>\<open>SET_PERI_REG_BITS(reg, mask, value, shift)\<close> with mask \<open>0xff\<close> and shift 0.\<close>

definition smg_uart_set_format :: "addr option \<Rightarrow> 32 word \<Rightarrow> driver \<Rightarrow> driver" where
  "smg_uart_set_format uart format s =
     (case get_physical uart s of
        None \<Rightarrow> s
      | Some p \<Rightarrow>
          let nr = uart_nr (heap s p)
          in WRITE_CONF0 nr ((CONF0 (regs s nr) AND NOT 255) OR (format AND 255)) s)"

text \<open>
  Modelled from the spec: \<open>TRange(lo, hi).clip(v)\<close> of Data/Range.h is not part of the
  sources at hand; it clamps \<open>v\<close> to the range.
\<close>

definition clip :: "nat \<Rightarrow> nat \<Rightarrow> 8 word \<Rightarrow> 8 word" where
  "clip lo hi v = (if unat v < lo then of_nat lo else if unat v > hi then of_nat hi else v)"

definition smg_uart_intr_config :: "addr option \<Rightarrow> smg_uart_intr_config_t option \<Rightarrow> driver \<Rightarrow> bool \<times> driver" where
  "smg_uart_intr_config uart config s =
     (case get_physical uart s of
        None \<Rightarrow> (False, s)
      | Some p \<Rightarrow>
          (case config of
             None \<Rightarrow> (False, s)
           | Some c \<Rightarrow>
               let rx = (if smg_uart_rx_enabled (Some p) s then
                           (case rx_buffer (heap s p) of
                              None \<Rightarrow> push_bit UART_RXFIFO_FULL_THRHD_S
                                        (ucast (clip 1 UART_RXFIFO_FULL_THRHD (rxfifo_full_thresh c)))
                            | Some b \<Rightarrow> push_bit UART_RXFIFO_FULL_THRHD_S (of_nat RX_FIFO_FULL_THRESHOLD))
                           OR push_bit UART_RX_TOUT_THRHD_S
                                (ucast (clip 0 UART_RX_TOUT_THRHD (rx_timeout_thresh c)))
                           OR UART_RX_TOUT_EN
                         else 0);
                   tx = (if smg_uart_tx_enabled (Some p) s then
                           push_bit UART_TXFIFO_EMPTY_THRHD_S
                             (ucast (clip 0 UART_TXFIFO_EMPTY_THRHD (txfifo_empty_intr_thresh c)))
                         else 0)
               in (True, WRITE_CONF1 (uart_nr (heap s p)) (rx OR tx) s)))"

subsection \<open>Open, detach\<close>

definition smg_uart_detach :: "int \<Rightarrow> driver \<Rightarrow> driver" where
  "smg_uart_detach nr s =
     (if \<not> is_physical nr then s
      else
        let s1 = smg_uart_disable_interrupts s;
            s2 = s1\<lparr>isrMask := bitClear (isrMask s1) (nat nr)\<rparr>;
            s3 = WRITE_CONF1 (nat nr) 0 s2;
            s4 = WRITE_INT_CLR (nat nr) 65535 s3;
            s5 = WRITE_INT_ENA (nat nr) 0 s4
        in smg_uart_restore_interrupts s5)"

definition detach_regs :: "nat \<Rightarrow> driver \<Rightarrow> driver" where
  "detach_regs nr s = WRITE_INT_ENA nr 0 (WRITE_INT_CLR nr 65535 (WRITE_CONF1 nr 0 s))"

definition smg_uart_detach_all :: "driver \<Rightarrow> driver" where
  "smg_uart_detach_all s =
     (let s1 = smg_uart_disable_interrupts s;
          s2 = fold detach_regs [0 ..< UART_PHYSICAL_COUNT] s1
      in s2\<lparr>isrMask := 0\<rparr>)"

text \<open>
  Modelled from the spec: \<open>smg_uart_realloc_buffer\<close> is not part of the sources at hand.
  From a null buffer pointer, as \<open>smg_uart_init_ex\<close> calls it: size zero leaves the buffer
  absent and succeeds; otherwise an empty buffer of that capacity is allocated, which can
  fail. \<open>can_alloc_buffer\<close> and \<open>can_new_uart\<close> stand for the allocator's answer.
\<close>

definition smg_uart_realloc_buffer :: "32 word \<Rightarrow> driver \<Rightarrow> bool \<times> SerialBuffer option" where
  "smg_uart_realloc_buffer new_size s =
     (if new_size = 0 then (True, None)
      else if can_alloc_buffer s (unat new_size)
        then (True, Some \<lparr>capacity = unat new_size, contents = []\<rparr>)
      else (False, None))"

text \<open>
  The \<open>switch(cfg.uart_nr)\<close> of \<open>smg_uart_init_ex\<close>, on the freshly created instance at
  \<open>a\<close>: \<open>None\<close> where the source deletes the instance and returns \<open>nullptr\<close>.
\<close>

definition init_ex_port :: "smg_uart_config_t \<Rightarrow> addr \<Rightarrow> driver \<Rightarrow> driver option" where
  "init_ex_port cfg a s =
     (if cfg_uart_nr cfg = UART0 \<or> cfg_uart_nr cfg = UART2 then
        let virt = (cfg_uart_nr cfg = UART2);
            rxBufferSize = (if virt then cfg_rx_size cfg + of_nat UART_RX_FIFO_SIZE else cfg_rx_size cfg);
            txBufferSize = (if virt then cfg_tx_size cfg + of_nat UART_TX_FIFO_SIZE else cfg_tx_size cfg);
            rxr = smg_uart_realloc_buffer rxBufferSize s
        in if smg_uart_rx_enabled (Some a) s \<and> \<not> fst rxr then None
           else
             let s1 = (if smg_uart_rx_enabled (Some a) s
                       then upd_uart a (\<lambda>u. u\<lparr>rx_buffer := snd rxr\<rparr>) s else s);
                 txr = smg_uart_realloc_buffer txBufferSize s1
             in if smg_uart_tx_enabled (Some a) s1 \<and> \<not> fst txr then None
                else
                  let s2 = (if smg_uart_tx_enabled (Some a) s1
                            then upd_uart a (\<lambda>u. u\<lparr>tx_buffer := snd txr\<rparr>) s1 else s1)
                  in if virt then Some s2
                     else
                       let s3 = smg_uart_detach (int (cfg_uart_nr cfg)) s2;
                           s4 = (if smg_uart_rx_enabled (Some a) s3
                                 then uart0_pin_select 3 (upd_uart a (\<lambda>u. u\<lparr>rx_pin := 3\<rparr>) s3)
                                 else s3);
                           s5 = (if smg_uart_tx_enabled (Some a) s4 then
                                   let t = upd_uart a
                                             (\<lambda>u. u\<lparr>tx_pin := (if cfg_tx_pin cfg = 2 then 2 else 1)\<rparr>) s4
                                   in uart0_pin_select (unat (tx_pin (heap t a))) t
                                 else s4);
                           s6 = s5\<lparr>SWAP_REG := SWAP_REG s5 AND NOT UART_SWAP0\<rparr>
                       in Some (WRITE_CONF0 UART0 (cfg_format cfg) s6)
      else if cfg_uart_nr cfg = UART1 then
        if mode (heap s a) = UART_RX_ONLY then None
        else
          let s1 = upd_uart a (\<lambda>u. u\<lparr>mode := UART_TX_ONLY\<rparr>) s;
              txr = smg_uart_realloc_buffer (cfg_tx_size cfg) s1
          in if \<not> fst txr then None
             else
               let s2 = upd_uart a (\<lambda>u. u\<lparr>tx_buffer := snd txr\<rparr>) s1;
                   s3 = smg_uart_detach (int (cfg_uart_nr cfg)) s2;
                   s4 = upd_uart a (\<lambda>u. u\<lparr>tx_pin := 2\<rparr>) s3;
                   s5 = uart1_pin_select (unat (tx_pin (heap s4 a))) s4
               in Some (WRITE_CONF0 UART1 (cfg_format cfg) s5)
      else None)"

text \<open>
  \<open>smg_uart_init_ex\<close>. \<open>new smg_uart_t\<close> takes the next free address; the instance is
  zeroed and its fields set as in the source. Where the source deletes the instance and
  returns \<open>nullptr\<close>, the state from before the allocation is returned.
\<close>

definition smg_uart_init_ex :: "smg_uart_config_t \<Rightarrow> driver \<Rightarrow> addr option \<times> driver" where
  "smg_uart_init_ex cfg s =
     (if smg_uart_get_uart (cfg_uart_nr cfg) s \<noteq> None then (None, s)
      else if \<not> can_new_uart s then (None, s)
      else
        let a = next_addr s;
            s0 = s\<lparr>next_addr := Suc a,
                   heap := (heap s)(a :=
                     \<lparr>uart_nr = cfg_uart_nr cfg, baud_rate = 0, mode = cfg_mode cfg,
                      options = cfg_options cfg, rx_pin = UART_PIN_DEFAULT,
                      tx_pin = UART_PIN_DEFAULT, rx_headroom = of_nat DEFAULT_RX_HEADROOM,
                      status = 0, rx_buffer = None, tx_buffer = None, callback = None,
                      param = 0\<rparr>)\<rparr>
        in case init_ex_port cfg a s0 of
             None \<Rightarrow> (None, s)
           | Some s1 \<Rightarrow>
               let s2 = snd (smg_uart_set_baudrate (Some a) (cfg_baudrate cfg) s1);
                   s3 = smg_uart_flush (Some a) UART_FULL s2;
                   s4 = s3\<lparr>uartInstances := (uartInstances s3)(cfg_uart_nr cfg := Some a)\<rparr>;
                   s5 = smg_uart_start_isr (Some a) s4
               in (Some a, notify a UART_NOTIFY_AFTER_OPEN s5))"

section \<open>Concrete states and configurations\<close>

text \<open>
  A state in which nothing has been opened, the allocator never fails, and every register
  is zero; two configurations: UART0 with both roles and 8-byte buffers, UART1 with both
  roles requested and a 16-byte transmit buffer.
\<close>

definition boot_regs :: uart_regs where
  "boot_regs = \<lparr>INT_RAW = 0, INT_ENA = 0, CONF0 = 0, CONF1 = 0, CLKDIV = 0, rx_fifo = [], tx_fifo = []\<rparr>"

definition blank_uart :: smg_uart_t where
  "blank_uart = \<lparr>uart_nr = 0, baud_rate = 0, mode = UART_FULL, options = 0, rx_pin = 0, tx_pin = 0,
     rx_headroom = 0, status = 0, rx_buffer = None, tx_buffer = None, callback = None, param = 0\<rparr>"

definition boot_state :: driver where
  "boot_state = \<lparr>regs = (\<lambda>_. boot_regs), SWAP_REG = 0, io_mux = (\<lambda>_. FUNC_UNKNOWN),
     intr_enabled = False, intr_attached = False, isrMask = 0, uartInstances = (\<lambda>_. None),
     notifyCallbacks = (\<lambda>_. None), heap = (\<lambda>_. blank_uart), next_addr = 0,
     can_new_uart = True, can_alloc_buffer = (\<lambda>_. True), trace = []\<rparr>"

definition cfg0 :: smg_uart_config_t where
  "cfg0 = \<lparr>cfg_uart_nr = 0, cfg_tx_pin = 1, cfg_rx_pin = 3, cfg_mode = UART_FULL, cfg_options = 0,
     cfg_baudrate = 115200, cfg_format = 28, cfg_rx_size = 8, cfg_tx_size = 8\<rparr>"

definition cfg1 :: smg_uart_config_t where
  "cfg1 = \<lparr>cfg_uart_nr = 1, cfg_tx_pin = 2, cfg_rx_pin = 255, cfg_mode = UART_FULL, cfg_options = 0,
     cfg_baudrate = 115200, cfg_format = 28, cfg_rx_size = 0, cfg_tx_size = 16\<rparr>"

text \<open>UART0 just opened with \<open>cfg0\<close>; its instance is at address 0.\<close>

definition open0 :: driver where
  "open0 = snd (smg_uart_init_ex cfg0 boot_state)"

text \<open>
  UART0 open, swapped, then given back transmit pin 1 with \<open>smg_uart_set_tx\<close>: the
  transmit pin is on the default set while the receive pin is on the swapped set.
\<close>

definition mixed0 :: driver where
  "mixed0 = snd (smg_uart_set_tx (Some 0) 1 (smg_uart_swap (Some 0) 15 open0))"

text \<open>
  UART0 open with \<open>rx_headroom\<close> 2, a data callback registered, \<open>cs\<close> in its 8-byte
  receive buffer, \<open>fs\<close> in the hardware receive FIFO and the FIFO-full interrupt pending.
\<close>

definition rx_scene :: "8 word list \<Rightarrow> 8 word list \<Rightarrow> driver" where
  "rx_scene cs fs =
     upd_regs 0 (\<lambda>r. r\<lparr>INT_RAW := UART_RXFIFO_FULL_INT, rx_fifo := fs\<rparr>)
       (upd_uart 0 (\<lambda>u. u\<lparr>rx_headroom := 2, callback := Some 7,
                            rx_buffer := Some \<lparr>capacity = 8, contents = cs\<rparr>\<rparr>) open0)"

text \<open>
  UART0 open with a data callback registered, \<open>cs\<close> in its 8-byte transmit buffer,
  \<open>fs\<close> in the hardware transmit FIFO, the FIFO-empty interrupt enabled and pending.
\<close>

definition tx_scene :: "8 word list \<Rightarrow> 8 word list \<Rightarrow> driver" where
  "tx_scene cs fs =
     upd_regs 0 (\<lambda>r. r\<lparr>INT_RAW := UART_TXFIFO_EMPTY_INT,
                          INT_ENA := INT_ENA r OR UART_TXFIFO_EMPTY_INT, tx_fifo := fs\<rparr>)
       (upd_uart 0 (\<lambda>u. u\<lparr>callback := Some 7,
                            tx_buffer := Some \<lparr>capacity = 8, contents = cs\<rparr>\<rparr>) open0)"

text \<open>
  UART0 open with the sticky bits FIFO-full and overflow recorded and the raw flags
  FIFO-full and overflow pending.
\<close>

definition ovf_scene :: driver where
  "ovf_scene =
     upd_regs 0 (\<lambda>r. r\<lparr>INT_RAW := UART_RXFIFO_OVF_INT OR UART_RXFIFO_FULL_INT\<rparr>)
       (upd_uart 0 (\<lambda>u. u\<lparr>status := 17\<rparr>) open0)"

text \<open>UART0 open with the sticky bits FIFO-full, parity, framing and timeout recorded.\<close>

definition sticky_scene :: driver where
  "sticky_scene = upd_uart 0 (\<lambda>u. u\<lparr>status := 269\<rparr>) open0"

text \<open>
  The virtual uart UART2 with both roles and 8-byte buffers requested, opened in two ways.
  In \<open>virtual_alone st\<close> it is opened on the boot state, so that no instance is
  registered for UART0; its instance is at address 0, its sticky status is \<open>st\<close> and
  the raw overflow flag of port 0 is pending. In \<open>virtual_backed\<close> it is opened after
  UART0; its instance is at address 1 and the raw flags FIFO-full and overflow of port 0
  are pending.
\<close>

definition cfg2 :: smg_uart_config_t where
  "cfg2 = \<lparr>cfg_uart_nr = 2, cfg_tx_pin = 1, cfg_rx_pin = 3, cfg_mode = UART_FULL, cfg_options = 0,
     cfg_baudrate = 115200, cfg_format = 28, cfg_rx_size = 8, cfg_tx_size = 8\<rparr>"

definition virtual_alone :: "16 word \<Rightarrow> driver" where
  "virtual_alone st =
     upd_regs 0 (\<lambda>r. r\<lparr>INT_RAW := UART_RXFIFO_OVF_INT\<rparr>)
       (upd_uart 0 (\<lambda>u. u\<lparr>status := st\<rparr>) (snd (smg_uart_init_ex cfg2 boot_state)))"

definition virtual_backed :: driver where
  "virtual_backed =
     upd_regs 0 (\<lambda>r. r\<lparr>INT_RAW := UART_RXFIFO_OVF_INT OR UART_RXFIFO_FULL_INT\<rparr>)
       (snd (smg_uart_init_ex cfg2 open0))"

text \<open>
  UART0 open without a transmit buffer, a data callback registered, \<open>fs\<close> in the
  hardware transmit FIFO, the FIFO-empty interrupt enabled and pending.
\<close>

definition tx_bare_scene :: "8 word list \<Rightarrow> driver" where
  "tx_bare_scene fs =
     upd_regs 0 (\<lambda>r. r\<lparr>INT_RAW := UART_TXFIFO_EMPTY_INT,
                          INT_ENA := INT_ENA r OR UART_TXFIFO_EMPTY_INT, tx_fifo := fs\<rparr>)
       (upd_uart 0 (\<lambda>u. u\<lparr>callback := Some 7, tx_buffer := None\<rparr>) open0)"

text \<open>
  UART0 open with a 128-byte transmit buffer holding 128 bytes, the hardware transmit
  FIFO empty, the FIFO-empty interrupt enabled and pending.
\<close>

definition tx_big_scene :: driver where
  "tx_big_scene =
     upd_regs 0 (\<lambda>r. r\<lparr>INT_RAW := UART_TXFIFO_EMPTY_INT,
                          INT_ENA := INT_ENA r OR UART_TXFIFO_EMPTY_INT, tx_fifo := []\<rparr>)
       (upd_uart 0 (\<lambda>u. u\<lparr>callback := Some 7,
                            tx_buffer := Some \<lparr>capacity = 128, contents = replicate 128 85\<rparr>\<rparr>) open0)"

section \<open>Notions used in the statements\<close>

text \<open>The overflow flag of a status word of any width.\<close>

definition overflow_flag :: "'a::len word \<Rightarrow> bool" where
  "overflow_flag w = ((ucast w :: 32 word) AND UART_RXFIFO_OVF_INT \<noteq> 0)"

text \<open>
  What a status read takes from the hardware: the four error bits of the raw interrupt
  register of the backing physical port, if there is one (lines 558-562).
\<close>

definition status_hw_part :: "addr \<Rightarrow> driver \<Rightarrow> 32 word" where
  "status_hw_part a s =
     (case get_physical (Some a) s of
        None \<Rightarrow> 0
      | Some p \<Rightarrow> INT_RAW (regs s (uart_nr (heap s p)))
                   AND (UART_BRK_DET_INT OR UART_RXFIFO_OVF_INT OR UART_FRM_ERR_INT
                        OR UART_PARITY_ERR_INT))"

text \<open>
  The backing physical port of a uart, in the words of the specification: the virtual
  port aliases the hardware of port 0, a physical port is backed by itself.
\<close>

definition backing_port :: "smg_uart_t \<Rightarrow> nat" where
  "backing_port u = (if uart_nr u = UART2 then UART0 else uart_nr u)"

text \<open>The raw overflow flag of the hardware port \<open>nr\<close> is set.\<close>

definition raw_overflow_at :: "nat \<Rightarrow> driver \<Rightarrow> bool" where
  "raw_overflow_at nr s = (INT_RAW (regs s nr) AND UART_RXFIFO_OVF_INT \<noteq> 0)"

text \<open>UART0 is open: an instance of port 0 is registered for UART0.\<close>

definition uart0_open :: "driver \<Rightarrow> bool" where
  "uart0_open s =
     (case uartInstances s UART0 of None \<Rightarrow> False | Some p \<Rightarrow> uart_nr (heap s p) = UART0)"

text \<open>The bytes waiting in the transmit buffer of an instance; none without a buffer.\<close>

definition tx_pending :: "smg_uart_t \<Rightarrow> 8 word list" where
  "tx_pending u = (case tx_buffer u of None \<Rightarrow> [] | Some b \<Rightarrow> contents b)"

text \<open>
  The default pin set of UART0, as \<open>smg_uart_init_ex\<close> leaves it: an enabled transmit
  role on pin 1 or 2, an enabled receive role on pin 3, an unused role at
  \<open>UART_PIN_DEFAULT\<close>, and the pin-swap control bit clear.
\<close>

definition default_pin_set :: "addr \<Rightarrow> driver \<Rightarrow> bool" where
  "default_pin_set a s =
     (uart_nr (heap s a) = UART0 \<and>
      (if smg_uart_tx_enabled (Some a) s then tx_pin (heap s a) = 1 \<or> tx_pin (heap s a) = 2
       else tx_pin (heap s a) = UART_PIN_DEFAULT) \<and>
      (if smg_uart_rx_enabled (Some a) s then rx_pin (heap s a) = 3
       else rx_pin (heap s a) = UART_PIN_DEFAULT) \<and>
      SWAP_REG s AND UART_SWAP0 = 0)"

text \<open>Both roles enabled, the transmit pin on the default set, the receive pin not.\<close>

definition mixed_pins :: "addr \<Rightarrow> driver \<Rightarrow> bool" where
  "mixed_pins a s =
     (smg_uart_tx_enabled (Some a) s \<and> smg_uart_rx_enabled (Some a) s \<and>
      (tx_pin (heap s a) = 1 \<or> tx_pin (heap s a) = 2) \<and> rx_pin (heap s a) \<noteq> 3)"

text \<open>The instance after \<open>smg_uart_swap\<close> with target transmit pin \<open>t\<close> (lines 829-849).\<close>

definition swapped_uart :: "int \<Rightarrow> smg_uart_t \<Rightarrow> smg_uart_t" where
  "swapped_uart t u =
     (if tx_pin u = 1 \<or> tx_pin u = 2 \<or> rx_pin u = 3 then
        u\<lparr>rx_pin := (if mode u \<noteq> UART_TX_ONLY then 13 else rx_pin u),
          tx_pin := (if mode u \<noteq> UART_RX_ONLY then 15 else tx_pin u)\<rparr>
      else
        u\<lparr>rx_pin := (if mode u \<noteq> UART_TX_ONLY then 3 else rx_pin u),
          tx_pin := (if mode u \<noteq> UART_RX_ONLY then (if t = 2 then 2 else 1) else tx_pin u)\<rparr>)"

text \<open>
  The number of bytes the interrupt handler drains (\<open>read\<close>, lines 186-188) and the free
  space it compares with the headroom (\<open>space\<close>, line 189).
\<close>

definition rx_drain_count :: "nat \<Rightarrow> SerialBuffer \<Rightarrow> driver \<Rightarrow> 32 word" where
  "rx_drain_count nr b s =
     (let avail = ucast (uart_rxfifo_count nr s) :: 32 word; space = getFreeSpace b
      in if avail \<le> space then avail else space)"

definition rx_space_after_drain :: "nat \<Rightarrow> SerialBuffer \<Rightarrow> driver \<Rightarrow> 32 word" where
  "rx_space_after_drain nr b s =
     (let avail = ucast (uart_rxfifo_count nr s) :: 32 word;
          space = getFreeSpace b
      in space - (if avail \<le> space then avail else space))"

text \<open>The number of bytes the handler moves to the transmit FIFO (\<open>count\<close>, lines 216-218).\<close>

definition tx_fill_count :: "nat \<Rightarrow> SerialBuffer \<Rightarrow> driver \<Rightarrow> 32 word" where
  "tx_fill_count nr b s =
     (let space = ucast (uart_txfifo_free nr s) :: 32 word; avail = available b
      in if avail \<le> space then avail else space)"

text \<open>The FIFO-empty interrupt source of a port is enabled.\<close>

definition txe_armed :: "nat \<Rightarrow> driver \<Rightarrow> bool" where
  "txe_armed nr s = (INT_ENA (regs s nr) AND UART_TXFIFO_EMPTY_INT \<noteq> 0)"

text \<open>
  Views of the state that forget what the receive path, respectively the transmit path,
  of the interrupt handler may change: the FIFO, the buffer, and the enable bits of that
  direction.
\<close>

definition rx_masked :: "driver \<Rightarrow> driver" where
  "rx_masked s =
     s\<lparr>regs := (\<lambda>m. (regs s m)\<lparr>rx_fifo := [],
                   INT_ENA := INT_ENA (regs s m) AND NOT
                     (UART_RXFIFO_FULL_INT OR UART_RXFIFO_TOUT_INT OR UART_RXFIFO_OVF_INT)\<rparr>),
       heap := (\<lambda>b. (heap s b)\<lparr>rx_buffer := None\<rparr>)\<rparr>"

definition tx_masked :: "driver \<Rightarrow> driver" where
  "tx_masked s =
     s\<lparr>regs := (\<lambda>m. (regs s m)\<lparr>tx_fifo := [],
                   INT_ENA := INT_ENA (regs s m) AND NOT UART_TXFIFO_EMPTY_INT\<rparr>),
       heap := (\<lambda>b. (heap s b)\<lparr>tx_buffer := None\<rparr>)\<rparr>"

subsection \<open>Steps of a run other than \<open>smg_uart_write\<close>\<close>

text \<open>
  Every entry point modelled above that changes the state, except \<open>smg_uart_write\<close>, and
  a step of the hardware, which may change the FIFOs and the raw interrupt status of a
  port at will. Not modelled, and so not among the steps: \<open>smg_uart_uninit\<close> (it calls
  \<open>smg_uart_stop_isr\<close>, which is not part of the sources at hand),
  \<open>smg_uart_wait_tx_empty\<close> (it waits for the hardware and writes no register) and the
  debug-output functions (\<open>smg_uart_debug_putc\<close> is a write).
\<close>

datatype driver_step =
    Isr
  | Read "addr option" bool "32 word"
  | RxAvailable "addr option"
  | StartIsr "addr option"
  | TxFree "addr option"
  | SetBreak "addr option" bool
  | GetStatus "addr option"
  | Flush "addr option" smg_uart_mode_t
  | SetBaudrateReg int "32 word"
  | SetBaudrate "addr option" "32 word"
  | InitEx smg_uart_config_t
  | Swap "addr option" int
  | SetTx "addr option" int
  | SetPins "addr option" int int
  | Detach int
  | DetachAll
  | SetNotify nat "nat option"
  | SetCallback "addr option" "nat option" nat
  | SetFormat "addr option" "32 word"
  | IntrConfig "addr option" "smg_uart_intr_config_t option"
  | Hardware nat "8 word list" "8 word list" "32 word"

fun run_step :: "driver_step \<Rightarrow> driver \<Rightarrow> driver" where
  "run_step Isr s = uart_isr s"
| "run_step (Read u b n) s = snd (smg_uart_read u b n s)"
| "run_step (RxAvailable u) s = snd (smg_uart_rx_available u s)"
| "run_step (StartIsr u) s = smg_uart_start_isr u s"
| "run_step (TxFree u) s = snd (smg_uart_tx_free u s)"
| "run_step (SetBreak u b) s = smg_uart_set_break u b s"
| "run_step (GetStatus u) s = snd (smg_uart_get_status u s)"
| "run_step (Flush u m) s = smg_uart_flush u m s"
| "run_step (SetBaudrateReg n b) s = snd (smg_uart_set_baudrate_reg n b s)"
| "run_step (SetBaudrate u b) s = snd (smg_uart_set_baudrate u b s)"
| "run_step (InitEx cfg) s = snd (smg_uart_init_ex cfg s)"
| "run_step (Swap u t) s = smg_uart_swap u t s"
| "run_step (SetTx u t) s = snd (smg_uart_set_tx u t s)"
| "run_step (SetPins u t r) s = snd (smg_uart_set_pins u t r s)"
| "run_step (Detach n) s = smg_uart_detach n s"
| "run_step DetachAll s = smg_uart_detach_all s"
| "run_step (SetNotify n cb) s = snd (smg_uart_set_notify n cb s)"
| "run_step (SetCallback u cb p) s = smg_uart_set_callback u cb p s"
| "run_step (SetFormat u f) s = smg_uart_set_format u f s"
| "run_step (IntrConfig u c) s = snd (smg_uart_intr_config u c s)"
| "run_step (Hardware nr rx tx raw) s =
     upd_regs nr (\<lambda>r. r\<lparr>INT_RAW := raw, rx_fifo := rx, tx_fifo := tx\<rparr>) s"

section \<open>Verification\<close>

subsection \<open>Unfolding rules\<close>

named_theorems prim_defs
named_theorems api_defs
named_theorems bit_consts

lemmas [bit_consts] = UART_RXFIFO_FULL_INT_def UART_TXFIFO_EMPTY_INT_def UART_PARITY_ERR_INT_def
  UART_FRM_ERR_INT_def UART_RXFIFO_OVF_INT_def UART_BRK_DET_INT_def UART_RXFIFO_TOUT_INT_def
  UART_TXD_BRK_def UART_RXFIFO_RST_def UART_TXFIFO_RST_def UART_RX_TOUT_EN_def UART_SWAP0_def

lemmas [uart_consts] = bit_consts

lemmas [prim_defs] = upd_regs_def READ_INT_ST_def WRITE_INT_ENA_def SET_INT_ENA_MASK_def
  CLEAR_INT_ENA_MASK_def WRITE_INT_CLR_def WRITE_CONF0_def SET_CONF0_MASK_def CLEAR_CONF0_MASK_def
  WRITE_CONF1_def WRITE_CLKDIV_def READ_FIFO_def WRITE_FIFO_def PIN_FUNC_SELECT_def
  ETS_UART_INTR_DISABLE_def ETS_UART_INTR_ENABLE_def ETS_UART_INTR_ATTACH_def
  upd_uart_def notify_def smg_uart_disable_interrupts_def smg_uart_restore_interrupts_def
  uart_rxfifo_count_def uart_txfifo_count_def uart_txfifo_free_def uart_txfifo_full_def
  uart_isr_enabled_def is_physical_def is_physical_uart_def get_physical_def
  smg_uart_rx_enabled_def smg_uart_tx_enabled_def smg_uart_get_uart_def
  bitRead_def bitSet_def bitClear_def

lemmas [api_defs] = smg_uart_set_baudrate_reg_def smg_uart_set_baudrate_def
  smg_uart_flush_def smg_uart_start_isr_def smg_uart_detach_def smg_uart_init_ex_def init_ex_port_def
  smg_uart_realloc_buffer_def uart0_pin_select_def uart0_pin_restore_def uart1_pin_select_def
  uart1_pin_restore_def smg_uart_swap_def smg_uart_set_tx_def smg_uart_set_pins_def
  smg_uart_get_status_def

lemmas boot_defs = boot_state_def boot_regs_def blank_uart_def cfg0_def cfg1_def

lemma open0_eval:
  "open0 = \<lparr>regs = (\<lambda>_. boot_regs)(0 := boot_regs\<lparr>INT_ENA := 401, CONF0 := 28,
                 CONF1 := 2181038200, CLKDIV := 694\<rparr>),
             SWAP_REG = 0,
             io_mux = (\<lambda>_. FUNC_UNKNOWN)(3 := FUNC_UART0_RXD, 1 := FUNC_UART0_TXD),
             intr_enabled = True, intr_attached = True, isrMask = 1,
             uartInstances = (\<lambda>_. None)(0 := Some 0), notifyCallbacks = (\<lambda>_. None),
             heap = (\<lambda>_. blank_uart)(0 :=
                \<lparr>uart_nr = 0, baud_rate = 115273, mode = UART_FULL, options = 0, rx_pin = 3,
                 tx_pin = 1, rx_headroom = 24, status = 0,
                 rx_buffer = Some \<lparr>capacity = 8, contents = []\<rparr>,
                 tx_buffer = Some \<lparr>capacity = 8, contents = []\<rparr>, callback = None, param = 0\<rparr>),
             next_addr = 1, can_new_uart = True, can_alloc_buffer = (\<lambda>_. True), trace = []\<rparr>"
  by (simp add: open0_def api_defs prim_defs boot_defs uart_consts Let_def clear_def)

text \<open>
  The register and interrupt primitives leave the instances and the pin-swap register
  alone.
\<close>

lemma heap_prims:
  "heap (upd_regs nr f s) = heap s"
  "heap (WRITE_INT_ENA nr v s) = heap s" "heap (SET_INT_ENA_MASK nr v s) = heap s"
  "heap (CLEAR_INT_ENA_MASK nr v s) = heap s" "heap (WRITE_INT_CLR nr v s) = heap s"
  "heap (WRITE_CONF0 nr v s) = heap s" "heap (SET_CONF0_MASK nr v s) = heap s"
  "heap (CLEAR_CONF0_MASK nr v s) = heap s" "heap (WRITE_CONF1 nr v s) = heap s"
  "heap (WRITE_CLKDIV nr v s) = heap s" "heap (PIN_FUNC_SELECT p fn s) = heap s"
  "heap (smg_uart_disable_interrupts s) = heap s" "heap (smg_uart_restore_interrupts s) = heap s"
  "heap (upd_uart a g s) = (heap s)(a := g (heap s a))"
  by (simp_all add: prim_defs)

lemma SWAP_prims:
  "SWAP_REG (upd_regs nr f s) = SWAP_REG s"
  "SWAP_REG (WRITE_INT_ENA nr v s) = SWAP_REG s" "SWAP_REG (SET_INT_ENA_MASK nr v s) = SWAP_REG s"
  "SWAP_REG (CLEAR_INT_ENA_MASK nr v s) = SWAP_REG s" "SWAP_REG (WRITE_INT_CLR nr v s) = SWAP_REG s"
  "SWAP_REG (WRITE_CONF0 nr v s) = SWAP_REG s" "SWAP_REG (SET_CONF0_MASK nr v s) = SWAP_REG s"
  "SWAP_REG (CLEAR_CONF0_MASK nr v s) = SWAP_REG s" "SWAP_REG (WRITE_CONF1 nr v s) = SWAP_REG s"
  "SWAP_REG (WRITE_CLKDIV nr v s) = SWAP_REG s" "SWAP_REG (PIN_FUNC_SELECT p fn s) = SWAP_REG s"
  "SWAP_REG (smg_uart_disable_interrupts s) = SWAP_REG s"
  "SWAP_REG (smg_uart_restore_interrupts s) = SWAP_REG s"
  "SWAP_REG (upd_uart a g s) = SWAP_REG s"
  by (simp_all add: prim_defs)

subsection \<open>Baud rate\<close>

lemma clk_div_zero_iff:
  "baud \<noteq> 0 \<Longrightarrow> (UART_CLK_FREQ div baud = 0) = (UART_CLK_FREQ < baud)"
  by (simp add: word_less_nat_alt unat_eq_zero[symmetric] unat_div div_eq_0_iff
      del: unat_eq_zero)

text \<open>
  C2 (as amended). For a physical port: a requested rate of zero returns zero and changes
  nothing. Any other rate writes the divider \<open>UART_CLK_FREQ / rate\<close> to the clock-divider
  register, also when that divider is zero, which is the case exactly when the rate
  exceeds the reference clock; the reported rate is then zero, and otherwise it is
  \<open>UART_CLK_FREQ / divider\<close>.
\<close>

theorem set_baudrate_reg_writes_divider:
  assumes "is_physical nr"
  shows "(baud = 0 \<longrightarrow> smg_uart_set_baudrate_reg nr baud s = (0, s)) \<and>
         (baud \<noteq> 0 \<longrightarrow>
            snd (smg_uart_set_baudrate_reg nr baud s)
              = WRITE_CLKDIV (nat nr) (UART_CLK_FREQ div baud) s \<and>
            CLKDIV (regs (snd (smg_uart_set_baudrate_reg nr baud s)) (nat nr))
              = UART_CLK_FREQ div baud \<and>
            (UART_CLK_FREQ < baud \<longrightarrow>
               UART_CLK_FREQ div baud = 0 \<and> fst (smg_uart_set_baudrate_reg nr baud s) = 0) \<and>
            (baud \<le> UART_CLK_FREQ \<longrightarrow>
               UART_CLK_FREQ div baud \<noteq> 0 \<and>
               fst (smg_uart_set_baudrate_reg nr baud s)
                 = UART_CLK_FREQ div (UART_CLK_FREQ div baud)))"
  using assms clk_div_zero_iff[of baud]
  by (auto simp: smg_uart_set_baudrate_reg_def Let_def WRITE_CLKDIV_def upd_regs_def)

text \<open>
  Witness for C2 as amended: on port 0, 115200 baud programs the divider 694 and reports
  115273; a rate of zero changes nothing.
\<close>

theorem set_baudrate_reg_writes_divider_witness:
  "is_physical 0 \<and>
   smg_uart_set_baudrate_reg 0 115200 boot_state = (115273, WRITE_CLKDIV 0 694 boot_state) \<and>
   smg_uart_set_baudrate_reg 0 0 boot_state = (0, boot_state)"
  using set_baudrate_reg_writes_divider[of 0 115200 boot_state]
        set_baudrate_reg_writes_divider[of 0 0 boot_state]
  by (simp add: is_physical_def uart_consts prod_eq_iff)

text \<open>
  Counterexample to C2 as stated: with the divider register of port 0 holding 694, a
  request for 80000001 baud computes the divider zero, and the register is written: it
  holds 0 afterwards.
\<close>

theorem set_baudrate_reg_zero_divider_is_written:
  "UART_CLK_FREQ div 80000001 = 0 \<and>
   CLKDIV (regs (WRITE_CLKDIV 0 694 boot_state) 0) = 694 \<and>
   fst (smg_uart_set_baudrate_reg 0 80000001 (WRITE_CLKDIV 0 694 boot_state)) = 0 \<and>
   CLKDIV (regs (snd (smg_uart_set_baudrate_reg 0 80000001 (WRITE_CLKDIV 0 694 boot_state))) 0) = 0"
  by (simp add: smg_uart_set_baudrate_reg_def is_physical_def uart_consts WRITE_CLKDIV_def
      upd_regs_def boot_state_def boot_regs_def)

subsection \<open>Opening a port\<close>

text \<open>
  C9. If \<open>smg_uart_init_ex\<close> is called with a port identifier for which an instance is
  already registered, it returns null and the whole driver state, so also the existing
  instance with its mode, options, pins and buffers, and the registry, is unchanged.
\<close>

theorem init_ex_already_registered:
  "cfg_uart_nr cfg < UART_COUNT \<Longrightarrow> uartInstances s (cfg_uart_nr cfg) = Some a \<Longrightarrow>
   smg_uart_init_ex cfg s = (None, s)"
  by (simp add: smg_uart_init_ex_def smg_uart_get_uart_def)

text \<open>Witness for C9: opening UART0 a second time.\<close>

theorem init_ex_already_registered_witness:
  "cfg_uart_nr cfg0 < UART_COUNT \<and> uartInstances open0 (cfg_uart_nr cfg0) = Some 0 \<and>
   smg_uart_init_ex cfg0 open0 = (None, open0)"
proof -
  have a: "cfg_uart_nr cfg0 < UART_COUNT" by (simp add: cfg0_def uart_consts)
  have b: "uartInstances open0 (cfg_uart_nr cfg0) = Some 0"
    by (simp add: open0_eval cfg0_def)
  show ?thesis using a b init_ex_already_registered[OF a b] by simp
qed

text \<open>Frame lemmas: what the steps of \<open>smg_uart_init_ex\<close> leave alone.\<close>

lemma mode_set_baudrate: "mode (heap (snd (smg_uart_set_baudrate u b s)) a) = mode (heap s a)"
  by (simp add: smg_uart_set_baudrate_def smg_uart_set_baudrate_reg_def prim_defs Let_def
      split: option.splits)

lemma mode_flush: "mode (heap (smg_uart_flush u m s) a) = mode (heap s a)"
  by (simp add: smg_uart_flush_def Let_def heap_prims split: option.splits)

lemma heap_start_isr: "heap (smg_uart_start_isr u s) = heap s"
  by (simp add: smg_uart_start_isr_def prim_defs Let_def split: option.splits)

lemma heap_notify: "heap (notify a c s) = heap s"
  by (simp add: prim_defs split: option.splits)

lemma heap_detach: "heap (smg_uart_detach n s) = heap s"
  by (simp add: smg_uart_detach_def prim_defs Let_def)

lemma init_ex_port_uart1:
  "cfg_uart_nr cfg = UART1 \<Longrightarrow> init_ex_port cfg a s = Some s1 \<Longrightarrow>
     mode (heap s1 a) = UART_TX_ONLY \<and> mode (heap s a) \<noteq> UART_RX_ONLY"
  by (auto simp: init_ex_port_def uart_consts Let_def heap_detach prim_defs uart1_pin_select_def
      split: if_splits)

lemma init_ex_port_uart1_ok:
  "cfg_uart_nr cfg = UART1 \<Longrightarrow> mode (heap s a) \<noteq> UART_RX_ONLY \<Longrightarrow>
   cfg_tx_size cfg = 0 \<or> can_alloc_buffer s (unat (cfg_tx_size cfg)) \<Longrightarrow>
   init_ex_port cfg a s \<noteq> None"
  by (auto simp: init_ex_port_def uart_consts Let_def smg_uart_realloc_buffer_def prim_defs)

lemma init_ex_port_uart1_rx:
  "cfg_uart_nr cfg = UART1 \<Longrightarrow> mode (heap s a) = UART_RX_ONLY \<Longrightarrow> init_ex_port cfg a s = None"
  by (simp add: init_ex_port_def uart_consts)

text \<open>
  C1 (as amended). For UART1, \<open>smg_uart_init_ex\<close> with the receive-only mode fails: it
  returns null and leaves the state as it was. With the receive-and-transmit mode it
  does not fail on account of the mode: when no instance is registered for UART1 and the
  allocations succeed, it returns the new instance, registers it, and the instance's mode
  is transmit-only.
\<close>

theorem init_ex_uart1_modes:
  assumes "cfg_uart_nr cfg = UART1"
  shows "(cfg_mode cfg = UART_RX_ONLY \<longrightarrow> smg_uart_init_ex cfg s = (None, s)) \<and>
         (cfg_mode cfg = UART_FULL \<and> uartInstances s UART1 = None \<and> can_new_uart s \<and>
          (cfg_tx_size cfg = 0 \<or> can_alloc_buffer s (unat (cfg_tx_size cfg))) \<longrightarrow>
            fst (smg_uart_init_ex cfg s) = Some (next_addr s) \<and>
            uartInstances (snd (smg_uart_init_ex cfg s)) UART1 = Some (next_addr s) \<and>
            mode (heap (snd (smg_uart_init_ex cfg s)) (next_addr s)) = UART_TX_ONLY)"
proof (intro conjI impI)
  assume "cfg_mode cfg = UART_RX_ONLY"
  then show "smg_uart_init_ex cfg s = (None, s)"
    using assms by (simp add: smg_uart_init_ex_def Let_def init_ex_port_uart1_rx)
next
  assume h: "cfg_mode cfg = UART_FULL \<and> uartInstances s UART1 = None \<and> can_new_uart s \<and>
          (cfg_tx_size cfg = 0 \<or> can_alloc_buffer s (unat (cfg_tx_size cfg)))"
  let ?a = "next_addr s"
  let ?s0 = "s\<lparr>next_addr := Suc ?a,
                   heap := (heap s)(?a :=
                     \<lparr>uart_nr = cfg_uart_nr cfg, baud_rate = 0, mode = cfg_mode cfg,
                      options = cfg_options cfg, rx_pin = UART_PIN_DEFAULT,
                      tx_pin = UART_PIN_DEFAULT, rx_headroom = of_nat DEFAULT_RX_HEADROOM,
                      status = 0, rx_buffer = None, tx_buffer = None, callback = None,
                      param = 0\<rparr>)\<rparr>"
  let ?s3 = "\<lambda>s1. smg_uart_flush (Some ?a) UART_FULL
                (snd (smg_uart_set_baudrate (Some ?a) (cfg_baudrate cfg) s1))"
  have "init_ex_port cfg ?a ?s0 \<noteq> None"
    using assms h by (intro init_ex_port_uart1_ok) auto
  then obtain s1 where s1: "init_ex_port cfg ?a ?s0 = Some s1" by blast
  have m1: "mode (heap s1 ?a) = UART_TX_ONLY"
    using init_ex_port_uart1[OF assms s1] by simp
  have g: "smg_uart_get_uart (cfg_uart_nr cfg) s = None"
    using assms h by (simp add: smg_uart_get_uart_def)
  have e: "smg_uart_init_ex cfg s =
      (Some ?a, notify ?a UART_NOTIFY_AFTER_OPEN (smg_uart_start_isr (Some ?a)
         ((?s3 s1)\<lparr>uartInstances := (uartInstances (?s3 s1))(cfg_uart_nr cfg := Some ?a)\<rparr>)))"
    using g h s1 by (simp add: smg_uart_init_ex_def Let_def)
  show "fst (smg_uart_init_ex cfg s) = Some ?a" by (simp add: e)
  show "mode (heap (snd (smg_uart_init_ex cfg s)) ?a) = UART_TX_ONLY"
    by (simp add: e heap_notify heap_start_isr mode_flush mode_set_baudrate m1)
  show "uartInstances (snd (smg_uart_init_ex cfg s)) UART1 = Some ?a"
    using assms by (simp add: e smg_uart_start_isr_def prim_defs Let_def split: option.splits)
qed

text \<open>
  Witness for C1 as amended: on the boot state, UART1 asked for receive-only is refused,
  and asked for both roles is opened with the transmit-only mode.
\<close>

theorem init_ex_uart1_modes_witness:
  "cfg_uart_nr (cfg1\<lparr>cfg_mode := UART_RX_ONLY\<rparr>) = UART1 \<and>
   smg_uart_init_ex (cfg1\<lparr>cfg_mode := UART_RX_ONLY\<rparr>) boot_state = (None, boot_state) \<and>
   cfg_uart_nr cfg1 = UART1 \<and> cfg_mode cfg1 = UART_FULL \<and>
   uartInstances boot_state UART1 = None \<and> can_new_uart boot_state \<and>
   can_alloc_buffer boot_state (unat (cfg_tx_size cfg1)) \<and>
   fst (smg_uart_init_ex cfg1 boot_state) = Some 0 \<and>
   mode (heap (snd (smg_uart_init_ex cfg1 boot_state)) 0) = UART_TX_ONLY"
  using init_ex_uart1_modes[of "cfg1\<lparr>cfg_mode := UART_RX_ONLY\<rparr>" boot_state]
        init_ex_uart1_modes[of cfg1 boot_state]
  by (simp add: cfg1_def boot_state_def uart_consts)

text \<open>
  Counterexample to C1 as stated: UART1 opened on the boot state with the
  receive-and-transmit mode does not fail; the call returns the instance at address 0,
  registered for UART1, with its mode reduced to transmit-only.
\<close>

theorem init_ex_uart1_full_mode_succeeds:
  "cfg_uart_nr cfg1 = UART1 \<and> cfg_mode cfg1 = UART_FULL \<and>
   fst (smg_uart_init_ex cfg1 boot_state) = Some 0 \<and>
   uartInstances (snd (smg_uart_init_ex cfg1 boot_state)) UART1 = Some 0 \<and>
   mode (heap (snd (smg_uart_init_ex cfg1 boot_state)) 0) = UART_TX_ONLY"
  by (simp add: api_defs prim_defs boot_defs uart_consts Let_def clear_def)

subsection \<open>Words and bits\<close>

lemma and_bit_neq_0: "(w AND push_bit n 1 \<noteq> 0) = bit w n" for w :: "'a::len word"
  by (simp add: bit_iff_and_push_bit_not_eq_0)

lemma set_clear_bit: "\<not> bit x k \<Longrightarrow> (x OR push_bit k 1) AND NOT (push_bit k 1) = x"
  for x :: "'a::len word"
  by (rule bit_word_eqI) (auto simp: bit_simps)

lemma ucast_or_narrow:
  "(ucast ((ucast (ucast x :: 8 word) :: 32 word) OR y) :: 8 word) = ucast (x OR y)"
  by (rule bit_word_eqI) (auto simp: bit_simps)

lemma ucast_byte_roundtrip: "(ucast (ucast (c :: 8 word) :: 32 word) :: 8 word) = c"
  by (rule bit_word_eqI) (simp add: bit_simps)

lemma unat_ucast_8_32: "unat (ucast (w :: 8 word) :: 32 word) = unat w"
proof -
  have "unat w < 2 ^ 8" using unsigned_less[of w] by simp
  then have "unat w < 2 ^ 32" by simp
  then show ?thesis by (simp add: unsigned_ucast_eq take_bit_nat_eq_self)
qed

lemma unat_of_nat_8: "n < 256 \<Longrightarrow> unat (of_nat n :: 8 word) = n"
  by (simp add: unat_of_nat)

lemma unat_of_nat_32: "n < 2 ^ 32 \<Longrightarrow> unat (of_nat n :: 32 word) = n"
  by (simp add: unat_of_nat)

lemma uint_pin_eq:
  "(uint (w :: 8 word) = 1) = (w = 1)" "(uint w = 2) = (w = 2)" "(uint w = 3) = (w = 3)"
  "(uint w = 13) = (w = 13)" "(uint w = 15) = (w = 15)"
  by (simp_all add: word_uint_eq_iff)

subsection \<open>Status read\<close>

lemma overflow_flag_bit: "overflow_flag w = bit (ucast w :: 32 word) 4"
  unfolding overflow_flag_def UART_RXFIFO_OVF_INT_def by (rule and_bit_neq_0)

lemma overflow_flag_8: "overflow_flag (w :: 8 word) = bit w 4"
  by (simp add: overflow_flag_bit bit_simps)

lemma overflow_flag_16: "overflow_flag (w :: 16 word) = bit w 4"
  by (simp add: overflow_flag_bit bit_simps)

lemma get_status_value:
  "fst (smg_uart_get_status (Some a) s) =
     ucast ((ucast (status (heap s a)) AND (UART_BRK_DET_INT OR UART_RXFIFO_OVF_INT)) OR status_hw_part a s)"
  by (simp add: smg_uart_get_status_def status_hw_part_def Let_def prim_defs ucast_or_narrow
      split: option.splits prod.splits)

lemma get_status_sticky:
  "status (heap (snd (smg_uart_get_status (Some a) s)) a) = 0"
  by (simp add: smg_uart_get_status_def Let_def prim_defs split: option.splits prod.splits)

lemma uart_nr_get_status:
  "uart_nr (heap (snd (smg_uart_get_status (Some a) s)) b) = uart_nr (heap s b)"
  by (simp add: smg_uart_get_status_def Let_def prim_defs split: option.splits prod.splits)

lemma uartInstances_get_status:
  "uartInstances (snd (smg_uart_get_status (Some a) s)) = uartInstances s"
  by (simp add: smg_uart_get_status_def Let_def prim_defs split: option.splits prod.splits)

lemma status_hw_part_upd_status:
  "status_hw_part a (upd_uart b (\<lambda>u. u\<lparr>status := f u\<rparr>) s) = status_hw_part a s"
  by (simp add: status_hw_part_def prim_defs split: option.splits)

text \<open>
  Which hardware port a status read touches. For a physical uart, and for the virtual
  uart while UART0 is open, the hardware part is read from the backing port and the
  bits returned are cleared there. For the virtual uart while no instance is registered
  for UART0, \<open>get_physical\<close> yields \<open>nullptr\<close>: there is no hardware part and no register
  is written.
\<close>

lemma raw_overflow_at_bit: "raw_overflow_at nr s = bit (INT_RAW (regs s nr)) 4"
  unfolding raw_overflow_at_def UART_RXFIFO_OVF_INT_def and_bit_neq_0 ..

lemma status_hw_part_backed:
  assumes "uart_nr (heap s a) \<noteq> UART2 \<or> uart0_open s"
  shows "status_hw_part a s = INT_RAW (regs s (backing_port (heap s a)))
           AND (UART_BRK_DET_INT OR UART_RXFIFO_OVF_INT OR UART_FRM_ERR_INT OR UART_PARITY_ERR_INT)"
  using assms
  by (auto simp add: status_hw_part_def get_physical_def backing_port_def uart0_open_def
      split: option.splits)

lemma status_hw_part_unbacked:
  assumes "uart_nr (heap s a) = UART2" "uartInstances s UART0 = None"
  shows "status_hw_part a s = 0"
  using assms by (simp add: status_hw_part_def get_physical_def)

lemma get_status_overflow:
  "overflow_flag (fst (smg_uart_get_status (Some a) s))
     = (overflow_flag (status (heap s a)) \<or> bit (status_hw_part a s) 4)"
  by (auto simp add: overflow_flag_8 overflow_flag_16 get_status_value bit_simps bit_consts)

lemma hw_part_bit4_backed:
  assumes "uart_nr (heap s a) \<noteq> UART2 \<or> uart0_open s"
  shows "bit (status_hw_part a s) 4 = raw_overflow_at (backing_port (heap s a)) s"
  by (simp add: status_hw_part_backed[OF assms] raw_overflow_at_bit bit_simps bit_consts)

lemma uart0_open_get_status:
  "uart0_open (snd (smg_uart_get_status (Some a) s)) = uart0_open s"
  by (simp add: uart0_open_def uartInstances_get_status uart_nr_get_status split: option.splits)

lemma backing_port_get_status:
  "backing_port (heap (snd (smg_uart_get_status (Some a) s)) b) = backing_port (heap s b)"
  by (simp add: backing_port_def uart_nr_get_status)

lemma get_status_raw_backed:
  assumes "uart_nr (heap s a) \<noteq> UART2 \<or> uart0_open s"
  shows "INT_RAW (regs (snd (smg_uart_get_status (Some a) s)) (backing_port (heap s a)))
     = INT_RAW (regs s (backing_port (heap s a))) AND NOT (ucast (fst (smg_uart_get_status (Some a) s)))"
  using assms
  by (auto simp add: smg_uart_get_status_def backing_port_def uart0_open_def
      Let_def prim_defs split: option.splits prod.splits)

lemma get_status_regs_unbacked:
  assumes "uart_nr (heap s a) = UART2" "uartInstances s UART0 = None"
  shows "regs (snd (smg_uart_get_status (Some a) s)) = regs s"
  using assms
  by (simp add: smg_uart_get_status_def Let_def prim_defs)

text \<open>
  C6 (as amended). The backing port of a uart is its own port for a physical uart and
  port 0 for the virtual uart. For a physical uart, and for the virtual uart while UART0
  is open: if an overflow has been recorded, as the sticky overflow bit of the instance
  or as the raw overflow flag of the backing port, the first call to
  \<open>smg_uart_get_status\<close> returns a value with the overflow flag set and leaves the sticky
  store zero and the raw overflow flag of the backing port clear, and a second call made
  right after it returns a value with the overflow flag clear. For the virtual uart while
  no instance is registered for UART0: the call reports the sticky overflow bit alone,
  zeroes the sticky store and writes no hardware register, so that a raw overflow flag of
  port 0 is neither reported nor cleared; a second call returns the overflow flag clear.
\<close>

theorem get_status_reports_overflow_once:
  "let port = backing_port (heap s a);
       r1 = smg_uart_get_status (Some a) s;
       r2 = smg_uart_get_status (Some a) (snd r1)
   in ((uart_nr (heap s a) \<noteq> UART2 \<or> uart0_open s) \<and>
       (overflow_flag (status (heap s a)) \<or> raw_overflow_at port s) \<longrightarrow>
         overflow_flag (fst r1) \<and> status (heap (snd r1) a) = 0 \<and>
         \<not> raw_overflow_at port (snd r1) \<and> \<not> overflow_flag (fst r2)) \<and>
      (uart_nr (heap s a) = UART2 \<and> uartInstances s UART0 = None \<longrightarrow>
         overflow_flag (fst r1) = overflow_flag (status (heap s a)) \<and>
         status (heap (snd r1) a) = 0 \<and> regs (snd r1) = regs s \<and> \<not> overflow_flag (fst r2))"
proof -
  let ?port = "backing_port (heap s a)"
  let ?r1 = "smg_uart_get_status (Some a) s"
  let ?r2 = "smg_uart_get_status (Some a) (snd ?r1)"
  have st0: "\<not> overflow_flag (status (heap (snd ?r1) a))"
    by (simp add: get_status_sticky overflow_flag_16)
  have A: "overflow_flag (fst ?r1) \<and> status (heap (snd ?r1) a) = 0 \<and>
           \<not> raw_overflow_at ?port (snd ?r1) \<and> \<not> overflow_flag (fst ?r2)"
    if b: "uart_nr (heap s a) \<noteq> UART2 \<or> uart0_open s"
      and r: "overflow_flag (status (heap s a)) \<or> raw_overflow_at ?port s"
  proof -
    have b1: "uart_nr (heap (snd ?r1) a) \<noteq> UART2 \<or> uart0_open (snd ?r1)"
      using b by (simp add: uart_nr_get_status uart0_open_get_status)
    have o1: "overflow_flag (fst ?r1)"
      using r by (simp add: get_status_overflow hw_part_bit4_backed[OF b])
    have c: "\<not> raw_overflow_at ?port (snd ?r1)"
      using o1 by (simp add: raw_overflow_at_bit get_status_raw_backed[OF b] bit_simps overflow_flag_8)
    have "\<not> overflow_flag (fst ?r2)"
      using st0 c by (simp add: get_status_overflow hw_part_bit4_backed[OF b1] backing_port_get_status)
    then show ?thesis using o1 c by (simp add: get_status_sticky)
  qed
  have B: "overflow_flag (fst ?r1) = overflow_flag (status (heap s a)) \<and>
         status (heap (snd ?r1) a) = 0 \<and> regs (snd ?r1) = regs s \<and> \<not> overflow_flag (fst ?r2)"
    if v: "uart_nr (heap s a) = UART2" and n: "uartInstances s UART0 = None"
  proof -
    have v1: "uart_nr (heap (snd ?r1) a) = UART2" "uartInstances (snd ?r1) UART0 = None"
      using v n by (simp_all add: uart_nr_get_status uartInstances_get_status)
    show ?thesis
      using st0
      by (simp add: get_status_overflow status_hw_part_unbacked[OF v n] status_hw_part_unbacked[OF v1]
          get_status_sticky get_status_regs_unbacked[OF v n])
  qed
  show ?thesis unfolding Let_def using A B by blast
qed

lemma virtual_init_eval:
  "snd (smg_uart_init_ex cfg2 boot_state) =
     boot_state\<lparr>uartInstances := (\<lambda>_. None)(2 := Some 0),
       heap := (\<lambda>_. blank_uart)(0 :=
                \<lparr>uart_nr = 2, baud_rate = 0, mode = UART_FULL, options = 0, rx_pin = 255,
                 tx_pin = 255, rx_headroom = 24, status = 0,
                 rx_buffer = Some \<lparr>capacity = 136, contents = []\<rparr>,
                 tx_buffer = Some \<lparr>capacity = 136, contents = []\<rparr>, callback = None, param = 0\<rparr>),
       next_addr := 1\<rparr>"
  "snd (smg_uart_init_ex cfg2 open0) =
     open0\<lparr>uartInstances := (\<lambda>_. None)(0 := Some 0, 2 := Some 1),
       heap := (heap open0)(1 :=
                \<lparr>uart_nr = 2, baud_rate = 0, mode = UART_FULL, options = 0, rx_pin = 255,
                 tx_pin = 255, rx_headroom = 24, status = 0,
                 rx_buffer = Some \<lparr>capacity = 136, contents = []\<rparr>,
                 tx_buffer = Some \<lparr>capacity = 136, contents = []\<rparr>, callback = None, param = 0\<rparr>),
       next_addr := 2\<rparr>"
  by (simp_all add: cfg2_def open0_eval api_defs prim_defs boot_defs uart_consts Let_def clear_def)

lemma virtual_scene_eval:
  "heap (virtual_alone st) 0 =
      \<lparr>uart_nr = 2, baud_rate = 0, mode = UART_FULL, options = 0, rx_pin = 255,
       tx_pin = 255, rx_headroom = 24, status = st,
       rx_buffer = Some \<lparr>capacity = 136, contents = []\<rparr>,
       tx_buffer = Some \<lparr>capacity = 136, contents = []\<rparr>, callback = None, param = 0\<rparr>"
  "uartInstances (virtual_alone st) = (\<lambda>_. None)(2 := Some 0)"
  "regs (virtual_alone st) = (\<lambda>_. boot_regs)(0 := boot_regs\<lparr>INT_RAW := UART_RXFIFO_OVF_INT\<rparr>)"
  "isrMask (virtual_alone st) = 0"
  "heap virtual_backed (Suc 0) =
      \<lparr>uart_nr = 2, baud_rate = 0, mode = UART_FULL, options = 0, rx_pin = 255,
       tx_pin = 255, rx_headroom = 24, status = 0,
       rx_buffer = Some \<lparr>capacity = 136, contents = []\<rparr>,
       tx_buffer = Some \<lparr>capacity = 136, contents = []\<rparr>, callback = None, param = 0\<rparr>"
  "heap virtual_backed 0 = heap open0 0"
  "uartInstances virtual_backed = (\<lambda>_. None)(0 := Some 0, 2 := Some 1)"
  "regs virtual_backed = (regs open0)(0 := (regs open0 0)\<lparr>INT_RAW := UART_RXFIFO_OVF_INT OR UART_RXFIFO_FULL_INT\<rparr>)"
  "isrMask virtual_backed = 1"
  unfolding virtual_alone_def virtual_backed_def virtual_init_eval
  by (simp_all add: upd_regs_def upd_uart_def boot_state_def open0_eval)

text \<open>
  Witness for C6. UART0 with the sticky bits FIFO-full and overflow and the raw flags
  FIFO-full and overflow: the first read returns 16, the overflow flag alone, and leaves
  only the raw FIFO-full flag; the second returns 0. The virtual uart (at address 1) with
  UART0 open and the raw flags FIFO-full and overflow of port 0: the first read returns 16
  and clears the raw overflow flag of port 0; the second returns 0. The virtual uart with
  no UART0 instance and its own sticky overflow bit: the first read returns 16 and leaves
  the registers as they were; the second returns 0.
\<close>

theorem get_status_reports_overflow_once_witness:
  "overflow_flag (status (heap ovf_scene 0)) \<and> raw_overflow_at 0 ovf_scene \<and>
   fst (smg_uart_get_status (Some 0) ovf_scene) = 16 \<and>
   overflow_flag (fst (smg_uart_get_status (Some 0) ovf_scene)) \<and>
   status (heap (snd (smg_uart_get_status (Some 0) ovf_scene)) 0) = 0 \<and>
   INT_RAW (regs (snd (smg_uart_get_status (Some 0) ovf_scene)) 0) = UART_RXFIFO_FULL_INT \<and>
   fst (smg_uart_get_status (Some 0) (snd (smg_uart_get_status (Some 0) ovf_scene))) = 0 \<and>
   uart_nr (heap virtual_backed 1) = UART2 \<and> uart0_open virtual_backed \<and>
   \<not> overflow_flag (status (heap virtual_backed 1)) \<and> raw_overflow_at UART0 virtual_backed \<and>
   fst (smg_uart_get_status (Some 1) virtual_backed) = 16 \<and>
   INT_RAW (regs (snd (smg_uart_get_status (Some 1) virtual_backed)) UART0) = UART_RXFIFO_FULL_INT \<and>
   \<not> raw_overflow_at UART0 (snd (smg_uart_get_status (Some 1) virtual_backed)) \<and>
   fst (smg_uart_get_status (Some 1) (snd (smg_uart_get_status (Some 1) virtual_backed))) = 0 \<and>
   uart_nr (heap (virtual_alone 16) 0) = UART2 \<and> uartInstances (virtual_alone 16) UART0 = None \<and>
   overflow_flag (status (heap (virtual_alone 16) 0)) \<and>
   fst (smg_uart_get_status (Some 0) (virtual_alone 16)) = 16 \<and>
   regs (snd (smg_uart_get_status (Some 0) (virtual_alone 16))) = regs (virtual_alone 16) \<and>
   fst (smg_uart_get_status (Some 0) (snd (smg_uart_get_status (Some 0) (virtual_alone 16)))) = 0"
proof -
  have p: "uart_nr (heap ovf_scene 0) = UART0" "backing_port (heap ovf_scene 0) = 0"
    "overflow_flag (status (heap ovf_scene 0))" "raw_overflow_at 0 ovf_scene"
    "fst (smg_uart_get_status (Some 0) ovf_scene) = 16"
    "INT_RAW (regs (snd (smg_uart_get_status (Some 0) ovf_scene)) 0) = UART_RXFIFO_FULL_INT"
    "fst (smg_uart_get_status (Some 0) (snd (smg_uart_get_status (Some 0) ovf_scene))) = 0"
    by (simp_all add: overflow_flag_def raw_overflow_at_def backing_port_def smg_uart_get_status_def
        ovf_scene_def open0_eval prim_defs uart_consts Let_def boot_regs_def)
  have v: "uart_nr (heap virtual_backed 1) = UART2" "uart0_open virtual_backed"
    "backing_port (heap virtual_backed 1) = UART0"
    "\<not> overflow_flag (status (heap virtual_backed 1))" "raw_overflow_at UART0 virtual_backed"
    "fst (smg_uart_get_status (Some 1) virtual_backed) = 16"
    "INT_RAW (regs (snd (smg_uart_get_status (Some 1) virtual_backed)) UART0) = UART_RXFIFO_FULL_INT"
    "fst (smg_uart_get_status (Some 1) (snd (smg_uart_get_status (Some 1) virtual_backed))) = 0"
    by (simp_all add: overflow_flag_def raw_overflow_at_def backing_port_def uart0_open_def
        smg_uart_get_status_def virtual_scene_eval open0_eval prim_defs uart_consts Let_def
        boot_regs_def)
  have w: "uart_nr (heap (virtual_alone 16) 0) = UART2" "uartInstances (virtual_alone 16) UART0 = None"
    "overflow_flag (status (heap (virtual_alone 16) 0))"
    "fst (smg_uart_get_status (Some 0) (virtual_alone 16)) = 16"
    "fst (smg_uart_get_status (Some 0) (snd (smg_uart_get_status (Some 0) (virtual_alone 16)))) = 0"
    by (simp_all add: overflow_flag_def smg_uart_get_status_def virtual_scene_eval prim_defs
        uart_consts Let_def boot_regs_def)
  show ?thesis
    using p v w get_status_reports_overflow_once[of ovf_scene 0]
      get_status_reports_overflow_once[of virtual_backed 1]
      get_status_reports_overflow_once[of "virtual_alone 16" 0]
    by (simp add: Let_def UART0_def UART2_def)
qed

text \<open>
  Counterexample to C6 as stated: the virtual uart opened on the boot state, so that no
  instance is registered for UART0, and an overflow recorded as the raw overflow flag of
  port 0, the hardware the virtual uart aliases. The status read returns 0, with the
  overflow flag clear, and the raw overflow flag of port 0 is still set afterwards.
\<close>

theorem get_status_virtual_without_uart0:
  "uart_nr (heap (virtual_alone 0) 0) = UART2 \<and>
   backing_port (heap (virtual_alone 0) 0) = UART0 \<and>
   uartInstances (virtual_alone 0) UART0 = None \<and>
   raw_overflow_at UART0 (virtual_alone 0) \<and>
   fst (smg_uart_get_status (Some 0) (virtual_alone 0)) = 0 \<and>
   \<not> overflow_flag (fst (smg_uart_get_status (Some 0) (virtual_alone 0))) \<and>
   raw_overflow_at UART0 (snd (smg_uart_get_status (Some 0) (virtual_alone 0)))"
  by (simp add: virtual_scene_eval backing_port_def raw_overflow_at_def overflow_flag_def
      smg_uart_get_status_def prim_defs uart_consts Let_def boot_regs_def)

text \<open>
  C10. Every call to \<open>smg_uart_get_status\<close> on a non-null uart resets the sticky status
  field to zero. The returned value is made of the break-detect and overflow bits of the
  sticky field and of the hardware part; any other sticky bits (\<open>x\<close> below, outside
  those two) do not change it.
\<close>

theorem get_status_discards_other_sticky_bits:
  "status (heap (snd (smg_uart_get_status (Some a) s)) a) = 0 \<and>
   fst (smg_uart_get_status (Some a) s)
     = ucast ((ucast (status (heap s a)) AND (UART_BRK_DET_INT OR UART_RXFIFO_OVF_INT))
              OR status_hw_part a s) \<and>
   fst (smg_uart_get_status (Some a)
          (upd_uart a (\<lambda>u. u\<lparr>status := status u OR (x AND NOT (ucast (UART_BRK_DET_INT OR UART_RXFIFO_OVF_INT)))\<rparr>) s))
     = fst (smg_uart_get_status (Some a) s)"
proof -
  have "(ucast (status (heap s a) OR (x AND NOT (ucast (UART_BRK_DET_INT OR UART_RXFIFO_OVF_INT)))) :: 32 word)
           AND (UART_BRK_DET_INT OR UART_RXFIFO_OVF_INT)
        = ucast (status (heap s a)) AND (UART_BRK_DET_INT OR UART_RXFIFO_OVF_INT)"
    by (rule bit_word_eqI) (auto simp: bit_simps bit_consts)
  then show ?thesis
    by (simp add: get_status_sticky get_status_value status_hw_part_upd_status) (simp add: upd_uart_def)
qed

text \<open>
  Witness for C10: with the sticky bits FIFO-full, parity, framing and timeout set and no
  raw error flag, the status read returns 0 and the sticky field is zero afterwards.
\<close>

theorem get_status_discards_other_sticky_bits_witness:
  "status (heap sticky_scene 0) = 269 \<and>
   status_hw_part 0 sticky_scene = 0 \<and>
   fst (smg_uart_get_status (Some 0) sticky_scene) = 0 \<and>
   status (heap (snd (smg_uart_get_status (Some 0) sticky_scene)) 0) = 0"
proof -
  have e: "status (heap sticky_scene 0) = 269" "status_hw_part 0 sticky_scene = 0"
    by (simp_all add: sticky_scene_def status_hw_part_def open0_eval prim_defs uart_consts
        boot_regs_def)
  have "(ucast (269 :: 16 word) :: 32 word) AND (UART_BRK_DET_INT OR UART_RXFIFO_OVF_INT) = 0"
    by (simp add: bit_consts)
  then show ?thesis
    using e get_status_discards_other_sticky_bits[of 0 sticky_scene 0] by simp
qed

subsection \<open>Pin multiplexer\<close>

lemma heap_pin_select [simp]:
  "heap (uart0_pin_select p s) = heap s" "heap (uart0_pin_restore p s) = heap s"
  "SWAP_REG (uart0_pin_select p s) = SWAP_REG s" "SWAP_REG (uart0_pin_restore p s) = SWAP_REG s"
  by (simp_all add: uart0_pin_select_def uart0_pin_restore_def PIN_FUNC_SELECT_def)

lemma swapped_uart_nr [simp]: "uart_nr (swapped_uart t u) = uart_nr u" "mode (swapped_uart t u) = mode u"
  by (simp_all add: swapped_uart_def)

lemma swap_effect:
  assumes "uart_nr (heap s a) = UART0"
  shows "heap (smg_uart_swap (Some a) t s) = (heap s)(a := swapped_uart t (heap s a))"
    and "SWAP_REG (smg_uart_swap (Some a) t s) =
           (if tx_pin (heap s a) = 1 \<or> tx_pin (heap s a) = 2 \<or> rx_pin (heap s a) = 3
            then SWAP_REG s OR UART_SWAP0 else SWAP_REG s AND NOT UART_SWAP0)"
  using assms
  by (auto simp: smg_uart_swap_def swapped_uart_def Let_def smg_uart_tx_enabled_def
      smg_uart_rx_enabled_def upd_uart_def fun_eq_iff)

lemma set_tx_effect:
  "heap (snd (smg_uart_set_tx (Some a) t s)) =
     (if uart_nr (heap s a) = UART0 \<and> mode (heap s a) \<noteq> UART_RX_ONLY
      then (heap s)(a := (heap s a)\<lparr>tx_pin := (if t = 2 then 2 else 1)\<rparr>) else heap s)"
  "SWAP_REG (snd (smg_uart_set_tx (Some a) t s)) = SWAP_REG s"
  by (auto simp: smg_uart_set_tx_def Let_def smg_uart_tx_enabled_def upd_uart_def)

lemma or_and_not_swap: "x AND UART_SWAP0 = 0 \<Longrightarrow> (x OR UART_SWAP0) AND NOT UART_SWAP0 = x"
  unfolding UART_SWAP0_def using and_bit_neq_0[of x 2] by (intro set_clear_bit) simp

text \<open>\<open>smg_uart_init_ex\<close> leaves UART0 in the default pin set.\<close>

lemma default_pin_set_cong:
  "uart_nr (heap s' a) = uart_nr (heap s a) \<Longrightarrow> mode (heap s' a) = mode (heap s a) \<Longrightarrow>
   tx_pin (heap s' a) = tx_pin (heap s a) \<Longrightarrow> rx_pin (heap s' a) = rx_pin (heap s a) \<Longrightarrow>
   SWAP_REG s' = SWAP_REG s \<Longrightarrow> default_pin_set a s' = default_pin_set a s"
  by (simp add: default_pin_set_def smg_uart_tx_enabled_def smg_uart_rx_enabled_def)

lemma pins_set_baudrate:
  "uart_nr (heap (snd (smg_uart_set_baudrate u b s)) a) = uart_nr (heap s a)"
  "mode (heap (snd (smg_uart_set_baudrate u b s)) a) = mode (heap s a)"
  "tx_pin (heap (snd (smg_uart_set_baudrate u b s)) a) = tx_pin (heap s a)"
  "rx_pin (heap (snd (smg_uart_set_baudrate u b s)) a) = rx_pin (heap s a)"
  "SWAP_REG (snd (smg_uart_set_baudrate u b s)) = SWAP_REG s"
  by (simp_all add: smg_uart_set_baudrate_def smg_uart_set_baudrate_reg_def prim_defs Let_def
      split: option.splits)

lemma pins_flush:
  "uart_nr (heap (smg_uart_flush u m s) a) = uart_nr (heap s a)"
  "mode (heap (smg_uart_flush u m s) a) = mode (heap s a)"
  "tx_pin (heap (smg_uart_flush u m s) a) = tx_pin (heap s a)"
  "rx_pin (heap (smg_uart_flush u m s) a) = rx_pin (heap s a)"
  "SWAP_REG (smg_uart_flush u m s) = SWAP_REG s"
  by (simp_all add: smg_uart_flush_def Let_def heap_prims SWAP_prims split: option.splits)

lemma pins_start_isr:
  "heap (smg_uart_start_isr u s) = heap s"
  "SWAP_REG (smg_uart_start_isr u s) = SWAP_REG s"
  by (simp_all add: smg_uart_start_isr_def Let_def prim_defs split: option.splits)

lemma pins_notify: "heap (notify a c s) = heap s" "SWAP_REG (notify a c s) = SWAP_REG s"
  by (simp_all add: notify_def split: option.splits)

lemma pins_detach: "heap (smg_uart_detach n s) = heap s" "SWAP_REG (smg_uart_detach n s) = SWAP_REG s"
  by (simp_all add: smg_uart_detach_def Let_def heap_prims SWAP_prims)

lemma pin_select_frame:
  "heap (uart0_pin_select p s) = heap s" "SWAP_REG (uart0_pin_select p s) = SWAP_REG s"
  by (simp_all add: uart0_pin_select_def heap_prims SWAP_prims)

lemma init_ex_port_uart0_pins:
  assumes "cfg_uart_nr cfg = UART0" "uart_nr (heap s a) = UART0"
      "tx_pin (heap s a) = UART_PIN_DEFAULT" "rx_pin (heap s a) = UART_PIN_DEFAULT"
      "init_ex_port cfg a s = Some s1"
  shows "default_pin_set a s1"
proof -
  have a0: "UART0 \<noteq> UART2" by (simp add: uart_consts)
  have z: "(x AND NOT UART_SWAP0) AND UART_SWAP0 = 0" for x :: "32 word"
    by (rule bit_word_eqI) (simp add: bit_simps)
  show ?thesis
    using assms a0
    by (auto simp: init_ex_port_def Let_def default_pin_set_def smg_uart_tx_enabled_def
        smg_uart_rx_enabled_def heap_prims SWAP_prims pins_detach pin_select_frame z
        split: if_splits)
qed

lemma init_ex_uart0_default_pins:
  assumes "cfg_uart_nr cfg = UART0" "smg_uart_init_ex cfg s = (Some a, s')"
  shows "default_pin_set a s'"
proof -
  let ?a = "next_addr s"
  let ?s0 = "s\<lparr>next_addr := Suc ?a,
                   heap := (heap s)(?a :=
                     \<lparr>uart_nr = cfg_uart_nr cfg, baud_rate = 0, mode = cfg_mode cfg,
                      options = cfg_options cfg, rx_pin = UART_PIN_DEFAULT,
                      tx_pin = UART_PIN_DEFAULT, rx_headroom = of_nat DEFAULT_RX_HEADROOM,
                      status = 0, rx_buffer = None, tx_buffer = None, callback = None,
                      param = 0\<rparr>)\<rparr>"
  let ?s3 = "\<lambda>s1. smg_uart_flush (Some ?a) UART_FULL
                (snd (smg_uart_set_baudrate (Some ?a) (cfg_baudrate cfg) s1))"
  from assms(2) obtain s1 where s1: "init_ex_port cfg ?a ?s0 = Some s1" and a: "a = ?a"
    and s': "s' = notify ?a UART_NOTIFY_AFTER_OPEN (smg_uart_start_isr (Some ?a)
         ((?s3 s1)\<lparr>uartInstances := (uartInstances (?s3 s1))(cfg_uart_nr cfg := Some ?a)\<rparr>))"
    by (auto simp: smg_uart_init_ex_def Let_def split: if_splits option.splits)
  have d: "default_pin_set ?a s1"
    by (rule init_ex_port_uart0_pins[OF assms(1) _ _ _ s1]) (simp_all add: assms(1))
  have "default_pin_set ?a s' = default_pin_set ?a s1"
    unfolding s'
    by (rule default_pin_set_cong)
       (simp_all add: pins_notify pins_start_isr pins_flush pins_set_baudrate)
  then show ?thesis using d a by simp
qed

text \<open>
  A successful \<open>smg_uart_init_ex\<close> for UART0 also leaves UART0 open in the sense of
  \<open>uart0_open\<close>: the new instance is registered for UART0 and is on port 0.
\<close>

lemma uartInstances_frames:
  "uartInstances (notify a c s) = uartInstances s"
  "uartInstances (smg_uart_start_isr u s) = uartInstances s"
  by (simp_all add: smg_uart_start_isr_def Let_def prim_defs split: option.splits)

lemma init_ex_opens_uart0:
  assumes "cfg_uart_nr cfg = UART0" "smg_uart_init_ex cfg s = (Some a, s')"
  shows "uart0_open s'"
proof -
  have "uart_nr (heap s' a) = UART0"
    using init_ex_uart0_default_pins[OF assms] by (simp add: default_pin_set_def)
  moreover have "uartInstances s' UART0 = Some a"
    using assms
    by (auto simp: smg_uart_init_ex_def Let_def uartInstances_frames split: if_splits option.splits)
  ultimately show ?thesis by (simp add: uart0_open_def)
qed

text \<open>
  C7. For UART0 in the default pin set, \<open>smg_uart_swap\<close> (with any target) followed by
  \<open>smg_uart_swap\<close> with the original transmit pin as target restores the original
  \<open>tx_pin\<close> and \<open>rx_pin\<close> and the original pin-swap control register.
\<close>

theorem swap_twice_restores_pins:
  assumes "default_pin_set a s"
  shows "tx_pin (heap (smg_uart_swap (Some a) (uint (tx_pin (heap s a))) (smg_uart_swap (Some a) t s)) a) = tx_pin (heap s a) \<and>
         rx_pin (heap (smg_uart_swap (Some a) (uint (tx_pin (heap s a))) (smg_uart_swap (Some a) t s)) a) = rx_pin (heap s a) \<and>
         SWAP_REG (smg_uart_swap (Some a) (uint (tx_pin (heap s a))) (smg_uart_swap (Some a) t s)) = SWAP_REG s"
proof -
  let ?u = "heap s a"
  let ?s1 = "smg_uart_swap (Some a) t s"
  have nr: "uart_nr ?u = UART0" using assms by (simp add: default_pin_set_def)
  have d: "(if mode ?u \<noteq> UART_RX_ONLY then tx_pin ?u = 1 \<or> tx_pin ?u = 2 else tx_pin ?u = 255)"
          "(if mode ?u \<noteq> UART_TX_ONLY then rx_pin ?u = 3 else rx_pin ?u = 255)"
          "SWAP_REG s AND UART_SWAP0 = 0"
    using assms
    by (simp_all add: default_pin_set_def smg_uart_tx_enabled_def smg_uart_rx_enabled_def
        UART_PIN_DEFAULT_def)
  have c: "tx_pin ?u = 1 \<or> tx_pin ?u = 2 \<or> rx_pin ?u = 3"
    using d(1,2) by (cases "mode ?u") auto
  have h1: "heap ?s1 a = swapped_uart t ?u" "SWAP_REG ?s1 = SWAP_REG s OR UART_SWAP0"
    using c by (simp_all add: swap_effect[OF nr])
  have nr1: "uart_nr (heap ?s1 a) = UART0" by (simp add: h1 nr)
  have p: "\<not> (tx_pin (swapped_uart t ?u) = 1 \<or> tx_pin (swapped_uart t ?u) = 2 \<or>
              rx_pin (swapped_uart t ?u) = 3)"
    using d(1,2) c by (cases "mode ?u") (auto simp: swapped_uart_def)
  have rt: "tx_pin (swapped_uart (uint (tx_pin ?u)) (swapped_uart t ?u)) = tx_pin ?u"
             "rx_pin (swapped_uart (uint (tx_pin ?u)) (swapped_uart t ?u)) = rx_pin ?u"
    using d(1,2) c by (cases "mode ?u"; auto simp: swapped_uart_def)+
  show ?thesis
    using p rt or_and_not_swap[OF d(3)]
    by (simp add: swap_effect[OF nr1] h1)
qed

text \<open>
  Witness for C7: UART0 as opened has pins 1 and 3; swapped they are 15 and 13 with the
  control bit set; swapped back with target 1 they are 1 and 3 with the bit clear.
\<close>

theorem swap_twice_restores_pins_witness:
  "default_pin_set 0 open0 \<and> tx_pin (heap open0 0) = 1 \<and>
   tx_pin (heap (smg_uart_swap (Some 0) 15 open0) 0) = 15 \<and>
   rx_pin (heap (smg_uart_swap (Some 0) 15 open0) 0) = 13 \<and>
   SWAP_REG (smg_uart_swap (Some 0) 15 open0) = UART_SWAP0 \<and>
   tx_pin (heap (smg_uart_swap (Some 0) 1 (smg_uart_swap (Some 0) 15 open0)) 0) = 1 \<and>
   rx_pin (heap (smg_uart_swap (Some 0) 1 (smg_uart_swap (Some 0) 15 open0)) 0) = 3 \<and>
   SWAP_REG (smg_uart_swap (Some 0) 1 (smg_uart_swap (Some 0) 15 open0)) = 0"
proof -
  have d: "default_pin_set 0 open0"
    by (simp add: default_pin_set_def open0_eval prim_defs uart_consts)
  have e: "tx_pin (heap open0 0) = 1" "rx_pin (heap open0 0) = 3" "SWAP_REG open0 = 0"
    by (simp_all add: open0_eval)
  have f: "tx_pin (heap (smg_uart_swap (Some 0) 15 open0) 0) = 15 \<and>
   rx_pin (heap (smg_uart_swap (Some 0) 15 open0) 0) = 13 \<and>
   SWAP_REG (smg_uart_swap (Some 0) 15 open0) = UART_SWAP0"
    by (simp add: open0_eval api_defs prim_defs uart_consts Let_def)
  show ?thesis using d e f swap_twice_restores_pins[OF d, of 15] by simp
qed

lemma mixed0_eval:
  "heap mixed0 0 = (heap open0 0)\<lparr>rx_pin := 13, tx_pin := 1\<rparr>"
  "SWAP_REG mixed0 = UART_SWAP0"
  by (simp_all add: mixed0_def open0_eval api_defs prim_defs uart_consts Let_def)

text \<open>
  C8, the failing input. UART0 opened with both roles, swapped, then given transmit pin 1
  by \<open>smg_uart_set_tx\<close>, has \<open>tx_pin = 1\<close> and \<open>rx_pin = 13\<close>. The request
  \<open>smg_uart_set_pins(uart, 2, 3)\<close> returns false, and yet \<open>tx_pin\<close> is 15 afterwards.
\<close>

theorem set_pins_fails_after_changing_tx_pin:
  "tx_pin (heap mixed0 0) = 1 \<and> rx_pin (heap mixed0 0) = 13 \<and>
   fst (smg_uart_set_pins (Some 0) 2 3 mixed0) = False \<and>
   tx_pin (heap (snd (smg_uart_set_pins (Some 0) 2 3 mixed0)) 0) = 15"
  by (simp add: mixed0_def open0_eval api_defs prim_defs uart_consts Let_def)

text \<open>
  Outside that mixed pin state a call of \<open>smg_uart_set_pins\<close> that returns false leaves
  every instance and the pin-swap control register as they were.
\<close>

lemma set_pins_false_unchanged:
  assumes "\<not> mixed_pins a s" "fst (smg_uart_set_pins (Some a) tx rx s) = False"
  shows "heap (snd (smg_uart_set_pins (Some a) tx rx s)) = heap s \<and>
         SWAP_REG (snd (smg_uart_set_pins (Some a) tx rx s)) = SWAP_REG s"
proof (cases "uart_nr (heap s a) = UART0")
  case False
  then show ?thesis by (simp add: smg_uart_set_pins_def)
next
  case True
  show ?thesis
    using assms True
    by (auto simp: smg_uart_set_pins_def mixed_pins_def smg_uart_tx_enabled_def
        smg_uart_rx_enabled_def swap_effect set_tx_effect swapped_uart_def uint_pin_eq
        split: if_splits)
qed

subsection \<open>The drain loop and the refill loop of the interrupt handler\<close>

lemma rx_drain_loop_fst: "fst (rx_drain_loop r nr a s) = - 1"
  by (induction r nr a s rule: rx_drain_loop.induct) (subst rx_drain_loop.simps, simp)

lemma rx_drain_loop_snd: "snd (rx_drain_loop r nr a s) = ((rx_drain_body nr a) ^^ unat r) s"
proof (induction r nr a s rule: rx_drain_loop.induct)
  case (1 read nr a s)
  show ?case
  proof (cases "read = 0")
    case True
    then show ?thesis by (subst rx_drain_loop.simps) simp
  next
    case False
    then have "unat read = Suc (unat (read - 1))"
      by (simp add: unat_minus_one unat_gt_0)
    then show ?thesis using False 1 by (subst rx_drain_loop.simps) (simp add: funpow_swap1)
  qed
qed

lemma rx_drain_body_masked: "rx_masked (rx_drain_body nr a s) = rx_masked s"
  by (auto simp: rx_masked_def rx_drain_body_def READ_FIFO_def upd_uart_def upd_regs_def fun_eq_iff
      split: list.splits)

lemma rx_drain_iter_masked: "rx_masked ((rx_drain_body nr a ^^ n) s) = rx_masked s"
  by (induction n) (simp_all add: rx_drain_body_masked)

lemma rx_drain_body_eff:
  assumes "rx_fifo (regs s nr) = c # cs" "rx_buffer (heap s a) = Some b" "length (contents b) < capacity b"
  shows "rx_fifo (regs (rx_drain_body nr a s) nr) = cs"
        "rx_buffer (heap (rx_drain_body nr a s) a) = Some (b\<lparr>contents := contents b @ [c]\<rparr>)"
  using assms by (simp_all add: rx_drain_body_def READ_FIFO_def upd_uart_def upd_regs_def writeChar_def)

lemma rx_drain_iter_eff:
  "n \<le> length (rx_fifo (regs s nr)) \<Longrightarrow> rx_buffer (heap s a) = Some b \<Longrightarrow>
   length (contents b) + n \<le> capacity b \<Longrightarrow>
   rx_fifo (regs ((rx_drain_body nr a ^^ n) s) nr) = drop n (rx_fifo (regs s nr)) \<and>
   rx_buffer (heap ((rx_drain_body nr a ^^ n) s) a)
     = Some (b\<lparr>contents := contents b @ take n (rx_fifo (regs s nr))\<rparr>)"
proof (induction n arbitrary: s b)
  case 0
  then show ?case by simp
next
  case (Suc n)
  then obtain c cs where f: "rx_fifo (regs s nr) = c # cs" by (cases "rx_fifo (regs s nr)") auto
  have lt: "length (contents b) < capacity b" using Suc.prems by simp
  note e = rx_drain_body_eff[OF f Suc.prems(2) lt]
  have "rx_fifo (regs ((rx_drain_body nr a ^^ n) (rx_drain_body nr a s)) nr) = drop n cs \<and>
        rx_buffer (heap ((rx_drain_body nr a ^^ n) (rx_drain_body nr a s)) a)
          = Some (b\<lparr>contents := (contents b @ [c]) @ take n cs\<rparr>)"
    using Suc.IH[of "rx_drain_body nr a s" "b\<lparr>contents := contents b @ [c]\<rparr>"] Suc.prems f e
    by simp
  then show ?case by (simp add: funpow_swap1 f)
qed

lemma tx_fill_loop_snd: "snd (tx_fill_loop r nr a s) = ((tx_fill_body nr a) ^^ unat r) s"
proof (induction r nr a s rule: tx_fill_loop.induct)
  case (1 count nr a s)
  show ?case
  proof (cases "count = 0")
    case True
    then show ?thesis by (subst tx_fill_loop.simps) simp
  next
    case False
    then have "unat count = Suc (unat (count - 1))"
      by (simp add: unat_minus_one unat_gt_0)
    then show ?thesis using False 1 by (subst tx_fill_loop.simps) (simp add: funpow_swap1)
  qed
qed

lemma tx_fill_body_masked: "tx_masked (tx_fill_body nr a s) = tx_masked s"
  by (auto simp: tx_masked_def tx_fill_body_def WRITE_FIFO_def upd_uart_def upd_regs_def fun_eq_iff
      split_def Let_def split: option.splits)

lemma tx_fill_iter_masked: "tx_masked ((tx_fill_body nr a ^^ n) s) = tx_masked s"
  by (induction n) (simp_all add: tx_fill_body_masked)

lemma tx_fill_body_eff:
  assumes "tx_buffer (heap s a) = Some b" "contents b = c # cs"
  shows "tx_fifo (regs (tx_fill_body nr a s) nr) = tx_fifo (regs s nr) @ [c]"
        "tx_buffer (heap (tx_fill_body nr a s) a) = Some (b\<lparr>contents := cs\<rparr>)"
  using assms
  by (simp_all add: tx_fill_body_def WRITE_FIFO_def upd_uart_def upd_regs_def readChar_def
      ucast_byte_roundtrip)

lemma tx_fill_iter_eff:
  "tx_buffer (heap s a) = Some b \<Longrightarrow> n \<le> length (contents b) \<Longrightarrow>
   tx_fifo (regs ((tx_fill_body nr a ^^ n) s) nr) = tx_fifo (regs s nr) @ take n (contents b) \<and>
   tx_buffer (heap ((tx_fill_body nr a ^^ n) s) a) = Some (b\<lparr>contents := drop n (contents b)\<rparr>)"
proof (induction n arbitrary: s b)
  case 0
  then show ?case by simp
next
  case (Suc n)
  then obtain c cs where f: "contents b = c # cs" by (cases "contents b") auto
  note e = tx_fill_body_eff[OF Suc.prems(1) f, of nr]
  have "tx_fifo (regs ((tx_fill_body nr a ^^ n) (tx_fill_body nr a s)) nr)
          = (tx_fifo (regs s nr) @ [c]) @ take n cs \<and>
        tx_buffer (heap ((tx_fill_body nr a ^^ n) (tx_fill_body nr a s)) a)
          = Some (b\<lparr>contents := drop n cs\<rparr>)"
    using Suc.IH[of "tx_fill_body nr a s" "b\<lparr>contents := cs\<rparr>"] Suc.prems f e by simp
  then show ?case by (simp add: funpow_swap1 f)
qed

lemma tx_fill_iter_ena: "INT_ENA (regs ((tx_fill_body nr a ^^ n) s) m) = INT_ENA (regs s m)"
proof (induction n arbitrary: s)
  case 0
  then show ?case by simp
next
  case (Suc n)
  have "INT_ENA (regs (tx_fill_body nr a s) m) = INT_ENA (regs s m)"
    by (simp add: tx_fill_body_def WRITE_FIFO_def upd_uart_def upd_regs_def split_def Let_def
        split: option.splits)
  then show ?case using Suc[of "tx_fill_body nr a s"] by (simp add: funpow_swap1)
qed

subsection \<open>What the receive and transmit sections leave alone\<close>

lemma rx_masked_heap:
  assumes "rx_masked s' = rx_masked s"
  shows "(heap s' b)\<lparr>rx_buffer := None\<rparr> = (heap s b)\<lparr>rx_buffer := None\<rparr>"
  using arg_cong[OF assms, of "\<lambda>s. heap s b"] by (simp add: rx_masked_def)

lemma rx_masked_regs:
  assumes "rx_masked s' = rx_masked s"
  shows "(regs s' m)\<lparr>rx_fifo := [], INT_ENA := INT_ENA (regs s' m) AND NOT
                     (UART_RXFIFO_FULL_INT OR UART_RXFIFO_TOUT_INT OR UART_RXFIFO_OVF_INT)\<rparr>
       = (regs s m)\<lparr>rx_fifo := [], INT_ENA := INT_ENA (regs s m) AND NOT
                     (UART_RXFIFO_FULL_INT OR UART_RXFIFO_TOUT_INT OR UART_RXFIFO_OVF_INT)\<rparr>"
  using arg_cong[OF assms, of "\<lambda>s. regs s m"] by (simp add: rx_masked_def)

lemma rx_masked_fields:
  assumes "rx_masked s' = rx_masked s"
  shows "trace s' = trace s" "isrMask s' = isrMask s" "uartInstances s' = uartInstances s"
    "notifyCallbacks s' = notifyCallbacks s"
    "rx_headroom (heap s' b) = rx_headroom (heap s b)" "callback (heap s' b) = callback (heap s b)"
    "options (heap s' b) = options (heap s b)" "tx_buffer (heap s' b) = tx_buffer (heap s b)"
    "status (heap s' b) = status (heap s b)" "uart_nr (heap s' b) = uart_nr (heap s b)"
    "mode (heap s' b) = mode (heap s b)"
    "tx_fifo (regs s' m) = tx_fifo (regs s m)" "INT_RAW (regs s' m) = INT_RAW (regs s m)"
proof -
  show "trace s' = trace s" "isrMask s' = isrMask s" "uartInstances s' = uartInstances s"
    "notifyCallbacks s' = notifyCallbacks s"
    using arg_cong[OF assms, of trace] arg_cong[OF assms, of isrMask]
      arg_cong[OF assms, of uartInstances] arg_cong[OF assms, of notifyCallbacks]
    by (simp_all add: rx_masked_def)
  note h = rx_masked_heap[OF assms, of b]
  show "rx_headroom (heap s' b) = rx_headroom (heap s b)" "callback (heap s' b) = callback (heap s b)"
    "options (heap s' b) = options (heap s b)" "tx_buffer (heap s' b) = tx_buffer (heap s b)"
    "status (heap s' b) = status (heap s b)" "uart_nr (heap s' b) = uart_nr (heap s b)"
    "mode (heap s' b) = mode (heap s b)"
    using arg_cong[OF h, of rx_headroom] arg_cong[OF h, of callback] arg_cong[OF h, of options]
      arg_cong[OF h, of tx_buffer] arg_cong[OF h, of status] arg_cong[OF h, of uart_nr]
      arg_cong[OF h, of mode]
    by simp_all
  note r = rx_masked_regs[OF assms, of m]
  show "tx_fifo (regs s' m) = tx_fifo (regs s m)" "INT_RAW (regs s' m) = INT_RAW (regs s m)"
    using arg_cong[OF r, of tx_fifo] arg_cong[OF r, of INT_RAW] by simp_all
qed

lemma rx_masked_txe:
  assumes "rx_masked s' = rx_masked s"
  shows "bit (INT_ENA (regs s' m)) 1 = bit (INT_ENA (regs s m)) 1"
proof -
  have "bit (INT_ENA (regs s' m) AND NOT (UART_RXFIFO_FULL_INT OR UART_RXFIFO_TOUT_INT OR UART_RXFIFO_OVF_INT)) 1
      = bit (INT_ENA (regs s m) AND NOT (UART_RXFIFO_FULL_INT OR UART_RXFIFO_TOUT_INT OR UART_RXFIFO_OVF_INT)) 1"
    using arg_cong[OF rx_masked_regs[OF assms, of m], of INT_ENA] by simp
  then show ?thesis by (simp add: bit_simps bit_consts)
qed

lemma rx_masked_clear_ena:
  "m AND NOT (UART_RXFIFO_FULL_INT OR UART_RXFIFO_TOUT_INT OR UART_RXFIFO_OVF_INT) = 0 \<Longrightarrow>
   rx_masked (CLEAR_INT_ENA_MASK nr m s) = rx_masked s"
proof -
  assume a: "m AND NOT (UART_RXFIFO_FULL_INT OR UART_RXFIFO_TOUT_INT OR UART_RXFIFO_OVF_INT) = 0"
  have "(x AND NOT m) AND NOT (UART_RXFIFO_FULL_INT OR UART_RXFIFO_TOUT_INT OR UART_RXFIFO_OVF_INT)
        = x AND NOT (UART_RXFIFO_FULL_INT OR UART_RXFIFO_TOUT_INT OR UART_RXFIFO_OVF_INT)" for x
  proof (rule bit_word_eqI)
    fix n
    have "\<not> bit (m AND NOT (UART_RXFIFO_FULL_INT OR UART_RXFIFO_TOUT_INT OR UART_RXFIFO_OVF_INT)) n"
      unfolding a by simp
    then show "bit ((x AND NOT m) AND NOT (UART_RXFIFO_FULL_INT OR UART_RXFIFO_TOUT_INT OR UART_RXFIFO_OVF_INT)) n
        = bit (x AND NOT (UART_RXFIFO_FULL_INT OR UART_RXFIFO_TOUT_INT OR UART_RXFIFO_OVF_INT)) n"
      by (auto simp: bit_and_iff bit_not_iff bit_or_iff)
  qed
  then show ?thesis
    by (auto simp: rx_masked_def CLEAR_INT_ENA_MASK_def WRITE_INT_ENA_def upd_regs_def fun_eq_iff)
qed

lemma rx_mask_sub:
  "UART_RXFIFO_OVF_INT AND NOT (UART_RXFIFO_FULL_INT OR UART_RXFIFO_TOUT_INT OR UART_RXFIFO_OVF_INT) = 0"
  "(UART_RXFIFO_FULL_INT OR UART_RXFIFO_TOUT_INT) AND NOT (UART_RXFIFO_FULL_INT OR UART_RXFIFO_TOUT_INT OR UART_RXFIFO_OVF_INT) = 0"
  by (simp_all add: bit_consts)

lemmas rx_masked_clear = rx_masked_clear_ena[OF rx_mask_sub(1)] rx_masked_clear_ena[OF rx_mask_sub(2)]

lemma isr_rx_events_masked: "rx_masked (snd (isr_rx_events nr a usis st s)) = rx_masked s"
  by (simp add: isr_rx_events_def Let_def split_def rx_masked_clear rx_drain_loop_snd
      rx_drain_iter_masked split: option.splits)

lemma tx_masked_heap:
  assumes "tx_masked s' = tx_masked s"
  shows "(heap s' b)\<lparr>tx_buffer := None\<rparr> = (heap s b)\<lparr>tx_buffer := None\<rparr>"
  using arg_cong[OF assms, of "\<lambda>s. heap s b"] by (simp add: tx_masked_def)

lemma tx_masked_regs:
  assumes "tx_masked s' = tx_masked s"
  shows "(regs s' m)\<lparr>tx_fifo := [], INT_ENA := INT_ENA (regs s' m) AND NOT UART_TXFIFO_EMPTY_INT\<rparr>
       = (regs s m)\<lparr>tx_fifo := [], INT_ENA := INT_ENA (regs s m) AND NOT UART_TXFIFO_EMPTY_INT\<rparr>"
  using arg_cong[OF assms, of "\<lambda>s. regs s m"] by (simp add: tx_masked_def)

lemma tx_masked_fields:
  assumes "tx_masked s' = tx_masked s"
  shows "trace s' = trace s" "isrMask s' = isrMask s" "uartInstances s' = uartInstances s"
    "notifyCallbacks s' = notifyCallbacks s"
    "rx_headroom (heap s' b) = rx_headroom (heap s b)" "callback (heap s' b) = callback (heap s b)"
    "options (heap s' b) = options (heap s b)" "rx_buffer (heap s' b) = rx_buffer (heap s b)"
    "status (heap s' b) = status (heap s b)" "uart_nr (heap s' b) = uart_nr (heap s b)"
    "mode (heap s' b) = mode (heap s b)"
    "rx_fifo (regs s' m) = rx_fifo (regs s m)" "INT_RAW (regs s' m) = INT_RAW (regs s m)"
proof -
  show "trace s' = trace s" "isrMask s' = isrMask s" "uartInstances s' = uartInstances s"
    "notifyCallbacks s' = notifyCallbacks s"
    using arg_cong[OF assms, of trace] arg_cong[OF assms, of isrMask]
      arg_cong[OF assms, of uartInstances] arg_cong[OF assms, of notifyCallbacks]
    by (simp_all add: tx_masked_def)
  note h = tx_masked_heap[OF assms, of b]
  show "rx_headroom (heap s' b) = rx_headroom (heap s b)" "callback (heap s' b) = callback (heap s b)"
    "options (heap s' b) = options (heap s b)" "rx_buffer (heap s' b) = rx_buffer (heap s b)"
    "status (heap s' b) = status (heap s b)" "uart_nr (heap s' b) = uart_nr (heap s b)"
    "mode (heap s' b) = mode (heap s b)"
    using arg_cong[OF h, of rx_headroom] arg_cong[OF h, of callback] arg_cong[OF h, of options]
      arg_cong[OF h, of rx_buffer] arg_cong[OF h, of status] arg_cong[OF h, of uart_nr]
      arg_cong[OF h, of mode]
    by simp_all
  note r = tx_masked_regs[OF assms, of m]
  show "rx_fifo (regs s' m) = rx_fifo (regs s m)" "INT_RAW (regs s' m) = INT_RAW (regs s m)"
    using arg_cong[OF r, of rx_fifo] arg_cong[OF r, of INT_RAW] by simp_all
qed

lemma tx_masked_clear: "tx_masked (CLEAR_INT_ENA_MASK nr UART_TXFIFO_EMPTY_INT s) = tx_masked s"
  by (auto simp: tx_masked_def CLEAR_INT_ENA_MASK_def WRITE_INT_ENA_def upd_regs_def fun_eq_iff)

lemma isr_tx_events_masked: "tx_masked (snd (isr_tx_events nr a usis st s)) = tx_masked s"
  by (simp add: isr_tx_events_def Let_def split_def tx_masked_clear tx_fill_loop_snd
      tx_fill_iter_masked split: option.splits)

subsection \<open>Receive events\<close>

lemma isr_rx_events_status:
  assumes "rx_buffer (heap s a) = Some b"
      "usis AND (UART_RXFIFO_FULL_INT OR UART_RXFIFO_TOUT_INT OR UART_RXFIFO_OVF_INT) \<noteq> 0"
  shows "fst (isr_rx_events nr a usis st s) =
     (if rx_space_after_drain nr b s > ucast (rx_headroom (heap s a))
      then st AND NOT UART_RXFIFO_FULL_INT else st)"
proof -
  have "rx_headroom (heap (snd (rx_drain_loop r nr a s)) a) = rx_headroom (heap s a)" for r
    by (rule rx_masked_fields) (simp add: rx_drain_loop_snd rx_drain_iter_masked)
  then show ?thesis
    using assms
    by (simp add: isr_rx_events_def Let_def split_def rx_space_after_drain_def)
qed

lemma isr_tx_events_full_bit:
  "bit (fst (isr_tx_events nr a usis st s)) 0 = bit st 0"
  by (simp add: isr_tx_events_def Let_def bit_simps bit_consts)

lemma handle_uart_interrupt_trace:
  assumes "uart_isr_enabled nr s" "\<not> bitRead (options (heap s a)) UART_OPT_CALLBACK_RAW"
      "READ_INT_ST nr s \<noteq> 0"
  shows "trace (handle_uart_interrupt nr (Some a) s) =
     trace s @ (case callback (heap s a) of
                  None \<Rightarrow> []
                | Some cb \<Rightarrow>
                    let st = fst (isr_tx_events nr a (READ_INT_ST nr s)
                                   (fst (isr_rx_events nr a (READ_INT_ST nr s) (READ_INT_ST nr s) s))
                                   (snd (isr_rx_events nr a (READ_INT_ST nr s) (READ_INT_ST nr s) s)))
                    in if st = 0 then [] else [DataCallback cb a st])"
proof -
  let ?usis = "READ_INT_ST nr s"
  let ?r1 = "isr_rx_events nr a ?usis ?usis s"
  let ?r2 = "isr_tx_events nr a ?usis (fst ?r1) (snd ?r1)"
  have m1: "rx_masked (snd ?r1) = rx_masked s" by (rule isr_rx_events_masked)
  have m2: "tx_masked (snd ?r2) = tx_masked (snd ?r1)" by (rule isr_tx_events_masked)
  have c: "callback (heap (snd ?r2) a) = callback (heap s a)"
    using tx_masked_fields(6)[OF m2] rx_masked_fields(6)[OF m1] by simp
  have t: "trace (snd ?r2) = trace s"
    using tx_masked_fields(1)[OF m2] rx_masked_fields(1)[OF m1] by simp
  show ?thesis
    using assms
    by (simp add: handle_uart_interrupt_def Let_def split_def WRITE_INT_CLR_def upd_regs_def
        upd_uart_def c t split: option.splits)
qed

lemma isr_fifo_full_bit_rule:
  assumes "uart_isr_enabled nr s" "\<not> bitRead (options (heap s a)) UART_OPT_CALLBACK_RAW"
      "rx_buffer (heap s a) = Some b" "READ_INT_ST nr s AND UART_RXFIFO_FULL_INT \<noteq> 0"
      "callback (heap s a) = Some cb"
  shows "\<exists>st. trace (handle_uart_interrupt nr (Some a) s)
                 = trace s @ (if st = 0 then [] else [DataCallback cb a st]) \<and>
              ((st AND UART_RXFIFO_FULL_INT \<noteq> 0)
                 = (rx_space_after_drain nr b s \<le> ucast (rx_headroom (heap s a))))"
proof -
  let ?usis = "READ_INT_ST nr s"
  let ?r1 = "isr_rx_events nr a ?usis ?usis s"
  let ?r2 = "isr_tx_events nr a ?usis (fst ?r1) (snd ?r1)"
  have b0: "bit ?usis 0"
    using assms(4) unfolding UART_RXFIFO_FULL_INT_def and_bit_neq_0 .
  then have nz: "?usis \<noteq> 0" by auto
  have ev: "?usis AND (UART_RXFIFO_FULL_INT OR UART_RXFIFO_TOUT_INT OR UART_RXFIFO_OVF_INT) \<noteq> 0"
  proof
    assume z: "?usis AND (UART_RXFIFO_FULL_INT OR UART_RXFIFO_TOUT_INT OR UART_RXFIFO_OVF_INT) = 0"
    have "bit (?usis AND (UART_RXFIFO_FULL_INT OR UART_RXFIFO_TOUT_INT OR UART_RXFIFO_OVF_INT)) 0"
      using b0 by (simp add: bit_simps bit_consts)
    then show False unfolding z by simp
  qed
  have "bit (fst ?r2) 0 = bit (fst ?r1) 0" by (rule isr_tx_events_full_bit)
  also have "\<dots> = (rx_space_after_drain nr b s \<le> ucast (rx_headroom (heap s a)))"
    using b0 by (auto simp add: isr_rx_events_status[OF assms(3) ev] bit_simps bit_consts not_less)
  finally have f: "(fst ?r2 AND UART_RXFIFO_FULL_INT \<noteq> 0)
       = (rx_space_after_drain nr b s \<le> ucast (rx_headroom (heap s a)))"
    unfolding UART_RXFIFO_FULL_INT_def and_bit_neq_0 .
  show ?thesis
    apply (rule exI[of _ "fst ?r2"])
    using f by (simp add: handle_uart_interrupt_trace[OF assms(1,2) nz] assms(5))
qed

lemma unat_rx_drain_count:
  assumes "length (rx_fifo (regs s nr)) < 256" "capacity b < 2 ^ 32"
  shows "unat (rx_drain_count nr b s)
           = min (length (rx_fifo (regs s nr))) (capacity b - length (contents b))"
proof -
  have a: "unat (ucast (uart_rxfifo_count nr s) :: 32 word) = length (rx_fifo (regs s nr))"
    using assms(1) by (simp add: uart_rxfifo_count_def unat_ucast_8_32 unat_of_nat_8)
  have b: "unat (getFreeSpace b) = capacity b - length (contents b)"
    using assms(2) by (simp add: getFreeSpace_def unat_of_nat_32 less_imp_diff_less)
  show ?thesis
    by (simp add: rx_drain_count_def Let_def word_le_nat_alt a b min_def)
qed

lemma isr_rx_events_buffer:
  assumes "rx_buffer (heap s a) = Some b"
      "usis AND (UART_RXFIFO_FULL_INT OR UART_RXFIFO_TOUT_INT OR UART_RXFIFO_OVF_INT) \<noteq> 0"
      "length (rx_fifo (regs s nr)) < 256" "capacity b < 2 ^ 32" "length (contents b) \<le> capacity b"
  shows "rx_buffer (heap (snd (isr_rx_events nr a usis st s)) a)
           = Some (b\<lparr>contents := contents b @ take (unat (rx_drain_count nr b s)) (rx_fifo (regs s nr))\<rparr>)"
    and "rx_fifo (regs (snd (isr_rx_events nr a usis st s)) nr)
           = drop (unat (rx_drain_count nr b s)) (rx_fifo (regs s nr))"
proof -
  let ?n = "unat (rx_drain_count nr b s)"
  have n: "?n \<le> length (rx_fifo (regs s nr))" "length (contents b) + ?n \<le> capacity b"
    using unat_rx_drain_count[OF assms(3,4)] assms(5) by (simp_all add: min_def split: if_splits)
  note e = rx_drain_iter_eff[OF n(1) assms(1) n(2)]
  have r: "snd (isr_rx_events nr a usis st s) =
       (if usis AND UART_RXFIFO_OVF_INT \<noteq> 0
        then CLEAR_INT_ENA_MASK nr UART_RXFIFO_OVF_INT ((rx_drain_body nr a ^^ ?n) s)
        else (rx_drain_body nr a ^^ ?n) s)"
    using assms(1,2)
    by (simp add: isr_rx_events_def Let_def split_def rx_drain_count_def rx_drain_loop_snd
        rx_drain_loop_fst)
  show "rx_buffer (heap (snd (isr_rx_events nr a usis st s)) a)
           = Some (b\<lparr>contents := contents b @ take ?n (rx_fifo (regs s nr))\<rparr>)"
       "rx_fifo (regs (snd (isr_rx_events nr a usis st s)) nr) = drop ?n (rx_fifo (regs s nr))"
    using e by (simp_all add: r CLEAR_INT_ENA_MASK_def WRITE_INT_ENA_def upd_regs_def)
qed

lemma free_space_after_drain:
  assumes "length (rx_fifo (regs s nr)) < 256" "capacity b < 2 ^ 32" "length (contents b) \<le> capacity b"
  shows "getFreeSpace (b\<lparr>contents := contents b @ take (unat (rx_drain_count nr b s)) (rx_fifo (regs s nr))\<rparr>)
           = rx_space_after_drain nr b s"
proof -
  let ?n = "unat (rx_drain_count nr b s)"
  have n: "?n \<le> length (rx_fifo (regs s nr))" "length (contents b) + ?n \<le> capacity b"
    using unat_rx_drain_count[OF assms(1,2)] assms(3) by (simp_all add: min_def split: if_splits)
  have "rx_space_after_drain nr b s = getFreeSpace b - rx_drain_count nr b s"
    by (simp add: rx_space_after_drain_def rx_drain_count_def Let_def)
  also have "\<dots> = of_nat (capacity b - length (contents b)) - of_nat ?n"
    by (simp add: getFreeSpace_def)
  also have "\<dots> = of_nat (capacity b - length (contents b) - ?n)"
    using n by (simp add: of_nat_diff)
  finally show ?thesis using n by (simp add: getFreeSpace_def min_absorb2)
qed

lemma handle_uart_interrupt_rx_buffer:
  assumes "uart_isr_enabled nr s" "\<not> bitRead (options (heap s a)) UART_OPT_CALLBACK_RAW"
      "READ_INT_ST nr s \<noteq> 0"
  shows "rx_buffer (heap (handle_uart_interrupt nr (Some a) s) a)
     = rx_buffer (heap (snd (isr_rx_events nr a (READ_INT_ST nr s) (READ_INT_ST nr s) s)) a)"
proof -
  let ?usis = "READ_INT_ST nr s"
  let ?r1 = "isr_rx_events nr a ?usis ?usis s"
  let ?r2 = "isr_tx_events nr a ?usis (fst ?r1) (snd ?r1)"
  have m2: "tx_masked (snd ?r2) = tx_masked (snd ?r1)" by (rule isr_tx_events_masked)
  show ?thesis
    using assms tx_masked_fields(8)[OF m2, of a]
    by (simp add: handle_uart_interrupt_def Let_def split_def WRITE_INT_CLR_def upd_regs_def
        upd_uart_def split: option.splits)
qed

lemma rx_scene_eval:
  "heap (rx_scene cs fs) 0 = (heap open0 0)\<lparr>rx_headroom := 2, callback := Some 7,
                            rx_buffer := Some \<lparr>capacity = 8, contents = cs\<rparr>\<rparr>"
  "regs (rx_scene cs fs) 0 = (regs open0 0)\<lparr>INT_RAW := UART_RXFIFO_FULL_INT, rx_fifo := fs\<rparr>"
  "isrMask (rx_scene cs fs) = 1" "trace (rx_scene cs fs) = []"
  by (simp_all add: rx_scene_def upd_regs_def upd_uart_def open0_eval)

lemmas isr_defs = handle_uart_interrupt_def isr_rx_events_def isr_tx_events_def
  rx_drain_loop.simps rx_drain_body_def tx_fill_loop.simps tx_fill_body_def
  getFreeSpace_def available_def writeChar_def readChar_def

text \<open>
  C3 (as amended). In the receive interrupt handler, not in raw mode, with a receive
  buffer, a registered data callback and the FIFO-full event pending: the handler drains
  \<open>min(FIFO count, free space)\<close> bytes into the buffer, and the FIFO-full bit is in the
  status word passed to the data callback exactly when the free space left after the drain
  is at most \<open>rx_headroom\<close>; when the free space exceeds the headroom the bit is removed,
  and a status word of zero means no callback.
\<close>

theorem isr_fifo_full_callback_rule:
  assumes "uart_isr_enabled nr s" "\<not> bitRead (options (heap s a)) UART_OPT_CALLBACK_RAW"
      "rx_buffer (heap s a) = Some b" "READ_INT_ST nr s AND UART_RXFIFO_FULL_INT \<noteq> 0"
      "callback (heap s a) = Some cb"
      "length (contents b) \<le> capacity b" "capacity b < 2 ^ 32"
      "length (rx_fifo (regs s nr)) < 256"
  shows "\<exists>st b'. trace (handle_uart_interrupt nr (Some a) s)
                 = trace s @ (if st = 0 then [] else [DataCallback cb a st]) \<and>
              rx_buffer (heap (handle_uart_interrupt nr (Some a) s) a) = Some b' \<and>
              contents b' = contents b @ take (unat (rx_drain_count nr b s)) (rx_fifo (regs s nr)) \<and>
              ((st AND UART_RXFIFO_FULL_INT \<noteq> 0)
                 = (getFreeSpace b' \<le> ucast (rx_headroom (heap s a))))"
proof -
  let ?usis = "READ_INT_ST nr s"
  let ?b' = "b\<lparr>contents := contents b @ take (unat (rx_drain_count nr b s)) (rx_fifo (regs s nr))\<rparr>"
  have b0: "bit ?usis 0"
    using assms(4) unfolding UART_RXFIFO_FULL_INT_def and_bit_neq_0 .
  then have nz: "?usis \<noteq> 0" by auto
  have ev: "?usis AND (UART_RXFIFO_FULL_INT OR UART_RXFIFO_TOUT_INT OR UART_RXFIFO_OVF_INT) \<noteq> 0"
  proof
    assume z: "?usis AND (UART_RXFIFO_FULL_INT OR UART_RXFIFO_TOUT_INT OR UART_RXFIFO_OVF_INT) = 0"
    have "bit (?usis AND (UART_RXFIFO_FULL_INT OR UART_RXFIFO_TOUT_INT OR UART_RXFIFO_OVF_INT)) 0"
      using b0 by (simp add: bit_simps bit_consts)
    then show False unfolding z by simp
  qed
  obtain st where st: "trace (handle_uart_interrupt nr (Some a) s)
                 = trace s @ (if st = 0 then [] else [DataCallback cb a st])"
      "(st AND UART_RXFIFO_FULL_INT \<noteq> 0)
                 = (rx_space_after_drain nr b s \<le> ucast (rx_headroom (heap s a)))"
    using isr_fifo_full_bit_rule[OF assms(1-5)] by blast
  have rb: "rx_buffer (heap (handle_uart_interrupt nr (Some a) s) a) = Some ?b'"
    using handle_uart_interrupt_rx_buffer[OF assms(1,2) nz]
      isr_rx_events_buffer(1)[OF assms(3) ev assms(8,7,6)] by simp
  have fs: "getFreeSpace ?b' = rx_space_after_drain nr b s"
    by (rule free_space_after_drain[OF assms(8,7,6)])
  show ?thesis
    apply (rule exI[of _ st], rule exI[of _ ?b'])
    using st rb fs by simp
qed

text \<open>
  Witness for C3 as amended, with capacity 8 and headroom 2: six bytes delivered leave
  free space 2, and the callback fires; a further byte leaves free space 1, and it fires;
  five bytes delivered leave free space 3, and the notification is suppressed.
\<close>

theorem isr_fifo_full_callback_rule_witness:
  "uart_isr_enabled 0 (rx_scene [] [1, 2, 3, 4, 5, 6]) \<and>
   \<not> bitRead (options (heap (rx_scene [] [1, 2, 3, 4, 5, 6]) 0)) UART_OPT_CALLBACK_RAW \<and>
   rx_buffer (heap (rx_scene [] [1, 2, 3, 4, 5, 6]) 0) = Some \<lparr>capacity = 8, contents = []\<rparr> \<and>
   READ_INT_ST 0 (rx_scene [] [1, 2, 3, 4, 5, 6]) AND UART_RXFIFO_FULL_INT \<noteq> 0 \<and>
   callback (heap (rx_scene [] [1, 2, 3, 4, 5, 6]) 0) = Some 7 \<and>
   (\<exists>st b'. trace (handle_uart_interrupt 0 (Some 0) (rx_scene [] [1, 2, 3, 4, 5, 6]))
               = trace (rx_scene [] [1, 2, 3, 4, 5, 6]) @ (if st = 0 then [] else [DataCallback 7 0 st]) \<and>
            rx_buffer (heap (handle_uart_interrupt 0 (Some 0) (rx_scene [] [1, 2, 3, 4, 5, 6])) 0) = Some b' \<and>
            contents b' = [1, 2, 3, 4, 5, 6] \<and>
            ((st AND UART_RXFIFO_FULL_INT \<noteq> 0) = (getFreeSpace b' \<le> 2))) \<and>
   trace (handle_uart_interrupt 0 (Some 0) (rx_scene [1, 2, 3, 4, 5, 6] [7]))
     = [DataCallback 7 0 UART_RXFIFO_FULL_INT] \<and>
   rx_buffer (heap (handle_uart_interrupt 0 (Some 0) (rx_scene [] [1, 2, 3, 4, 5])) 0)
     = Some \<lparr>capacity = 8, contents = [1, 2, 3, 4, 5]\<rparr> \<and>
   trace (handle_uart_interrupt 0 (Some 0) (rx_scene [] [1, 2, 3, 4, 5])) = []"
proof -
  let ?s = "rx_scene [] [1, 2, 3, 4, 5, 6]"
  let ?b = "\<lparr>capacity = 8, contents = []\<rparr> :: SerialBuffer"
  have h: "uart_isr_enabled 0 ?s" "\<not> bitRead (options (heap ?s 0)) UART_OPT_CALLBACK_RAW"
    "rx_buffer (heap ?s 0) = Some ?b" "READ_INT_ST 0 ?s AND UART_RXFIFO_FULL_INT \<noteq> 0"
    "callback (heap ?s 0) = Some 7" "length (contents ?b) \<le> capacity ?b" "capacity ?b < 2 ^ 32"
    "length (rx_fifo (regs ?s 0)) < 256"
    by (simp_all add: rx_scene_eval open0_eval boot_regs_def prim_defs uart_consts)
  have n: "unat (rx_drain_count 0 ?b ?s) = 6"
    by (simp add: rx_drain_count_def rx_scene_eval open0_eval boot_regs_def prim_defs getFreeSpace_def)
  have r: "rx_headroom (heap ?s 0) = 2" "rx_fifo (regs ?s 0) = [1, 2, 3, 4, 5, 6]"
    by (simp_all add: rx_scene_eval)
  have e: "trace (handle_uart_interrupt 0 (Some 0) (rx_scene [1, 2, 3, 4, 5, 6] [7]))
     = [DataCallback 7 0 UART_RXFIFO_FULL_INT]"
   "rx_buffer (heap (handle_uart_interrupt 0 (Some 0) (rx_scene [] [1, 2, 3, 4, 5])) 0)
     = Some \<lparr>capacity = 8, contents = [1, 2, 3, 4, 5]\<rparr>"
   "trace (handle_uart_interrupt 0 (Some 0) (rx_scene [] [1, 2, 3, 4, 5])) = []"
    by (simp_all add: isr_defs rx_scene_def open0_eval prim_defs uart_consts Let_def)
  show ?thesis
    using h(1-5) e isr_fifo_full_callback_rule[OF h] by (simp add: n r)
qed

text \<open>
  Counterexample to C3 as stated: capacity 8, headroom 2, six bytes in the hardware
  FIFO and the FIFO-full interrupt pending. After the handler the six bytes are in the
  buffer, the free space 2 equals the headroom, and the data callback has been called
  with the FIFO-full bit.
\<close>

theorem isr_fifo_full_callback_at_headroom:
  "rx_buffer (heap (handle_uart_interrupt 0 (Some 0) (rx_scene [] [1, 2, 3, 4, 5, 6])) 0)
     = Some \<lparr>capacity = 8, contents = [1, 2, 3, 4, 5, 6]\<rparr> \<and>
   getFreeSpace \<lparr>capacity = 8, contents = [1, 2, 3, 4, 5, 6]\<rparr> = 2 \<and>
   rx_headroom (heap (rx_scene [] [1, 2, 3, 4, 5, 6]) 0) = 2 \<and>
   trace (rx_scene [] [1, 2, 3, 4, 5, 6]) = [] \<and>
   trace (handle_uart_interrupt 0 (Some 0) (rx_scene [] [1, 2, 3, 4, 5, 6]))
     = [DataCallback 7 0 UART_RXFIFO_FULL_INT]"
  by (simp add: handle_uart_interrupt_def isr_rx_events_def isr_tx_events_def rx_drain_loop.simps
      rx_drain_body_def rx_scene_def open0_eval prim_defs uart_consts Let_def getFreeSpace_def writeChar_def)

text \<open>
  C4, the failing input. UART0 with its 8-byte receive buffer full, one byte in the
  hardware FIFO and the FIFO-full interrupt pending: the handler drains no byte, and the
  FIFO-full and receive-timeout enable bits are still set when it returns.
\<close>

theorem isr_full_buffer_keeps_rx_interrupts_armed:
  "rx_buffer (heap (rx_scene [1, 2, 3, 4, 5, 6, 7, 8] [9]) 0)
     = Some \<lparr>capacity = 8, contents = [1, 2, 3, 4, 5, 6, 7, 8]\<rparr> \<and>
   rx_drain_count 0 \<lparr>capacity = 8, contents = [1, 2, 3, 4, 5, 6, 7, 8]\<rparr>
     (rx_scene [1, 2, 3, 4, 5, 6, 7, 8] [9]) = 0 \<and>
   READ_INT_ST 0 (rx_scene [1, 2, 3, 4, 5, 6, 7, 8] [9]) = UART_RXFIFO_FULL_INT \<and>
   rx_fifo (regs (handle_uart_interrupt 0 (Some 0) (rx_scene [1, 2, 3, 4, 5, 6, 7, 8] [9])) 0) = [9] \<and>
   INT_ENA (regs (handle_uart_interrupt 0 (Some 0) (rx_scene [1, 2, 3, 4, 5, 6, 7, 8] [9])) 0)
     AND (UART_RXFIFO_FULL_INT OR UART_RXFIFO_TOUT_INT)
     = UART_RXFIFO_FULL_INT OR UART_RXFIFO_TOUT_INT"
  by (simp add: isr_defs rx_drain_count_def rx_scene_def open0_eval prim_defs uart_consts Let_def boot_regs_def)

text \<open>
  The cause: after \<open>while(read-- != 0)\<close> the variable \<open>read\<close> has wrapped to
  \<open>SIZE_MAX\<close>, so with a receive buffer the test \<open>read == 0\<close> never holds and, without
  an overflow event, the receive section leaves the enable register as it was.
\<close>

lemma isr_rx_events_keeps_full_enabled:
  assumes "rx_buffer (heap s a) = Some b" "usis AND UART_RXFIFO_OVF_INT = 0"
  shows "INT_ENA (regs (snd (isr_rx_events nr a usis st s)) m) = INT_ENA (regs s m)"
proof -
  have "INT_ENA (regs ((rx_drain_body nr a ^^ n) s) m) = INT_ENA (regs s m)" for n
  proof (induction n arbitrary: s)
    case 0
    then show ?case by simp
  next
    case (Suc n)
    have "INT_ENA (regs (rx_drain_body nr a s) m) = INT_ENA (regs s m)"
      by (simp add: rx_drain_body_def READ_FIFO_def upd_uart_def upd_regs_def split: list.splits)
    then show ?case using Suc[of "rx_drain_body nr a s"] by (simp add: funpow_swap1)
  qed
  then show ?thesis
    using assms
    by (simp add: isr_rx_events_def Let_def split_def rx_drain_loop_snd rx_drain_loop_fst)
qed

subsection \<open>Transmit events\<close>

lemma txe_armed_bit: "txe_armed nr s = bit (INT_ENA (regs s nr)) (Suc 0)"
  unfolding txe_armed_def UART_TXFIFO_EMPTY_INT_def and_bit_neq_0 by simp

lemma txe_status_bit: "(st AND UART_TXFIFO_EMPTY_INT \<noteq> 0) = bit st (Suc 0)" for st :: "32 word"
  unfolding UART_TXFIFO_EMPTY_INT_def and_bit_neq_0 by simp

lemma txe_const_bit: "bit UART_TXFIFO_EMPTY_INT (Suc 0)"
  by (simp add: UART_TXFIFO_EMPTY_INT_def bit_simps)

lemma unat_tx_fill_count:
  assumes "length (contents b) < 2 ^ 32"
  shows "unat (tx_fill_count nr b s) = min (length (contents b)) (unat (uart_txfifo_free nr s))"
proof -
  have a: "unat (available b) = length (contents b)"
    using assms by (simp add: available_def unat_of_nat_32)
  show ?thesis
    by (simp add: tx_fill_count_def Let_def word_le_nat_alt a unat_ucast_8_32 min_def)
qed

lemma isr_tx_events_some:
  assumes "tx_buffer (heap s a) = Some b" "usis AND UART_TXFIFO_EMPTY_INT \<noteq> 0"
  shows "isr_tx_events nr a usis st s =
     (if uart_txfifo_count nr ((tx_fill_body nr a ^^ unat (tx_fill_count nr b s)) s) = 0
      then (st, CLEAR_INT_ENA_MASK nr UART_TXFIFO_EMPTY_INT
                  ((tx_fill_body nr a ^^ unat (tx_fill_count nr b s)) s))
      else (st AND NOT UART_TXFIFO_EMPTY_INT, (tx_fill_body nr a ^^ unat (tx_fill_count nr b s)) s))"
  using assms
  by (simp add: isr_tx_events_def Let_def tx_fill_count_def tx_fill_loop_snd)

lemma isr_tx_events_none:
  assumes "tx_buffer (heap s a) = None" "usis AND UART_TXFIFO_EMPTY_INT \<noteq> 0"
  shows "isr_tx_events nr a usis st s =
     (if uart_txfifo_count nr s = 0
      then (st, CLEAR_INT_ENA_MASK nr UART_TXFIFO_EMPTY_INT s)
      else (st AND NOT UART_TXFIFO_EMPTY_INT, s))"
  using assms by (simp add: isr_tx_events_def Let_def)

lemma handle_uart_interrupt_after:
  assumes "uart_isr_enabled nr s" "\<not> bitRead (options (heap s a)) UART_OPT_CALLBACK_RAW"
      "READ_INT_ST nr s \<noteq> 0"
  shows "tx_fifo (regs (handle_uart_interrupt nr (Some a) s) nr)
           = tx_fifo (regs (snd (isr_tx_events nr a (READ_INT_ST nr s)
               (fst (isr_rx_events nr a (READ_INT_ST nr s) (READ_INT_ST nr s) s))
               (snd (isr_rx_events nr a (READ_INT_ST nr s) (READ_INT_ST nr s) s)))) nr)"
    and "INT_ENA (regs (handle_uart_interrupt nr (Some a) s) nr)
           = INT_ENA (regs (snd (isr_tx_events nr a (READ_INT_ST nr s)
               (fst (isr_rx_events nr a (READ_INT_ST nr s) (READ_INT_ST nr s) s))
               (snd (isr_rx_events nr a (READ_INT_ST nr s) (READ_INT_ST nr s) s)))) nr)"
    and "tx_buffer (heap (handle_uart_interrupt nr (Some a) s) a)
           = tx_buffer (heap (snd (isr_tx_events nr a (READ_INT_ST nr s)
               (fst (isr_rx_events nr a (READ_INT_ST nr s) (READ_INT_ST nr s) s))
               (snd (isr_rx_events nr a (READ_INT_ST nr s) (READ_INT_ST nr s) s)))) a)"
  using assms
  by (simp_all add: handle_uart_interrupt_def Let_def split_def WRITE_INT_CLR_def upd_regs_def
      upd_uart_def split: option.splits)

lemma isr_rx_events_txe_bit:
  "bit (fst (isr_rx_events nr a usis st s)) (Suc 0) = bit st (Suc 0)"
  by (simp add: isr_rx_events_def Let_def split_def bit_simps bit_consts split: option.splits)

text \<open>
  No step other than \<open>smg_uart_write\<close> enables the FIFO-empty interrupt source.
\<close>

lemma regs_prims:
  "regs (uart0_pin_select p s) = regs s" "regs (uart0_pin_restore p s) = regs s"
  "regs (upd_uart a f s) = regs s" "regs (s\<lparr>SWAP_REG := x\<rparr>) = regs s"
  by (simp_all add: uart0_pin_select_def uart0_pin_restore_def PIN_FUNC_SELECT_def upd_uart_def)

lemma regs_pins:
  "regs (smg_uart_swap u t s) = regs s"
  "regs (snd (smg_uart_set_tx u t s)) = regs s"
  by (simp_all add: smg_uart_swap_def smg_uart_set_tx_def Let_def regs_prims split: option.splits)

lemma regs_set_pins: "regs (snd (smg_uart_set_pins u t r s)) = regs s"
  by (simp add: smg_uart_set_pins_def Let_def split_def regs_pins split: option.splits)

lemma txe_pins:
  "txe_armed m (smg_uart_swap u t s) = txe_armed m s"
  "txe_armed m (snd (smg_uart_set_tx u t s)) = txe_armed m s"
  "txe_armed m (snd (smg_uart_set_pins u t r s)) = txe_armed m s"
  by (simp_all add: txe_armed_def regs_pins regs_set_pins)

lemma txe_prims:
  "txe_armed m (upd_uart a f s) = txe_armed m s"
  "txe_armed m (notify a c s) = txe_armed m s"
  "txe_armed m (uart0_pin_select p s) = txe_armed m s"
  "txe_armed m (uart1_pin_select p s) = txe_armed m s"
  "txe_armed m (WRITE_CONF0 nr v s) = txe_armed m s"
  "txe_armed m (SET_CONF0_MASK nr v s) = txe_armed m s"
  "txe_armed m (CLEAR_CONF0_MASK nr v s) = txe_armed m s"
  "txe_armed m (WRITE_CONF1 nr v s) = txe_armed m s"
  "txe_armed m (WRITE_INT_CLR nr v s) = txe_armed m s"
  "txe_armed m (smg_uart_disable_interrupts s) = txe_armed m s"
  "txe_armed m (smg_uart_restore_interrupts s) = txe_armed m s"
  "txe_armed m (ETS_UART_INTR_DISABLE s) = txe_armed m s"
  "txe_armed m (ETS_UART_INTR_ENABLE s) = txe_armed m s"
  "txe_armed m (ETS_UART_INTR_ATTACH s) = txe_armed m s"
  "txe_armed m (s\<lparr>SWAP_REG := x\<rparr>) = txe_armed m s"
  "txe_armed m (s\<lparr>isrMask := y\<rparr>) = txe_armed m s"
  "txe_armed m (s\<lparr>uartInstances := z\<rparr>) = txe_armed m s"
  "txe_armed m (s\<lparr>heap := h\<rparr>) = txe_armed m s"
  "txe_armed m (s\<lparr>next_addr := n\<rparr>) = txe_armed m s"
  by (simp_all add: txe_armed_def uart0_pin_select_def uart1_pin_select_def prim_defs
      split: option.splits)

lemma txe_ena_writes:
  "txe_armed m (WRITE_INT_ENA nr v s) = (if m = nr then v AND UART_TXFIFO_EMPTY_INT \<noteq> 0 else txe_armed m s)"
  "txe_armed m (CLEAR_INT_ENA_MASK nr v s) \<Longrightarrow> txe_armed m s"
  "txe_armed m (SET_INT_ENA_MASK nr
      (UART_RXFIFO_FULL_INT OR UART_RXFIFO_TOUT_INT OR UART_RXFIFO_OVF_INT) s) = txe_armed m s"
    apply (simp add: txe_armed_def WRITE_INT_ENA_def upd_regs_def)
   apply (simp add: txe_armed_bit CLEAR_INT_ENA_MASK_def WRITE_INT_ENA_def upd_regs_def bit_simps
      split: if_splits)
  apply (simp add: txe_armed_bit SET_INT_ENA_MASK_def WRITE_INT_ENA_def upd_regs_def bit_simps
      bit_consts)
  done

lemma txe_clear_self: "\<not> txe_armed nr (CLEAR_INT_ENA_MASK nr UART_TXFIFO_EMPTY_INT s)"
  by (simp add: txe_armed_bit CLEAR_INT_ENA_MASK_def WRITE_INT_ENA_def upd_regs_def bit_simps
      bit_consts)

lemma txe_set_self: "txe_armed nr (SET_INT_ENA_MASK nr UART_TXFIFO_EMPTY_INT s)"
  by (simp add: txe_armed_bit SET_INT_ENA_MASK_def WRITE_INT_ENA_def upd_regs_def bit_simps
      txe_const_bit)

lemma txe_WRITE_INT_ENA_0: "txe_armed m (WRITE_INT_ENA nr 0 s) \<Longrightarrow> txe_armed m s"
  by (simp add: txe_armed_bit WRITE_INT_ENA_def upd_regs_def split: if_splits)

lemma isr_tx_events_txe:
  "txe_armed m (snd (isr_tx_events nr a usis st s)) \<Longrightarrow> txe_armed m s"
  by (auto simp: isr_tx_events_def Let_def txe_armed_bit tx_fill_loop_snd tx_fill_iter_ena
      CLEAR_INT_ENA_MASK_def WRITE_INT_ENA_def upd_regs_def bit_simps
      split: if_splits option.splits)

lemma isr_rx_events_txe:
  "txe_armed m (snd (isr_rx_events nr a usis st s)) = txe_armed m s"
  using rx_masked_txe[OF isr_rx_events_masked, of nr a usis st s m] by (simp add: txe_armed_bit)

lemma handler_txe: "txe_armed m (handle_uart_interrupt nr u s) \<Longrightarrow> txe_armed m s"
proof (cases "READ_INT_ST nr s = 0 \<or> u = None \<or> \<not> uart_isr_enabled nr s")
  case True
  assume "txe_armed m (handle_uart_interrupt nr u s)"
  with True show ?thesis
    by (auto simp: handle_uart_interrupt_def Let_def dest: txe_WRITE_INT_ENA_0 split: option.splits if_splits)
next
  case False
  then obtain a where u: "u = Some a" by auto
  let ?usis = "READ_INT_ST nr s"
  let ?r1 = "isr_rx_events nr a ?usis ?usis s"
  let ?r2 = "isr_tx_events nr a ?usis (fst ?r1) (snd ?r1)"
  assume h: "txe_armed m (handle_uart_interrupt nr u s)"
  show ?thesis
  proof (cases "bitRead (options (heap s a)) UART_OPT_CALLBACK_RAW")
    case True
    with h False u show ?thesis
      by (simp add: handle_uart_interrupt_def Let_def txe_armed_bit WRITE_INT_CLR_def upd_regs_def
          upd_uart_def split: option.splits if_splits)
  next
    case raw: False
    have "INT_ENA (regs (handle_uart_interrupt nr u s) m) = INT_ENA (regs (snd ?r2) m)"
      using False u raw
      by (simp add: handle_uart_interrupt_def Let_def split_def WRITE_INT_CLR_def upd_regs_def
          upd_uart_def split: option.splits)
    then have "txe_armed m (snd ?r2)" using h by (simp add: txe_armed_bit)
    then have "txe_armed m (snd ?r1)" by (rule isr_tx_events_txe)
    then show ?thesis by (simp add: isr_rx_events_txe)
  qed
qed

lemma uart_isr_txe: "txe_armed m (uart_isr s) \<Longrightarrow> txe_armed m s"
  by (auto simp: uart_isr_def Let_def dest!: handler_txe)

lemma read_fifo_loop_ena:
  "INT_ENA (regs (snd (read_fifo_loop nr sz buf s)) m) = INT_ENA (regs s m)"
proof (induction nr sz buf s rule: read_fifo_loop.induct)
  case (1 nr sz buf s)
  show ?case
  proof (cases "length buf < unat sz \<and> uart_rxfifo_count nr s \<noteq> 0")
    case True
    have e: "INT_ENA (regs (snd (READ_FIFO nr s)) m) = INT_ENA (regs s m)"
      by (simp add: READ_FIFO_def upd_regs_def split: list.splits)
    note ih = 1[OF True refl prod.collapse]
    show ?thesis
      by (subst read_fifo_loop.simps) (simp add: split_def Let_def True ih e)
  next
    case False
    then show ?thesis by (subst read_fifo_loop.simps) auto
  qed
qed

lemma read_txe: "txe_armed m (snd (smg_uart_read u b n s)) \<Longrightarrow> txe_armed m s"
  by (auto simp: smg_uart_read_def Let_def split_def txe_armed_bit read_fifo_loop_ena
      SET_INT_ENA_MASK_def WRITE_INT_ENA_def WRITE_INT_CLR_def upd_regs_def upd_uart_def notify_def
      bit_simps bit_consts
      split: option.splits if_splits)

lemma txe_simple:
  "txe_armed m (snd (smg_uart_rx_available u s)) = txe_armed m s"
  "txe_armed m (snd (smg_uart_tx_free u s)) = txe_armed m s"
  "txe_armed m (smg_uart_set_break u b s) = txe_armed m s"
  "txe_armed m (snd (smg_uart_get_status u s)) = txe_armed m s"
  "txe_armed m (snd (smg_uart_set_baudrate_reg n r s)) = txe_armed m s"
  "txe_armed m (snd (smg_uart_set_baudrate u r s)) = txe_armed m s"
  "txe_armed m (snd (smg_uart_set_notify k cb s)) = txe_armed m s"
  "txe_armed m (smg_uart_set_callback u cb p s) = txe_armed m s"
  "txe_armed m (smg_uart_set_format u f s) = txe_armed m s"
  "txe_armed m (snd (smg_uart_intr_config u c s)) = txe_armed m s"
  by (simp_all add: txe_armed_def smg_uart_rx_available_def smg_uart_tx_free_def
      smg_uart_set_break_def smg_uart_get_status_def smg_uart_set_baudrate_reg_def
      smg_uart_set_baudrate_def smg_uart_set_notify_def smg_uart_set_callback_def
      smg_uart_set_format_def smg_uart_intr_config_def Let_def split_def prim_defs
      split: option.splits)

lemma start_isr_txe: "txe_armed m (smg_uart_start_isr u s) \<Longrightarrow> txe_armed m s"
  by (auto simp: smg_uart_start_isr_def Let_def txe_prims txe_ena_writes(1) bit_consts
      split: option.splits if_splits)

lemma flush_txe: "txe_armed m (smg_uart_flush u md s) \<Longrightarrow> txe_armed m s"
  by (auto simp: smg_uart_flush_def Let_def txe_prims txe_ena_writes(3)
      dest!: txe_ena_writes(2) split: option.splits if_splits)

lemma detach_txe: "txe_armed m (smg_uart_detach n s) \<Longrightarrow> txe_armed m s"
  by (auto simp: smg_uart_detach_def Let_def txe_prims txe_ena_writes(1)
      split: option.splits if_splits)

lemma physical_ports: "[0 ..< UART_PHYSICAL_COUNT] = [0, 1]"
  by (simp add: UART_PHYSICAL_COUNT_def numeral_2_eq_2)

lemma detach_all_txe: "txe_armed m (smg_uart_detach_all s) \<Longrightarrow> txe_armed m s"
  by (auto simp: smg_uart_detach_all_def detach_regs_def Let_def txe_prims txe_ena_writes(1)
      physical_ports split: option.splits if_splits)

lemma init_ex_port_txe:
  "init_ex_port cfg a s = Some s1 \<Longrightarrow> txe_armed m s1 \<Longrightarrow> txe_armed m s"
  by (auto simp: init_ex_port_def Let_def txe_prims
      dest!: detach_txe split: option.splits if_splits)

lemma init_ex_txe: "txe_armed m (snd (smg_uart_init_ex cfg s)) \<Longrightarrow> txe_armed m s"
proof -
  assume h: "txe_armed m (snd (smg_uart_init_ex cfg s))"
  show ?thesis
  proof (cases "smg_uart_get_uart (cfg_uart_nr cfg) s \<noteq> None \<or> \<not> can_new_uart s")
    case True
    with h show ?thesis by (auto simp: smg_uart_init_ex_def split: if_splits)
  next
    case False
    let ?a = "next_addr s"
    let ?s0 = "s\<lparr>next_addr := Suc ?a,
                   heap := (heap s)(?a :=
                     \<lparr>uart_nr = cfg_uart_nr cfg, baud_rate = 0, mode = cfg_mode cfg,
                      options = cfg_options cfg, rx_pin = UART_PIN_DEFAULT,
                      tx_pin = UART_PIN_DEFAULT, rx_headroom = of_nat DEFAULT_RX_HEADROOM,
                      status = 0, rx_buffer = None, tx_buffer = None, callback = None,
                      param = 0\<rparr>)\<rparr>"
    show ?thesis
    proof (cases "init_ex_port cfg ?a ?s0")
      case None
      with h False show ?thesis by (simp add: smg_uart_init_ex_def Let_def)
    next
      case (Some s1)
      let ?s3 = "smg_uart_flush (Some ?a) UART_FULL
                (snd (smg_uart_set_baudrate (Some ?a) (cfg_baudrate cfg) s1))"
      have "txe_armed m (smg_uart_start_isr (Some ?a)
              (?s3\<lparr>uartInstances := (uartInstances ?s3)(cfg_uart_nr cfg := Some ?a)\<rparr>))"
        using h False Some by (simp add: smg_uart_init_ex_def Let_def txe_prims)
      then have "txe_armed m ?s3"
        by (auto dest!: start_isr_txe simp: txe_prims)
      then have "txe_armed m s1"
        by (auto dest!: flush_txe simp: txe_simple)
      then have "txe_armed m ?s0" by (rule init_ex_port_txe[OF Some])
      then show ?thesis by (simp add: txe_armed_def)
    qed
  qed
qed

lemma run_step_txe: "txe_armed m (run_step c s) \<Longrightarrow> txe_armed m s"
proof (cases c)
  case (Hardware nr rx tx raw)
  assume "txe_armed m (run_step c s)"
  with Hardware show ?thesis by (simp add: txe_armed_def upd_regs_def split: if_splits)
qed (auto simp: txe_simple txe_pins
       dest: uart_isr_txe read_txe start_isr_txe flush_txe init_ex_txe detach_txe detach_all_txe)

lemma run_steps_txe: "txe_armed m (fold run_step cs s) \<Longrightarrow> txe_armed m s"
  by (induction cs arbitrary: s) (auto dest: run_step_txe)

text \<open>
  \<open>smg_uart_write\<close> does enable it: without the transmit-wait option, on a physical
  port whose transmit buffer is absent or empty, the call makes one pass and returns with
  the FIFO-empty source enabled.
\<close>

lemma heap_write_fifo_loop: "heap (snd (write_fifo_loop nr buf w s)) = heap s"
proof (induction nr buf w s rule: write_fifo_loop.induct)
  case (1 nr buf written s)
  show ?case
  proof (cases "written < length buf \<and> \<not> uart_txfifo_full nr s")
    case True
    then show ?thesis
      using 1[OF True] by (subst write_fifo_loop.simps) (simp add: WRITE_FIFO_def upd_regs_def)
  next
    case False
    then show ?thesis by (subst write_fifo_loop.simps) auto
  qed
qed

lemma write_pass_frame:
  "options (heap (snd (write_pass a buf w s)) a) = options (heap s a)"
  by (simp add: write_pass_def Let_def split_def heap_write_fifo_loop prim_defs
      split: option.splits)

lemma write_pass_arms:
  assumes "is_physical_uart (Some a) s"
      "case tx_buffer (heap s a) of None \<Rightarrow> True | Some b \<Rightarrow> isEmpty b"
  shows "txe_armed (uart_nr (heap s a)) (snd (write_pass a buf w s))"
  using assms
  by (simp add: write_pass_def Let_def split_def txe_prims txe_set_self split: option.splits)

lemma smg_uart_write_arms:
  assumes "smg_uart_tx_enabled (Some a) s" "is_physical_uart (Some a) s" "buf \<noteq> []"
      "case tx_buffer (heap s a) of None \<Rightarrow> True | Some b \<Rightarrow> isEmpty b"
      "\<not> bitRead (options (heap s a)) UART_OPT_TXWAIT"
  shows "smg_uart_write (Some a) (Some buf) s = Some (write_pass a buf 0 s) \<and>
         txe_armed (uart_nr (heap s a)) (snd (write_pass a buf 0 s))"
  using assms write_pass_arms[OF assms(2,4), of buf 0]
  by (simp add: smg_uart_write_def write_loop.simps[of a buf 0 s] write_pass_frame)

text \<open>
  The effect of the handler on a transmit-FIFO-empty interrupt, in the terms of the code:
  with a transmit buffer, \<open>min(available, uart_txfifo_free)\<close> bytes move, in order, from
  the buffer to the hardware FIFO; without one, nothing moves. Then, in both cases, the
  test of \<open>uart_txfifo_count\<close> decides between disabling the FIFO-empty source and
  removing the FIFO-empty bit from the status word of the data callback.
\<close>

lemma isr_tx_refill_buffered:
  assumes en: "uart_isr_enabled nr s"
      and raw: "\<not> bitRead (options (heap s a)) UART_OPT_CALLBACK_RAW"
      and ev: "READ_INT_ST nr s AND UART_TXFIFO_EMPTY_INT \<noteq> 0"
      and buf: "tx_buffer (heap s a) = Some b"
      and len: "length (contents b) < 2 ^ 32"
  shows "let s' = handle_uart_interrupt nr (Some a) s;
             n = min (length (contents b)) (unat (uart_txfifo_free nr s))
         in tx_fifo (regs s' nr) = tx_fifo (regs s nr) @ take n (contents b) \<and>
            tx_buffer (heap s' a) = Some (b\<lparr>contents := drop n (contents b)\<rparr>) \<and>
            (\<exists>st. trace s' = trace s @ (case callback (heap s a) of
                                           None \<Rightarrow> []
                                         | Some cb \<Rightarrow> if st = 0 then [] else [DataCallback cb a st]) \<and>
                  (if uart_txfifo_count nr s' = 0
                   then \<not> txe_armed nr s' \<and> (\<forall>cs. \<not> txe_armed nr (fold run_step cs s')) \<and>
                        st AND UART_TXFIFO_EMPTY_INT \<noteq> 0
                   else txe_armed nr s' \<and> st AND UART_TXFIFO_EMPTY_INT = 0))"
proof -
  let ?usis = "READ_INT_ST nr s"
  let ?r1 = "isr_rx_events nr a ?usis ?usis s"
  let ?r2 = "isr_tx_events nr a ?usis (fst ?r1) (snd ?r1)"
  let ?s' = "handle_uart_interrupt nr (Some a) s"
  let ?n = "min (length (contents b)) (unat (uart_txfifo_free nr s))"
  have b1: "bit ?usis (Suc 0)" using ev by (simp add: txe_status_bit)
  then have nz: "?usis \<noteq> 0" by auto
  have armed: "txe_armed nr s"
    using b1 by (simp add: txe_armed_bit READ_INT_ST_def bit_simps)
  have m1: "rx_masked (snd ?r1) = rx_masked s" by (rule isr_rx_events_masked)
  have buf1: "tx_buffer (heap (snd ?r1) a) = Some b"
    using rx_masked_fields(8)[OF m1, of a] buf by simp
  have fifo1: "tx_fifo (regs (snd ?r1) nr) = tx_fifo (regs s nr)"
    by (rule rx_masked_fields(12)[OF m1])
  have free1: "uart_txfifo_free nr (snd ?r1) = uart_txfifo_free nr s"
    by (simp add: uart_txfifo_free_def uart_txfifo_count_def fifo1)
  have cnt: "unat (tx_fill_count nr b (snd ?r1)) = ?n"
    by (simp add: unat_tx_fill_count[OF len] free1)
  let ?s1 = "(tx_fill_body nr a ^^ ?n) (snd ?r1)"
  have r2: "?r2 = (if uart_txfifo_count nr ?s1 = 0
                   then (fst ?r1, CLEAR_INT_ENA_MASK nr UART_TXFIFO_EMPTY_INT ?s1)
                   else (fst ?r1 AND NOT UART_TXFIFO_EMPTY_INT, ?s1))"
    using isr_tx_events_some[OF buf1 ev, of nr "fst ?r1"] by (simp add: cnt)
  have eff: "tx_fifo (regs ?s1 nr) = tx_fifo (regs s nr) @ take ?n (contents b)"
            "tx_buffer (heap ?s1 a) = Some (b\<lparr>contents := drop ?n (contents b)\<rparr>)"
    using tx_fill_iter_eff[OF buf1, of ?n nr] by (simp_all add: fifo1)
  have ena1: "txe_armed nr ?s1"
    using armed by (simp add: txe_armed_def tx_fill_iter_ena isr_rx_events_txe[unfolded txe_armed_def])
  note after = handle_uart_interrupt_after[OF en raw nz]
  have f: "tx_fifo (regs ?s' nr) = tx_fifo (regs s nr) @ take ?n (contents b)"
    using eff(1) by (simp add: after(1) r2 CLEAR_INT_ENA_MASK_def WRITE_INT_ENA_def upd_regs_def)
  have tb: "tx_buffer (heap ?s' a) = Some (b\<lparr>contents := drop ?n (contents b)\<rparr>)"
    using eff(2) by (simp add: after(3) r2 CLEAR_INT_ENA_MASK_def WRITE_INT_ENA_def upd_regs_def)
  have c: "uart_txfifo_count nr ?s' = uart_txfifo_count nr ?s1"
    by (simp add: uart_txfifo_count_def f eff(1))
  have "txe_armed nr ?s' = txe_armed nr (snd ?r2)"
    by (simp add: txe_armed_def after(2))
  then have e: "txe_armed nr ?s' = (uart_txfifo_count nr ?s1 \<noteq> 0)"
    using ena1 by (simp add: r2 txe_clear_self)
  have st: "(fst ?r2 AND UART_TXFIFO_EMPTY_INT \<noteq> 0) = (uart_txfifo_count nr ?s1 = 0)"
    using b1 by (simp add: r2 txe_status_bit isr_rx_events_txe_bit bit_simps txe_const_bit)
  have tr: "trace ?s' = trace s @ (case callback (heap s a) of
                                           None \<Rightarrow> []
                                         | Some cb \<Rightarrow> if fst ?r2 = 0 then [] else [DataCallback cb a (fst ?r2)])"
    by (simp add: handle_uart_interrupt_trace[OF en raw nz] Let_def split: option.splits)
  have never: "\<not> txe_armed nr ?s' \<Longrightarrow> \<forall>cs. \<not> txe_armed nr (fold run_step cs ?s')"
    using run_steps_txe by blast
  show ?thesis
    unfolding Let_def
    apply (intro conjI f tb exI[of _ "fst ?r2"] tr)
    using e st never by (auto simp: c)
qed

lemma isr_tx_refill_unbuffered:
  assumes en: "uart_isr_enabled nr s"
      and raw: "\<not> bitRead (options (heap s a)) UART_OPT_CALLBACK_RAW"
      and ev: "READ_INT_ST nr s AND UART_TXFIFO_EMPTY_INT \<noteq> 0"
      and buf: "tx_buffer (heap s a) = None"
  shows "let s' = handle_uart_interrupt nr (Some a) s
         in tx_fifo (regs s' nr) = tx_fifo (regs s nr) \<and>
            tx_buffer (heap s' a) = None \<and>
            (\<exists>st. trace s' = trace s @ (case callback (heap s a) of
                                           None \<Rightarrow> []
                                         | Some cb \<Rightarrow> if st = 0 then [] else [DataCallback cb a st]) \<and>
                  (if uart_txfifo_count nr s' = 0
                   then \<not> txe_armed nr s' \<and> (\<forall>cs. \<not> txe_armed nr (fold run_step cs s')) \<and>
                        st AND UART_TXFIFO_EMPTY_INT \<noteq> 0
                   else txe_armed nr s' \<and> st AND UART_TXFIFO_EMPTY_INT = 0))"
proof -
  let ?usis = "READ_INT_ST nr s"
  let ?r1 = "isr_rx_events nr a ?usis ?usis s"
  let ?r2 = "isr_tx_events nr a ?usis (fst ?r1) (snd ?r1)"
  let ?s' = "handle_uart_interrupt nr (Some a) s"
  have b1: "bit ?usis (Suc 0)" using ev by (simp add: txe_status_bit)
  then have nz: "?usis \<noteq> 0" by auto
  have armed: "txe_armed nr s"
    using b1 by (simp add: txe_armed_bit READ_INT_ST_def bit_simps)
  have m1: "rx_masked (snd ?r1) = rx_masked s" by (rule isr_rx_events_masked)
  have buf1: "tx_buffer (heap (snd ?r1) a) = None"
    using rx_masked_fields(8)[OF m1, of a] buf by simp
  have fifo1: "tx_fifo (regs (snd ?r1) nr) = tx_fifo (regs s nr)"
    by (rule rx_masked_fields(12)[OF m1])
  have c1: "uart_txfifo_count nr (snd ?r1) = uart_txfifo_count nr s"
    by (simp add: uart_txfifo_count_def fifo1)
  have r2: "?r2 = (if uart_txfifo_count nr s = 0
                   then (fst ?r1, CLEAR_INT_ENA_MASK nr UART_TXFIFO_EMPTY_INT (snd ?r1))
                   else (fst ?r1 AND NOT UART_TXFIFO_EMPTY_INT, snd ?r1))"
    using isr_tx_events_none[OF buf1 ev, of nr "fst ?r1"] by (simp add: c1)
  have ena1: "txe_armed nr (snd ?r1)"
    using armed by (simp add: isr_rx_events_txe)
  note after = handle_uart_interrupt_after[OF en raw nz]
  have f: "tx_fifo (regs ?s' nr) = tx_fifo (regs s nr)"
    using fifo1 by (simp add: after(1) r2 CLEAR_INT_ENA_MASK_def WRITE_INT_ENA_def upd_regs_def)
  have tb: "tx_buffer (heap ?s' a) = None"
    using buf1 by (simp add: after(3) r2 CLEAR_INT_ENA_MASK_def WRITE_INT_ENA_def upd_regs_def)
  have c: "uart_txfifo_count nr ?s' = uart_txfifo_count nr s"
    by (simp add: uart_txfifo_count_def f)
  have "txe_armed nr ?s' = txe_armed nr (snd ?r2)"
    by (simp add: txe_armed_def after(2))
  then have e: "txe_armed nr ?s' = (uart_txfifo_count nr s \<noteq> 0)"
    using ena1 by (simp add: r2 txe_clear_self)
  have st: "(fst ?r2 AND UART_TXFIFO_EMPTY_INT \<noteq> 0) = (uart_txfifo_count nr s = 0)"
    using b1 by (simp add: r2 txe_status_bit isr_rx_events_txe_bit bit_simps txe_const_bit)
  have tr: "trace ?s' = trace s @ (case callback (heap s a) of
                                           None \<Rightarrow> []
                                         | Some cb \<Rightarrow> if fst ?r2 = 0 then [] else [DataCallback cb a (fst ?r2)])"
    by (simp add: handle_uart_interrupt_trace[OF en raw nz] Let_def split: option.splits)
  have never: "\<not> txe_armed nr ?s' \<Longrightarrow> \<forall>cs. \<not> txe_armed nr (fold run_step cs ?s')"
    using run_steps_txe by blast
  show ?thesis
    unfolding Let_def
    apply (intro conjI f tb exI[of _ "fst ?r2"] tr)
    using e st never by (auto simp: c)
qed

text \<open>
  The two helpers in terms of the hardware FIFO itself. While the FIFO holds fewer than
  \<open>UART_TX_FIFO_SIZE\<close> bytes, \<open>uart_txfifo_free\<close> is the number of free slots less one,
  and \<open>uart_txfifo_count\<close> is zero exactly when the FIFO is empty.
\<close>

lemma txfifo_free_unat:
  assumes "length (tx_fifo (regs s nr)) < UART_TX_FIFO_SIZE"
  shows "unat (uart_txfifo_free nr s) = UART_TX_FIFO_SIZE - 1 - length (tx_fifo (regs s nr))"
proof -
  let ?l = "length (tx_fifo (regs s nr))"
  have l: "?l < 128" using assms by (simp add: uart_consts)
  have u: "unat (of_nat (127 - ?l) :: 8 word) = 127 - ?l"
    by (rule unat_of_nat_8) simp
  have "uart_txfifo_free nr s = of_nat (127 - ?l)"
    using l by (simp add: uart_txfifo_free_def uart_txfifo_count_def uart_consts)
  then show ?thesis using u by (simp add: uart_consts del: of_nat_diff)
qed

lemma txfifo_count_0:
  assumes "length (tx_fifo (regs s nr)) < 256"
  shows "(uart_txfifo_count nr s = 0) = (tx_fifo (regs s nr) = [])"
proof -
  have "unat (uart_txfifo_count nr s) = length (tx_fifo (regs s nr))"
    using assms by (simp add: uart_txfifo_count_def unat_of_nat_8)
  then show ?thesis by (metis length_0_conv unat_eq_0)
qed

text \<open>
  C5 (as amended). On a transmit-FIFO-empty interrupt, not in raw mode, with fewer than
  \<open>UART_TX_FIFO_SIZE\<close> bytes in the hardware transmit FIFO: the handler moves
  \<open>min(pending, UART_TX_FIFO_SIZE - 1 - FIFO count)\<close> bytes, in order, from the transmit
  buffer to the FIFO, where \<open>pending\<close> is what the transmit buffer holds, nothing on a
  port without a transmit buffer; one slot of the FIFO is always left free. If the FIFO
  is then empty, the FIFO-empty enable bit is cleared, no sequence of steps other than
  \<open>smg_uart_write\<close> sets it again, and the FIFO-empty bit stays in the status word for
  the data callback. Otherwise the enable bit remains set and the FIFO-empty bit is
  removed from the status word. The data callback, if one is registered, is called with
  the status word \<open>st\<close> unless it is zero.
\<close>

theorem isr_tx_fifo_empty_refill:
  assumes en: "uart_isr_enabled nr s"
      and raw: "\<not> bitRead (options (heap s a)) UART_OPT_CALLBACK_RAW"
      and ev: "READ_INT_ST nr s AND UART_TXFIFO_EMPTY_INT \<noteq> 0"
      and room: "length (tx_fifo (regs s nr)) < UART_TX_FIFO_SIZE"
      and len: "length (tx_pending (heap s a)) < 2 ^ 32"
  shows "let s' = handle_uart_interrupt nr (Some a) s;
             n = min (length (tx_pending (heap s a)))
                     (UART_TX_FIFO_SIZE - 1 - length (tx_fifo (regs s nr)))
         in tx_fifo (regs s' nr) = tx_fifo (regs s nr) @ take n (tx_pending (heap s a)) \<and>
            tx_buffer (heap s' a)
              = map_option (\<lambda>b. b\<lparr>contents := drop n (contents b)\<rparr>) (tx_buffer (heap s a)) \<and>
            (\<exists>st. trace s' = trace s @ (case callback (heap s a) of
                                           None \<Rightarrow> []
                                         | Some cb \<Rightarrow> if st = 0 then [] else [DataCallback cb a st]) \<and>
                  (if tx_fifo (regs s' nr) = []
                   then \<not> txe_armed nr s' \<and> (\<forall>cs. \<not> txe_armed nr (fold run_step cs s')) \<and>
                        st AND UART_TXFIFO_EMPTY_INT \<noteq> 0
                   else txe_armed nr s' \<and> st AND UART_TXFIFO_EMPTY_INT = 0))"
proof (cases "tx_buffer (heap s a)")
  case None
  let ?s' = "handle_uart_interrupt nr (Some a) s"
  note u = isr_tx_refill_unbuffered[OF en raw ev None, unfolded Let_def]
  have f: "tx_fifo (regs ?s' nr) = tx_fifo (regs s nr)" using u by simp
  have "length (tx_fifo (regs ?s' nr)) < 256" using room by (simp add: f uart_consts)
  then have z: "(uart_txfifo_count nr ?s' = 0) = (tx_fifo (regs ?s' nr) = [])"
    by (rule txfifo_count_0)
  show ?thesis
    using u unfolding Let_def z by (auto simp: None tx_pending_def)
next
  case (Some b)
  let ?s' = "handle_uart_interrupt nr (Some a) s"
  let ?n = "min (length (contents b)) (UART_TX_FIFO_SIZE - 1 - length (tx_fifo (regs s nr)))"
  have l: "length (contents b) < 2 ^ 32" using len by (simp add: tx_pending_def Some)
  note u = isr_tx_refill_buffered[OF en raw ev Some l, unfolded Let_def txfifo_free_unat[OF room]]
  have f: "tx_fifo (regs ?s' nr) = tx_fifo (regs s nr) @ take ?n (contents b)" using u by simp
  have "length (tx_fifo (regs ?s' nr)) < 256" using room by (simp add: f uart_consts)
  then have z: "(uart_txfifo_count nr ?s' = 0) = (tx_fifo (regs ?s' nr) = [])"
    by (rule txfifo_count_0)
  show ?thesis
    using u unfolding Let_def z by (auto simp: Some tx_pending_def)
qed

lemma tx_scene_eval:
  "heap (tx_scene cs fs) 0 = (heap open0 0)\<lparr>callback := Some 7,
                            tx_buffer := Some \<lparr>capacity = 8, contents = cs\<rparr>\<rparr>"
  "regs (tx_scene cs fs) 0 = (regs open0 0)\<lparr>INT_RAW := UART_TXFIFO_EMPTY_INT,
      INT_ENA := INT_ENA (regs open0 0) OR UART_TXFIFO_EMPTY_INT, tx_fifo := fs\<rparr>"
  "isrMask (tx_scene cs fs) = 1" "trace (tx_scene cs fs) = []"
  by (simp_all add: tx_scene_def upd_regs_def upd_uart_def open0_eval)

lemma tx_bare_scene_eval:
  "heap (tx_bare_scene fs) 0 = (heap open0 0)\<lparr>callback := Some 7, tx_buffer := None\<rparr>"
  "regs (tx_bare_scene fs) 0 = (regs open0 0)\<lparr>INT_RAW := UART_TXFIFO_EMPTY_INT,
      INT_ENA := INT_ENA (regs open0 0) OR UART_TXFIFO_EMPTY_INT, tx_fifo := fs\<rparr>"
  "isrMask (tx_bare_scene fs) = 1" "trace (tx_bare_scene fs) = []"
  by (simp_all add: tx_bare_scene_def upd_regs_def upd_uart_def open0_eval)

lemma tx_big_scene_eval:
  "heap tx_big_scene 0 = (heap open0 0)\<lparr>callback := Some 7,
                            tx_buffer := Some \<lparr>capacity = 128, contents = replicate 128 85\<rparr>\<rparr>"
  "regs tx_big_scene 0 = (regs open0 0)\<lparr>INT_RAW := UART_TXFIFO_EMPTY_INT,
      INT_ENA := INT_ENA (regs open0 0) OR UART_TXFIFO_EMPTY_INT, tx_fifo := []\<rparr>"
  "isrMask tx_big_scene = 1" "trace tx_big_scene = []"
  by (simp_all add: tx_big_scene_def upd_regs_def upd_uart_def open0_eval)

text \<open>
  Witness for C5. Three bytes in the transmit buffer and 125 bytes in the FIFO: two
  bytes move, the third stays in the buffer, the source stays enabled and no callback is
  made. Nothing to send and an empty FIFO: the source is disabled and the callback is
  told that the FIFO is empty. No transmit buffer and an empty FIFO: the same, and no
  further step other than a write enables the source. No transmit buffer and one byte in
  the FIFO: the source stays enabled and no callback is made.
\<close>

theorem isr_tx_fifo_empty_refill_witness:
  "uart_isr_enabled 0 (tx_scene [1, 2, 3] (replicate 125 0)) \<and>
   \<not> bitRead (options (heap (tx_scene [1, 2, 3] (replicate 125 0)) 0)) UART_OPT_CALLBACK_RAW \<and>
   READ_INT_ST 0 (tx_scene [1, 2, 3] (replicate 125 0)) AND UART_TXFIFO_EMPTY_INT \<noteq> 0 \<and>
   length (tx_fifo (regs (tx_scene [1, 2, 3] (replicate 125 0)) 0)) < UART_TX_FIFO_SIZE \<and>
   tx_pending (heap (tx_scene [1, 2, 3] (replicate 125 0)) 0) = [1, 2, 3] \<and>
   tx_fifo (regs (handle_uart_interrupt 0 (Some 0) (tx_scene [1, 2, 3] (replicate 125 0))) 0)
     = replicate 125 0 @ [1, 2] \<and>
   tx_buffer (heap (handle_uart_interrupt 0 (Some 0) (tx_scene [1, 2, 3] (replicate 125 0))) 0)
     = Some \<lparr>capacity = 8, contents = [3]\<rparr> \<and>
   txe_armed 0 (handle_uart_interrupt 0 (Some 0) (tx_scene [1, 2, 3] (replicate 125 0))) \<and>
   trace (handle_uart_interrupt 0 (Some 0) (tx_scene [1, 2, 3] (replicate 125 0))) = [] \<and>
   tx_fifo (regs (handle_uart_interrupt 0 (Some 0) (tx_scene [] [])) 0) = [] \<and>
   \<not> txe_armed 0 (handle_uart_interrupt 0 (Some 0) (tx_scene [] [])) \<and>
   trace (handle_uart_interrupt 0 (Some 0) (tx_scene [] [])) = [DataCallback 7 0 UART_TXFIFO_EMPTY_INT] \<and>
   tx_buffer (heap (tx_bare_scene []) 0) = None \<and>
   tx_fifo (regs (handle_uart_interrupt 0 (Some 0) (tx_bare_scene [])) 0) = [] \<and>
   \<not> txe_armed 0 (handle_uart_interrupt 0 (Some 0) (tx_bare_scene [])) \<and>
   (\<forall>cs. \<not> txe_armed 0 (fold run_step cs (handle_uart_interrupt 0 (Some 0) (tx_bare_scene [])))) \<and>
   trace (handle_uart_interrupt 0 (Some 0) (tx_bare_scene [])) = [DataCallback 7 0 UART_TXFIFO_EMPTY_INT] \<and>
   tx_fifo (regs (handle_uart_interrupt 0 (Some 0) (tx_bare_scene [9])) 0) = [9] \<and>
   txe_armed 0 (handle_uart_interrupt 0 (Some 0) (tx_bare_scene [9])) \<and>
   trace (handle_uart_interrupt 0 (Some 0) (tx_bare_scene [9])) = []"
proof -
  let ?s = "tx_scene [1, 2, 3] (replicate 125 0)"
  let ?t = "tx_scene [] []"
  let ?u = "tx_bare_scene []"
  let ?v = "tx_bare_scene [9]"
  have hs: "uart_isr_enabled 0 ?s" "\<not> bitRead (options (heap ?s 0)) UART_OPT_CALLBACK_RAW"
    "READ_INT_ST 0 ?s AND UART_TXFIFO_EMPTY_INT \<noteq> 0"
    "length (tx_fifo (regs ?s 0)) < UART_TX_FIFO_SIZE" "length (tx_pending (heap ?s 0)) < 2 ^ 32"
    by (simp_all add: tx_scene_eval tx_pending_def open0_eval boot_regs_def prim_defs uart_consts)
  have ht: "uart_isr_enabled 0 ?t" "\<not> bitRead (options (heap ?t 0)) UART_OPT_CALLBACK_RAW"
    "READ_INT_ST 0 ?t AND UART_TXFIFO_EMPTY_INT \<noteq> 0"
    "length (tx_fifo (regs ?t 0)) < UART_TX_FIFO_SIZE" "length (tx_pending (heap ?t 0)) < 2 ^ 32"
    by (simp_all add: tx_scene_eval tx_pending_def open0_eval boot_regs_def prim_defs uart_consts)
  have hu: "uart_isr_enabled 0 ?u" "\<not> bitRead (options (heap ?u 0)) UART_OPT_CALLBACK_RAW"
    "READ_INT_ST 0 ?u AND UART_TXFIFO_EMPTY_INT \<noteq> 0"
    "length (tx_fifo (regs ?u 0)) < UART_TX_FIFO_SIZE" "length (tx_pending (heap ?u 0)) < 2 ^ 32"
    by (simp_all add: tx_bare_scene_eval tx_pending_def open0_eval boot_regs_def prim_defs uart_consts)
  have hv: "uart_isr_enabled 0 ?v" "\<not> bitRead (options (heap ?v 0)) UART_OPT_CALLBACK_RAW"
    "READ_INT_ST 0 ?v AND UART_TXFIFO_EMPTY_INT \<noteq> 0"
    "length (tx_fifo (regs ?v 0)) < UART_TX_FIFO_SIZE" "length (tx_pending (heap ?v 0)) < 2 ^ 32"
    by (simp_all add: tx_bare_scene_eval tx_pending_def open0_eval boot_regs_def prim_defs uart_consts)
  have p: "tx_pending (heap ?s 0) = [1, 2, 3]" "tx_pending (heap ?t 0) = []"
    "tx_pending (heap ?u 0) = []" "tx_pending (heap ?v 0) = []"
    "tx_buffer (heap ?s 0) = Some \<lparr>capacity = 8, contents = [1, 2, 3]\<rparr>"
    "tx_buffer (heap ?u 0) = None"
    "tx_fifo (regs ?s 0) = replicate 125 0" "tx_fifo (regs ?t 0) = []"
    "tx_fifo (regs ?u 0) = []" "tx_fifo (regs ?v 0) = [9]"
    by (simp_all add: tx_scene_eval tx_bare_scene_eval tx_pending_def)
  have tr: "trace (handle_uart_interrupt 0 (Some 0) ?s) = []"
    "trace (handle_uart_interrupt 0 (Some 0) ?t) = [DataCallback 7 0 UART_TXFIFO_EMPTY_INT]"
    "trace (handle_uart_interrupt 0 (Some 0) ?u) = [DataCallback 7 0 UART_TXFIFO_EMPTY_INT]"
    "trace (handle_uart_interrupt 0 (Some 0) ?v) = []"
    by (simp_all add: isr_defs tx_scene_def tx_bare_scene_def open0_eval prim_defs uart_consts Let_def
        boot_regs_def)
  show ?thesis
    using hs(1-4) p tr isr_tx_fifo_empty_refill[OF hs] isr_tx_fifo_empty_refill[OF ht]
      isr_tx_fifo_empty_refill[OF hu] isr_tx_fifo_empty_refill[OF hv]
    by (auto simp: Let_def uart_consts)
qed

text \<open>
  Counterexample to C5 as stated: the hardware FIFO empty, so that all of its
  \<open>UART_TX_FIFO_SIZE\<close> = 128 slots are free, and 128 bytes in the transmit buffer. The
  minimum of the bytes available and the free space of the hardware FIFO is 128, but the
  handler moves 127 bytes and leaves one in the buffer.
\<close>

theorem isr_tx_refill_leaves_one_slot:
  "tx_fifo (regs tx_big_scene 0) = [] \<and>
   tx_pending (heap tx_big_scene 0) = replicate 128 85 \<and>
   min (length (tx_pending (heap tx_big_scene 0)))
       (UART_TX_FIFO_SIZE - length (tx_fifo (regs tx_big_scene 0))) = 128 \<and>
   tx_fifo (regs (handle_uart_interrupt 0 (Some 0) tx_big_scene) 0) = replicate 127 85 \<and>
   tx_buffer (heap (handle_uart_interrupt 0 (Some 0) tx_big_scene) 0)
     = Some \<lparr>capacity = 128, contents = [85]\<rparr>"
proof -
  let ?s = "tx_big_scene"
  let ?b = "\<lparr>capacity = 128, contents = replicate 128 85\<rparr> :: SerialBuffer"
  have h: "uart_isr_enabled 0 ?s" "\<not> bitRead (options (heap ?s 0)) UART_OPT_CALLBACK_RAW"
    "READ_INT_ST 0 ?s AND UART_TXFIFO_EMPTY_INT \<noteq> 0"
    "tx_buffer (heap ?s 0) = Some ?b" "length (contents ?b) < 2 ^ 32"
    by (simp_all add: tx_big_scene_eval open0_eval boot_regs_def prim_defs uart_consts)
  have f: "unat (uart_txfifo_free 0 ?s) = 127"
    by (simp add: uart_txfifo_free_def uart_txfifo_count_def tx_big_scene_eval uart_consts)
  have d: "drop 127 (replicate 128 (85 :: 8 word)) = [85]"
    by simp
  have e: "tx_fifo (regs ?s 0) = []" "tx_pending (heap ?s 0) = replicate 128 85"
    by (simp_all add: tx_big_scene_eval tx_pending_def)
  show ?thesis
    using isr_tx_refill_buffered[OF h] f d e
    by (simp add: Let_def uart_consts)
qed

end
